theory Spec2Isabelle
  imports Complex_Main "HOL-Library.Log_Nat"
begin

section \<open>JavaScript numbers\<close>

text \<open>
  A JavaScript number is an IEEE 754 double: not-a-number, an infinity, a zero with a
  sign, or a finite value, which is a rational. \<open>Finite 0\<close> is the positive zero.
\<close>

datatype jsNumber = NaN | PosInfinity | NegInfinity | NegZero | Finite rat

text \<open>
  The handlers below take the arithmetic of the engine as a parameter: the three
  operations and the two comparisons they use. What is proved of a handler for every
  such arithmetic holds for the arithmetic of doubles in particular.
\<close>

record jsArith =
  numDiv :: "jsNumber \<Rightarrow> jsNumber \<Rightarrow> jsNumber"
  numMul :: "jsNumber \<Rightarrow> jsNumber \<Rightarrow> jsNumber"
  numSub :: "jsNumber \<Rightarrow> jsNumber \<Rightarrow> jsNumber"
  numLt :: "jsNumber \<Rightarrow> jsNumber \<Rightarrow> bool"
  numGt :: "jsNumber \<Rightarrow> jsNumber \<Rightarrow> bool"

subsection \<open>Rounding to the nearest double\<close>

text \<open>Rounding a rational to the nearest integer, a tie going to the even one.\<close>

definition roundNearestEven :: "rat \<Rightarrow> int" where
  "roundNearestEven m =
     (let f = \<lfloor>m\<rfloor>; d = m - of_int f
      in if d < 1 / 2 then f else if 1 / 2 < d then f + 1 else if even f then f else f + 1)"

text \<open>
  The binary exponent of a positive rational \<open>a\<close>: the \<open>e\<close> with
  \<open>2 powi e \<le> a < 2 powi (e + 1)\<close>, found from the bit lengths of numerator and
  denominator.
\<close>

definition exponentOf :: "rat \<Rightarrow> int" where
  "exponentOf a =
     (let e0 = bitlen (fst (quotient_of a)) - bitlen (snd (quotient_of a))
      in if 2 powi e0 \<le> a then e0 else e0 - 1)"

text \<open>
  A positive rational rounded to 53 significant bits, or to a multiple of
  \<open>2 powi (- 1074)\<close> below the normal range. The result may be zero and may reach
  \<open>2 powi 1024\<close>.
\<close>

definition roundMagnitude :: "rat \<Rightarrow> rat" where
  "roundMagnitude a =
     (let e = max (exponentOf a) (- 1022); quantum = 2 powi (e - 52)
      in of_int (roundNearestEven (a / quantum)) * quantum)"

text \<open>
  The double nearest to a rational (ties to even): beyond the largest double the
  result is an infinity, and a negative value that rounds to zero gives the negative
  zero.
\<close>

definition roundDouble :: "rat \<Rightarrow> jsNumber" where
  "roundDouble x =
     (if x = 0 then Finite 0
      else if 0 < x
        then (if 2 powi 1024 \<le> roundMagnitude x then PosInfinity
              else Finite (roundMagnitude x))
        else (if 2 powi 1024 \<le> roundMagnitude (- x) then NegInfinity
              else if roundMagnitude (- x) = 0 then NegZero
              else Finite (- roundMagnitude (- x))))"

subsection \<open>The operations\<close>

fun isNegative :: "jsNumber \<Rightarrow> bool" where
  "isNegative NegInfinity = True"
| "isNegative NegZero = True"
| "isNegative (Finite r) = (r < 0)"
| "isNegative x = False"

fun isInfinite :: "jsNumber \<Rightarrow> bool" where
  "isInfinite PosInfinity = True"
| "isInfinite NegInfinity = True"
| "isInfinite x = False"

fun isZero :: "jsNumber \<Rightarrow> bool" where
  "isZero NegZero = True"
| "isZero (Finite r) = (r = 0)"
| "isZero x = False"

fun valueOf :: "jsNumber \<Rightarrow> rat" where
  "valueOf (Finite r) = r"
| "valueOf x = 0"

definition signedInfinity :: "bool \<Rightarrow> jsNumber" where
  "signedInfinity negative = (if negative then NegInfinity else PosInfinity)"

definition signedZero :: "bool \<Rightarrow> jsNumber" where
  "signedZero negative = (if negative then NegZero else Finite 0)"

text \<open>
  Multiplication, division and subtraction of IEEE 754, with the rounding of a
  finite non-zero exact result as a parameter \<open>rnd\<close>.
\<close>

definition multiplyWith :: "(rat \<Rightarrow> jsNumber) \<Rightarrow> jsNumber \<Rightarrow> jsNumber \<Rightarrow> jsNumber" where
  "multiplyWith rnd x y =
     (if x = NaN \<or> y = NaN then NaN
      else if isInfinite x \<or> isInfinite y
        then (if isZero x \<or> isZero y then NaN
              else signedInfinity (isNegative x \<noteq> isNegative y))
      else if isZero x \<or> isZero y then signedZero (isNegative x \<noteq> isNegative y)
      else rnd (valueOf x * valueOf y))"

definition divideWith :: "(rat \<Rightarrow> jsNumber) \<Rightarrow> jsNumber \<Rightarrow> jsNumber \<Rightarrow> jsNumber" where
  "divideWith rnd x y =
     (if x = NaN \<or> y = NaN then NaN
      else if isInfinite x
        then (if isInfinite y then NaN else signedInfinity (isNegative x \<noteq> isNegative y))
      else if isInfinite y then signedZero (isNegative x \<noteq> isNegative y)
      else if isZero y
        then (if isZero x then NaN else signedInfinity (isNegative x \<noteq> isNegative y))
      else if isZero x then signedZero (isNegative x \<noteq> isNegative y)
      else rnd (valueOf x / valueOf y))"

definition subtractWith :: "(rat \<Rightarrow> jsNumber) \<Rightarrow> jsNumber \<Rightarrow> jsNumber \<Rightarrow> jsNumber" where
  "subtractWith rnd x y =
     (if x = NaN \<or> y = NaN then NaN
      else if isInfinite x
        then (if isInfinite y \<and> isNegative x = isNegative y then NaN else x)
      else if isInfinite y then signedInfinity (\<not> isNegative y)
      else if valueOf x - valueOf y = 0
        then (if x = NegZero \<and> y = Finite 0 then NegZero else Finite 0)
      else rnd (valueOf x - valueOf y))"

text \<open>The comparisons \<^verbatim>\<open><\<close>, \<^verbatim>\<open>>\<close> and \<^verbatim>\<open><=\<close>: false whenever an operand is not a number.\<close>

definition jsLess :: "jsNumber \<Rightarrow> jsNumber \<Rightarrow> bool" where
  "jsLess x y =
     (if x = NaN \<or> y = NaN then False
      else if x = PosInfinity \<or> y = NegInfinity then False
      else if x = NegInfinity \<or> y = PosInfinity then True
      else valueOf x < valueOf y)"

definition jsGreater :: "jsNumber \<Rightarrow> jsNumber \<Rightarrow> bool" where
  "jsGreater x y = jsLess y x"

definition jsLessEq :: "jsNumber \<Rightarrow> jsNumber \<Rightarrow> bool" where
  "jsLessEq x y =
     (if x = NaN \<or> y = NaN then False
      else if x = NegInfinity \<or> y = PosInfinity then True
      else if x = PosInfinity \<or> y = NegInfinity then False
      else valueOf x \<le> valueOf y)"

definition arithmeticWith :: "(rat \<Rightarrow> jsNumber) \<Rightarrow> jsArith" where
  "arithmeticWith rnd =
     \<lparr> numDiv = divideWith rnd, numMul = multiplyWith rnd, numSub = subtractWith rnd,
       numLt = jsLess, numGt = jsGreater \<rparr>"

text \<open>The arithmetic of doubles: every result is rounded to the nearest double.\<close>

definition ieee754 :: jsArith where
  "ieee754 = arithmeticWith roundDouble"

text \<open>
  The arithmetic of the rationals, where no result is rounded. It is what a formula
  gives when read as mathematics and serves to say so; the code does not run on it.
\<close>

definition exactArith :: jsArith where
  "exactArith = arithmeticWith Finite"

section \<open>Coordinate mapping of the scene drop zone\<close>

text \<open>
  The drop zone is a container element showing the scene image with
  \<^verbatim>\<open>object-contain\<close>. \<^verbatim>\<open>ImageUploader.handlePlacement\<close> (mouse click and native
  drop) and \<^verbatim>\<open>App.handleTouchEnd\<close> (simulated touch drag) each carry their own copy
  of the computation that turns a pointer position into percentages of the rendered
  image.
\<close>

record domRect =
  rectLeft :: jsNumber
  rectTop :: jsNumber
  rectWidth :: jsNumber
  rectHeight :: jsNumber

record imgElement =
  naturalWidth :: jsNumber
  naturalHeight :: jsNumber

text \<open>
  The arguments of one \<^verbatim>\<open>onProductDrop(position, relativePosition)\<close> call:
  the container-local point and the percentages.
\<close>

record productDropCall =
  dropPosition :: "jsNumber \<times> jsNumber"
  dropRelative :: "jsNumber \<times> jsNumber"

text \<open>
  \<^verbatim>\<open>handlePlacement(clientX, clientY, currentTarget)\<close>. The image reference
  \<^verbatim>\<open>imgRef.current\<close> may be null and the \<^verbatim>\<open>onProductDrop\<close> property may be absent;
  \<open>currentTarget\<close> is represented by its bounding rectangle. The result is the
  callback invocation made, if any (the \<^verbatim>\<open>console.warn\<close> of the rejected branch is
  not a state change and is left out).
\<close>

definition handlePlacement ::
  "jsArith \<Rightarrow> imgElement option \<Rightarrow> bool \<Rightarrow> jsNumber \<Rightarrow> jsNumber \<Rightarrow> domRect
     \<Rightarrow> productDropCall option" where
  "handlePlacement ar img onProductDrop clientX clientY containerRect =
     (case img of
        None \<Rightarrow> None
      | Some im \<Rightarrow>
          if \<not> onProductDrop then None
          else
            let containerWidth = rectWidth containerRect;
                containerHeight = rectHeight containerRect;
                imageAspectRatio = numDiv ar (naturalWidth im) (naturalHeight im);
                containerAspectRatio = numDiv ar containerWidth containerHeight;
                renderedWidth =
                  (if numGt ar imageAspectRatio containerAspectRatio then containerWidth
                   else numMul ar containerHeight imageAspectRatio);
                renderedHeight =
                  (if numGt ar imageAspectRatio containerAspectRatio
                   then numDiv ar containerWidth imageAspectRatio
                   else containerHeight);
                offsetX = numDiv ar (numSub ar containerWidth renderedWidth) (Finite 2);
                offsetY = numDiv ar (numSub ar containerHeight renderedHeight) (Finite 2);
                pointX = numSub ar clientX (rectLeft containerRect);
                pointY = numSub ar clientY (rectTop containerRect);
                imageX = numSub ar pointX offsetX;
                imageY = numSub ar pointY offsetY
            in if numLt ar imageX (Finite 0) \<or> numGt ar imageX renderedWidth \<or>
                  numLt ar imageY (Finite 0) \<or> numGt ar imageY renderedHeight
               then None
               else Some \<lparr> dropPosition = (pointX, pointY),
                           dropRelative =
                             (numMul ar (numDiv ar imageX renderedWidth) (Finite 100),
                              numMul ar (numDiv ar imageY renderedHeight) (Finite 100)) \<rparr>)"

subsection \<open>The mapping as the specification words it\<close>

text \<open>
  The following definitions follow the wording of the specification of the coordinate
  mapper (\<^verbatim>\<open>mapToImageSpace\<close>), not the code; the handlers above and below are
  compared with them. Each operation of a formula is one operation of the arithmetic
  \<open>ar\<close>.
\<close>

datatype mapError = OutOfBounds

definition spec_imageAspect :: "jsArith \<Rightarrow> imgElement \<Rightarrow> jsNumber" where
  "spec_imageAspect ar im = numDiv ar (naturalWidth im) (naturalHeight im)"

definition spec_containerAspect :: "jsArith \<Rightarrow> domRect \<Rightarrow> jsNumber" where
  "spec_containerAspect ar box = numDiv ar (rectWidth box) (rectHeight box)"

definition spec_renderedWidth :: "jsArith \<Rightarrow> domRect \<Rightarrow> imgElement \<Rightarrow> jsNumber" where
  "spec_renderedWidth ar box im =
     (if numGt ar (spec_imageAspect ar im) (spec_containerAspect ar box) then rectWidth box
      else numMul ar (rectHeight box) (spec_imageAspect ar im))"

definition spec_renderedHeight :: "jsArith \<Rightarrow> domRect \<Rightarrow> imgElement \<Rightarrow> jsNumber" where
  "spec_renderedHeight ar box im =
     (if numGt ar (spec_imageAspect ar im) (spec_containerAspect ar box)
      then numDiv ar (rectWidth box) (spec_imageAspect ar im)
      else rectHeight box)"

definition spec_offsetX :: "jsArith \<Rightarrow> domRect \<Rightarrow> imgElement \<Rightarrow> jsNumber" where
  "spec_offsetX ar box im =
     numDiv ar (numSub ar (rectWidth box) (spec_renderedWidth ar box im)) (Finite 2)"

definition spec_offsetY :: "jsArith \<Rightarrow> domRect \<Rightarrow> imgElement \<Rightarrow> jsNumber" where
  "spec_offsetY ar box im =
     numDiv ar (numSub ar (rectHeight box) (spec_renderedHeight ar box im)) (Finite 2)"

definition spec_imageX :: "jsArith \<Rightarrow> domRect \<Rightarrow> imgElement \<Rightarrow> jsNumber \<Rightarrow> jsNumber" where
  "spec_imageX ar box im clientX =
     numSub ar (numSub ar clientX (rectLeft box)) (spec_offsetX ar box im)"

definition spec_imageY :: "jsArith \<Rightarrow> domRect \<Rightarrow> imgElement \<Rightarrow> jsNumber \<Rightarrow> jsNumber" where
  "spec_imageY ar box im clientY =
     numSub ar (numSub ar clientY (rectTop box)) (spec_offsetY ar box im)"

text \<open>
  An image-local coordinate falls outside the rendered block on its axis: it is below
  0 or above the rendered dimension. A coordinate that is not a number is on neither
  side.
\<close>

definition spec_outside :: "jsArith \<Rightarrow> domRect \<Rightarrow> imgElement \<Rightarrow> jsNumber \<times> jsNumber \<Rightarrow> bool" where
  "spec_outside ar box im point =
     (numLt ar (spec_imageX ar box im (fst point)) (Finite 0) \<or>
      numGt ar (spec_imageX ar box im (fst point)) (spec_renderedWidth ar box im) \<or>
      numLt ar (spec_imageY ar box im (snd point)) (Finite 0) \<or>
      numGt ar (spec_imageY ar box im (snd point)) (spec_renderedHeight ar box im))"

definition spec_mapToImageSpace ::
  "jsArith \<Rightarrow> domRect \<Rightarrow> imgElement \<Rightarrow> jsNumber \<times> jsNumber
     \<Rightarrow> mapError + jsNumber \<times> jsNumber" where
  "spec_mapToImageSpace ar box im point =
     (if spec_outside ar box im point then Inl OutOfBounds
      else Inr (numMul ar
                  (numDiv ar (spec_imageX ar box im (fst point)) (spec_renderedWidth ar box im))
                  (Finite 100),
                numMul ar
                  (numDiv ar (spec_imageY ar box im (snd point)) (spec_renderedHeight ar box im))
                  (Finite 100)))"

subsection \<open>The uploader component around \<^verbatim>\<open>handlePlacement\<close>\<close>

text \<open>
  A browser \<^verbatim>\<open>File\<close>: its name, its MIME type and its contents.
\<close>

datatype File = File (fileName: string) (fileType: string) (fileData: string)

text \<open>
  The part of the \<^verbatim>\<open>ImageUploader\<close> state that its pointer handlers write.
\<close>

record uploader =
  isDraggingOver :: bool
  orbPosition :: "(jsNumber \<times> jsNumber) option"
  fileTypeError :: "string option"
  urlError :: "string option"

datatype uploaderCallback = OnProductDrop productDropCall | OnFileSelect File

definition handleClick ::
  "jsArith \<Rightarrow> bool \<Rightarrow> imgElement option \<Rightarrow> bool \<Rightarrow> jsNumber \<Rightarrow> jsNumber \<Rightarrow> domRect
     \<Rightarrow> uploader \<Rightarrow> uploader \<times> uploaderCallback list" where
  "handleClick ar isDropZone img onProductDrop clientX clientY containerRect u =
     (if isDropZone \<and> onProductDrop
      then (u, case handlePlacement ar img onProductDrop clientX clientY containerRect of
                 None \<Rightarrow> []
               | Some c \<Rightarrow> [OnProductDrop c])
      else (u, []))"

definition handleDrop ::
  "jsArith \<Rightarrow> bool \<Rightarrow> imgElement option \<Rightarrow> bool \<Rightarrow> jsNumber \<Rightarrow> jsNumber \<Rightarrow> domRect
     \<Rightarrow> File option \<Rightarrow> uploader \<Rightarrow> uploader \<times> uploaderCallback list" where
  "handleDrop ar isDropZone img onProductDrop clientX clientY containerRect file u =
     (let u1 = u\<lparr> isDraggingOver := False, orbPosition := None, urlError := None \<rparr>
      in if isDropZone \<and> onProductDrop
         then (u1, case handlePlacement ar img onProductDrop clientX clientY containerRect of
                     None \<Rightarrow> []
                   | Some c \<Rightarrow> [OnProductDrop c])
         else (case file of
                 None \<Rightarrow> (u1, [])
               | Some f \<Rightarrow>
                   if take 6 (fileType f) = ''image/''
                   then (u1\<lparr> fileTypeError :=
                               (if fileType f \<noteq> ''image/jpeg'' \<and> fileType f \<noteq> ''image/png''
                                then Some ''For best results, please use PNG, JPG, or JPEG formats.''
                                else None) \<rparr>,
                         [OnFileSelect f])
                   else (u1, [])))"

section \<open>The application: scene, history and generation calls\<close>

text \<open>
  The fields of a product that \<^verbatim>\<open>App\<close> reads (the type itself is declared in a
  module that is not part of the sources at hand).
\<close>

record product =
  productId :: nat
  productName :: string
  productImageUrl :: string
  silhouetteUrl :: "string option"

datatype placementStyle = on_surface | against_wall

datatype surfaceType = color | texture

record contextMenu =
  screenX :: jsNumber
  screenY :: jsNumber
  containerX :: jsNumber
  containerY :: jsNumber
  relativeX :: jsNumber
  relativeY :: jsNumber

record surfaceModification =
  modType :: surfaceType
  modPosition :: "jsNumber \<times> jsNumber"

text \<open>
  The state of \<^verbatim>\<open>App\<close>: the \<^verbatim>\<open>useState\<close> cells and the two \<^verbatim>\<open>useRef\<close> arrays
  \<^verbatim>\<open>undoHistoryRef.current\<close> and \<^verbatim>\<open>redoHistoryRef.current\<close> (most recent entry
  last). A handler is applied to the state that was rendered last, which is the state
  its closure captured.
\<close>

record app =
  products :: "product list"
  productFiles :: "nat \<rightharpoonup> File"
  activeProductId :: "nat option"
  sceneImage :: "File option"
  isLoading :: bool
  error :: "string option"
  persistedOrbPosition :: "(jsNumber \<times> jsNumber) option"
  debugImageUrl :: "string option"
  debugPrompt :: "string option"
  sceneDesignPrompt :: "nat list"
  placementContextMenu :: "contextMenu option"
  surfaceModificationState :: "surfaceModification option"
  isTouchDragging :: bool
  touchGhostPosition :: "(jsNumber \<times> jsNumber) option"
  isHoveringDropZone :: bool
  touchOrbPosition :: "(jsNumber \<times> jsNumber) option"
  canUndo :: bool
  canRedo :: bool
  undoHistory :: "File list"
  redoHistory :: "File list"

definition initialApp :: app where
  "initialApp =
     \<lparr> products = [], productFiles = Map.empty, activeProductId = None, sceneImage = None,
       isLoading = False, error = None, persistedOrbPosition = None, debugImageUrl = None,
       debugPrompt = None, sceneDesignPrompt = [], placementContextMenu = None,
       surfaceModificationState = None, isTouchDragging = False, touchGhostPosition = None,
       isHoveringDropZone = False, touchOrbPosition = None, canUndo = False, canRedo = False,
       undoHistory = [], redoHistory = [] \<rparr>"

text \<open>
  A value caught by \<^verbatim>\<open>catch (err)\<close>: an \<^verbatim>\<open>Error\<close> instance with its message, or
  anything else. The handlers turn it into text with
  \<^verbatim>\<open>err instanceof Error ? err.message : 'An unknown error occurred.'\<close>.
\<close>

datatype thrown = ErrorObject string | OtherValue

definition errorMessage :: "thrown \<Rightarrow> string" where
  "errorMessage err =
     (case err of ErrorObject m \<Rightarrow> m | OtherValue \<Rightarrow> ''An unknown error occurred.'')"

text \<open>How an awaited promise of the generation service settles.\<close>

datatype 'a settled = Fulfilled 'a | Rejected thrown

record compositeResult =
  finalImageUrl :: string
  resultDebugImageUrl :: "string option"
  finalPrompt :: "string option"

text \<open>The calls to the external generation service, with their arguments.\<close>

datatype generatorCall =
    GenerateCompositeImage File string File string "jsNumber \<times> jsNumber" placementStyle
  | GenerateInteriorDesign File "nat list"
  | ModifySurface File "jsNumber \<times> jsNumber" surfaceType string

text \<open>
  An asynchronous handler runs up to its \<^verbatim>\<open>await\<close> and either has returned by then
  or is suspended on a generator call, holding the \<^verbatim>\<open>previousScene\<close> it captured.
\<close>

datatype started = Returned app | Awaiting app File generatorCall

text \<open>
  The design instruction is the one string the handlers trim, and it is kept as its
  UTF-16 code units. \<^verbatim>\<open>String.prototype.trim\<close> strips the white space and the
  line terminators of ECMAScript: TAB, LF, VT, FF, CR, SPACE, U+00A0, U+1680, U+2000
  to U+200A, U+2028, U+2029, U+202F, U+205F, U+3000 and U+FEFF. It yields the empty
  string exactly when every code unit is one of them.
\<close>

definition isWhitespace :: "nat \<Rightarrow> bool" where
  "isWhitespace c =
     (c \<in> set [0x09, 0x0A, 0x0B, 0x0C, 0x0D, 0x20, 0xA0, 0x1680, 0x2028, 0x2029, 0x202F,
               0x205F, 0x3000, 0xFEFF] \<or>
      (0x2000 \<le> c \<and> c \<le> 0x200A))"

definition trimIsEmpty :: "nat list \<Rightarrow> bool" where
  "trimIsEmpty str = list_all isWhitespace str"


text \<open>
  \<^verbatim>\<open>dataURLtoFile(dataurl, filename)\<close> decodes a data URL into a file or throws. Its
  behaviour is a parameter of the handlers that call it, so every result holds for
  whatever it decodes and whenever it throws. \<^verbatim>\<open>Date.now()\<close>, which only enters the
  name of a generated file, is passed in already printed.
\<close>

type_synonym dataURLtoFile = "string \<Rightarrow> string \<Rightarrow> thrown + File"

subsection \<open>Products\<close>

text \<open>
  \<^verbatim>\<open>handleAddProduct\<close> up to its \<^verbatim>\<open>await\<close>: \<open>now\<close> is \<^verbatim>\<open>Date.now()\<close> and
  \<open>imageUrl\<close> the object URL created for the file. The silhouette arrives later, if
  it arrives at all.
\<close>

definition handleAddProduct :: "nat \<Rightarrow> string \<Rightarrow> File \<Rightarrow> app \<Rightarrow> app" where
  "handleAddProduct now imageUrl file s =
     s\<lparr> error := None,
        products := products s @
          [\<lparr> productId = now, productName = fileName file, productImageUrl = imageUrl,
             silhouetteUrl = None \<rparr>],
        productFiles := (productFiles s)(now \<mapsto> file),
        activeProductId := Some now \<rparr>"

definition silhouetteGenerated :: "nat \<Rightarrow> string \<Rightarrow> app \<Rightarrow> app" where
  "silhouetteGenerated newId url s =
     s\<lparr> products :=
          map (\<lambda>p. if productId p = newId then p\<lparr> silhouetteUrl := Some url \<rparr> else p)
            (products s) \<rparr>"

definition activeProduct :: "app \<Rightarrow> product option" where
  "activeProduct s = find (\<lambda>p. Some (productId p) = activeProductId s) (products s)"

subsection \<open>Placing a product\<close>

text \<open>
  \<^verbatim>\<open>handleProductDrop\<close> up to the \<^verbatim>\<open>await\<close> of \<^verbatim>\<open>generateCompositeImage\<close>. The
  test \<^verbatim>\<open>activeProductId ? ... : null\<close> also fails for the identifier \<open>0\<close>.
\<close>

definition handleProductDrop_start ::
  "jsNumber \<times> jsNumber \<Rightarrow> jsNumber \<times> jsNumber \<Rightarrow> placementStyle \<Rightarrow> app \<Rightarrow> started" where
  "handleProductDrop_start position relativePosition placementStyle s =
     (let currentActiveProduct =
            find (\<lambda>p. Some (productId p) = activeProductId s) (products s);
          currentActiveProductFile =
            (case activeProductId s of
               None \<Rightarrow> None
             | Some i \<Rightarrow> if i = 0 then None else productFiles s i)
      in case currentActiveProductFile of
           None \<Rightarrow> Returned (s\<lparr> error := Some ''Please select a product before placing it.'' \<rparr>)
         | Some file \<Rightarrow>
             (case sceneImage s of
                None \<Rightarrow>
                  Returned (s\<lparr> error := Some ''Please select a product before placing it.'' \<rparr>)
              | Some scene \<Rightarrow>
                  (case currentActiveProduct of
                     None \<Rightarrow>
                       Returned
                         (s\<lparr> error := Some ''Please select a product before placing it.'' \<rparr>)
                   | Some activeProd \<Rightarrow>
                       Awaiting
                         (s\<lparr> persistedOrbPosition := Some position, isLoading := True,
                             error := None \<rparr>)
                         scene
                         (GenerateCompositeImage file (productName activeProd) scene (fileName scene)
                            relativePosition placementStyle))))"

text \<open>
  The rest of \<^verbatim>\<open>handleProductDrop\<close>, run when the promise settles: the \<^verbatim>\<open>try\<close>
  body after the \<^verbatim>\<open>await\<close>, the \<^verbatim>\<open>catch\<close> and the \<^verbatim>\<open>finally\<close>. The state it
  runs on is the state at that moment; \<open>previousScene\<close> is the value captured before
  the call.
\<close>

definition handleProductDrop_resume ::
  "dataURLtoFile \<Rightarrow> string \<Rightarrow> File \<Rightarrow> compositeResult settled \<Rightarrow> app \<Rightarrow> app" where
  "handleProductDrop_resume d2f now previousScene outcome s =
     (case outcome of
        Rejected err \<Rightarrow>
          s\<lparr> error := Some (''Failed to generate the image. '' @ errorMessage err),
             isLoading := False, persistedOrbPosition := None \<rparr>
      | Fulfilled r \<Rightarrow>
          (let s1 = s\<lparr> debugImageUrl := resultDebugImageUrl r, debugPrompt := finalPrompt r \<rparr>
           in case d2f (finalImageUrl r) (''generated-scene-'' @ now @ ''.jpeg'') of
                Inl err \<Rightarrow>
                  s1\<lparr> error := Some (''Failed to generate the image. '' @ errorMessage err),
                      isLoading := False, persistedOrbPosition := None \<rparr>
              | Inr newSceneFile \<Rightarrow>
                  s1\<lparr> sceneImage := Some newSceneFile,
                      undoHistory :=
                        (let pushed = undoHistory s1 @ [previousScene]
                         in if length pushed > 10 then tl pushed else pushed),
                      redoHistory := [],
                      canUndo := True, canRedo := False,
                      isLoading := False, persistedOrbPosition := None \<rparr>))"

subsection \<open>Redesigning the scene\<close>

definition handleSceneDesignGeneration_start :: "app \<Rightarrow> started" where
  "handleSceneDesignGeneration_start s =
     (case sceneImage s of
        None \<Rightarrow>
          Returned (s\<lparr> error := Some ''Please provide a scene image and a design instruction.'' \<rparr>)
      | Some scene \<Rightarrow>
          if trimIsEmpty (sceneDesignPrompt s)
          then Returned
                 (s\<lparr> error := Some ''Please provide a scene image and a design instruction.'' \<rparr>)
          else Awaiting
                 (s\<lparr> isLoading := True, error := None, persistedOrbPosition := None \<rparr>)
                 scene
                 (GenerateInteriorDesign scene (sceneDesignPrompt s)))"

definition handleSceneDesignGeneration_resume ::
  "dataURLtoFile \<Rightarrow> string \<Rightarrow> File \<Rightarrow> string settled \<Rightarrow> app \<Rightarrow> app" where
  "handleSceneDesignGeneration_resume d2f now previousScene outcome s =
     (case outcome of
        Rejected err \<Rightarrow>
          s\<lparr> error := Some (''Failed to generate the design. '' @ errorMessage err),
             isLoading := False \<rparr>
      | Fulfilled generatedImageUrl \<Rightarrow>
          (case d2f generatedImageUrl (''redesigned-scene-'' @ now @ ''.jpeg'') of
             Inl err \<Rightarrow>
               s\<lparr> error := Some (''Failed to generate the design. '' @ errorMessage err),
                  isLoading := False \<rparr>
           | Inr newSceneFile \<Rightarrow>
               s\<lparr> sceneImage := Some newSceneFile,
                  undoHistory :=
                    (let pushed = undoHistory s @ [previousScene]
                     in if length pushed > 10 then tl pushed else pushed),
                  redoHistory := [],
                  canUndo := True, canRedo := False,
                  sceneDesignPrompt := [],
                  isLoading := False \<rparr>))"

subsection \<open>Modifying a surface\<close>

definition handleSurfaceModificationSubmit_start :: "string \<Rightarrow> app \<Rightarrow> started" where
  "handleSurfaceModificationSubmit_start modificationValue s =
     (case surfaceModificationState s of
        None \<Rightarrow> Returned s
      | Some m \<Rightarrow>
          (case sceneImage s of
             None \<Rightarrow> Returned s
           | Some scene \<Rightarrow>
               Awaiting
                 (s\<lparr> surfaceModificationState := None, isLoading := True, error := None,
                     persistedOrbPosition := None \<rparr>)
                 scene
                 (ModifySurface scene (modPosition m) (modType m) modificationValue)))"

definition handleSurfaceModificationSubmit_resume ::
  "dataURLtoFile \<Rightarrow> string \<Rightarrow> File \<Rightarrow> string settled \<Rightarrow> app \<Rightarrow> app" where
  "handleSurfaceModificationSubmit_resume d2f now previousScene outcome s =
     (case outcome of
        Rejected err \<Rightarrow>
          s\<lparr> error := Some (''Failed to modify the surface. '' @ errorMessage err),
             isLoading := False \<rparr>
      | Fulfilled generatedImageUrl \<Rightarrow>
          (case d2f generatedImageUrl (''modified-scene-'' @ now @ ''.jpeg'') of
             Inl err \<Rightarrow>
               s\<lparr> error := Some (''Failed to modify the surface. '' @ errorMessage err),
                  isLoading := False \<rparr>
           | Inr newSceneFile \<Rightarrow>
               s\<lparr> sceneImage := Some newSceneFile,
                  undoHistory :=
                    (let pushed = undoHistory s @ [previousScene]
                     in if length pushed > 10 then tl pushed else pushed),
                  redoHistory := [],
                  canUndo := True, canRedo := False,
                  isLoading := False \<rparr>))"

subsection \<open>The placement menu\<close>

record placementRequest =
  reqClientX :: jsNumber
  reqClientY :: jsNumber
  reqContainerX :: jsNumber
  reqContainerY :: jsNumber
  reqRelative :: "jsNumber \<times> jsNumber"

definition handlePlacementRequest :: "placementRequest \<Rightarrow> app \<Rightarrow> app" where
  "handlePlacementRequest req s =
     (if isLoading s then s
      else s\<lparr> placementContextMenu :=
                 Some \<lparr> screenX = reqClientX req, screenY = reqClientY req,
                        containerX = reqContainerX req, containerY = reqContainerY req,
                        relativeX = fst (reqRelative req), relativeY = snd (reqRelative req) \<rparr>,
               persistedOrbPosition := Some (reqContainerX req, reqContainerY req) \<rparr>)"

definition closeContextMenu :: "app \<Rightarrow> app" where
  "closeContextMenu s = s\<lparr> placementContextMenu := None, persistedOrbPosition := None \<rparr>"

definition handlePlaceProductAction :: "placementStyle \<Rightarrow> app \<Rightarrow> started" where
  "handlePlaceProductAction placementStyle s =
     (case placementContextMenu s of
        None \<Rightarrow> Returned s
      | Some m \<Rightarrow>
          (case activeProduct s of
             None \<Rightarrow> Returned s
           | Some _ \<Rightarrow>
               (case handleProductDrop_start (containerX m, containerY m)
                       (relativeX m, relativeY m) placementStyle s of
                  Returned s' \<Rightarrow> Returned (s'\<lparr> placementContextMenu := None \<rparr>)
                | Awaiting s' previousScene call \<Rightarrow>
                    Awaiting (s'\<lparr> placementContextMenu := None \<rparr>) previousScene call)))"

definition handleModifySurfaceRequest :: "surfaceType \<Rightarrow> app \<Rightarrow> app" where
  "handleModifySurfaceRequest type s =
     (case placementContextMenu s of
        None \<Rightarrow> s
      | Some m \<Rightarrow>
          closeContextMenu
            (s\<lparr> surfaceModificationState :=
                  Some \<lparr> modType = type, modPosition = (relativeX m, relativeY m) \<rparr> \<rparr>))"


subsection \<open>Undo, redo and the resets of the history\<close>

text \<open>
  \<^verbatim>\<open>pop()\<close> on the non-empty array removes and returns its last element, a
  \<^verbatim>\<open>File\<close> object, so the test \<^verbatim>\<open>if (previousScene)\<close> that follows the guard always
  succeeds.
\<close>

definition handleUndo :: "app \<Rightarrow> app" where
  "handleUndo s =
     (if undoHistory s = [] then s
      else case sceneImage s of
             None \<Rightarrow> s
           | Some current \<Rightarrow>
               s\<lparr> undoHistory := butlast (undoHistory s),
                  redoHistory := redoHistory s @ [current],
                  sceneImage := Some (last (undoHistory s)),
                  canUndo := (length (butlast (undoHistory s)) > 0),
                  canRedo := True \<rparr>)"

definition handleRedo :: "app \<Rightarrow> app" where
  "handleRedo s =
     (if redoHistory s = [] then s
      else case sceneImage s of
             None \<Rightarrow> s
           | Some current \<Rightarrow>
               s\<lparr> redoHistory := butlast (redoHistory s),
                  undoHistory := undoHistory s @ [current],
                  sceneImage := Some (last (redoHistory s)),
                  canRedo := (length (butlast (redoHistory s)) > 0),
                  canUndo := True \<rparr>)"

definition handleReset :: "app \<Rightarrow> app" where
  "handleReset s =
     s\<lparr> products := [], productFiles := Map.empty, activeProductId := None,
        sceneImage := None, error := None, isLoading := False,
        persistedOrbPosition := None, debugImageUrl := None, debugPrompt := None,
        sceneDesignPrompt := [], placementContextMenu := None,
        surfaceModificationState := None,
        undoHistory := [], redoHistory := [], canUndo := False, canRedo := False \<rparr>"

definition handleChangeScene :: "app \<Rightarrow> app" where
  "handleChangeScene s =
     s\<lparr> sceneImage := None, persistedOrbPosition := None, debugImageUrl := None,
        debugPrompt := None, sceneDesignPrompt := [], placementContextMenu := None,
        surfaceModificationState := None,
        undoHistory := [], redoHistory := [], canUndo := False, canRedo := False \<rparr>"

text \<open>
  \<^verbatim>\<open>handleInstantStart\<close>: the step before the default images are fetched, the step
  taken once both have arrived, and the \<^verbatim>\<open>catch\<close> branch.
\<close>

definition handleInstantStart_start :: "app \<Rightarrow> app" where
  "handleInstantStart_start s = s\<lparr> error := None \<rparr>"

definition handleInstantStart_loaded :: "File \<Rightarrow> File \<Rightarrow> nat \<Rightarrow> string \<Rightarrow> app \<Rightarrow> app" where
  "handleInstantStart_loaded sceneFile objectFile now imageUrl s =
     handleAddProduct now imageUrl objectFile
       (s\<lparr> undoHistory := [], redoHistory := [], canUndo := False, canRedo := False,
           products := [], productFiles := Map.empty, activeProductId := None,
           sceneImage := Some sceneFile \<rparr>)"

definition handleInstantStart_failed :: "thrown \<Rightarrow> app \<Rightarrow> app" where
  "handleInstantStart_failed err s =
     s\<lparr> error := Some (''Could not load default images. Details: '' @ errorMessage err) \<rparr>"

subsection \<open>Touch dragging\<close>

definition handleTouchStart :: "jsNumber \<times> jsNumber \<Rightarrow> app \<Rightarrow> app" where
  "handleTouchStart touch s =
     (if activeProduct s = None \<or> placementContextMenu s \<noteq> None then s
      else s\<lparr> isTouchDragging := True, touchGhostPosition := Some touch \<rparr>)"

text \<open>
  \<open>dropZone\<close> is the bounding rectangle of the scene uploader when the element under
  the touch lies inside it.
\<close>

definition handleTouchMove ::
  "jsArith \<Rightarrow> jsNumber \<times> jsNumber \<Rightarrow> domRect option \<Rightarrow> app \<Rightarrow> app" where
  "handleTouchMove ar touch dropZone s =
     (if \<not> isTouchDragging s then s
      else case dropZone of
             Some rect \<Rightarrow>
               s\<lparr> touchGhostPosition := Some touch,
                  touchOrbPosition :=
                    Some (numSub ar (fst touch) (rectLeft rect),
                          numSub ar (snd touch) (rectTop rect)),
                  isHoveringDropZone := True \<rparr>
           | None \<Rightarrow>
               s\<lparr> touchGhostPosition := Some touch,
                  isHoveringDropZone := False, touchOrbPosition := None \<rparr>)"

text \<open>
  \<^verbatim>\<open>handleTouchEnd\<close>, with its own copy of the mapping. Beside the new state the
  model returns the \<^verbatim>\<open>handlePlacementRequest\<close> call it made, if any.
\<close>

definition handleTouchEnd ::
  "jsArith \<Rightarrow> jsNumber \<times> jsNumber \<Rightarrow> domRect option \<Rightarrow> imgElement option \<Rightarrow> app
     \<Rightarrow> app \<times> placementRequest option" where
  "handleTouchEnd ar touch dropZone img s =
     (if \<not> isTouchDragging s then (s, None)
      else
        let request =
              (case dropZone of
                 None \<Rightarrow> None
               | Some containerRect \<Rightarrow>
                   (case img of
                      None \<Rightarrow> None
                    | Some im \<Rightarrow>
                        let containerWidth = rectWidth containerRect;
                            containerHeight = rectHeight containerRect;
                            imageAspectRatio =
                              numDiv ar (naturalWidth im) (naturalHeight im);
                            containerAspectRatio = numDiv ar containerWidth containerHeight;
                            renderedWidth =
                              (if numGt ar imageAspectRatio containerAspectRatio
                               then containerWidth
                               else numMul ar containerHeight imageAspectRatio);
                            renderedHeight =
                              (if numGt ar imageAspectRatio containerAspectRatio
                               then numDiv ar containerWidth imageAspectRatio
                               else containerHeight);
                            offsetX =
                              numDiv ar (numSub ar containerWidth renderedWidth) (Finite 2);
                            offsetY =
                              numDiv ar (numSub ar containerHeight renderedHeight) (Finite 2);
                            dropX = numSub ar (fst touch) (rectLeft containerRect);
                            dropY = numSub ar (snd touch) (rectTop containerRect);
                            imageX = numSub ar dropX offsetX;
                            imageY = numSub ar dropY offsetY
                        in if \<not> (numLt ar imageX (Finite 0) \<or>
                                  numGt ar imageX renderedWidth \<or>
                                  numLt ar imageY (Finite 0) \<or>
                                  numGt ar imageY renderedHeight)
                           then Some \<lparr> reqClientX = fst touch, reqClientY = snd touch,
                                       reqContainerX = dropX, reqContainerY = dropY,
                                       reqRelative =
                                         (numMul ar (numDiv ar imageX renderedWidth)
                                            (Finite 100),
                                          numMul ar (numDiv ar imageY renderedHeight)
                                            (Finite 100)) \<rparr>
                           else None));
            s1 = (case request of None \<Rightarrow> s | Some req \<Rightarrow> handlePlacementRequest req s)
        in (s1\<lparr> isTouchDragging := False, touchGhostPosition := None,
                isHoveringDropZone := False, touchOrbPosition := None \<rparr>,
            request))"

subsection \<open>Restoring the saved state on mount\<close>

record savedFile =
  savedDataUrl :: string
  savedName :: string

record savedProductItem =
  itemProduct :: "product option"
  itemDataUrl :: string

text \<open>
  The parsed \<^verbatim>\<open>homeCanvasState\<close> item. A list that is missing or is not an array is
  \<open>None\<close>.
\<close>

record savedState =
  savedProducts :: "savedProductItem list option"
  savedScene :: "savedFile option"
  savedUndoHistory :: "savedFile list option"
  savedRedoHistory :: "savedFile list option"
  savedActiveProductId :: "nat option"

fun loadProducts ::
  "dataURLtoFile \<Rightarrow> (File \<Rightarrow> string) \<Rightarrow> savedProductItem list \<Rightarrow> thrown + (product \<times> File) list" where
  "loadProducts d2f objectUrl [] = Inr []"
| "loadProducts d2f objectUrl (item # items) =
     (case itemProduct item of
        None \<Rightarrow> loadProducts d2f objectUrl items
      | Some p \<Rightarrow>
          if itemDataUrl item = [] then loadProducts d2f objectUrl items
          else (case d2f (itemDataUrl item) (productName p) of
                  Inl err \<Rightarrow> Inl err
                | Inr productFile \<Rightarrow>
                    (case loadProducts d2f objectUrl items of
                       Inl err \<Rightarrow> Inl err
                     | Inr rest \<Rightarrow>
                         Inr ((p\<lparr> productImageUrl := objectUrl productFile \<rparr>, productFile)
                              # rest))))"

fun convertFiles :: "dataURLtoFile \<Rightarrow> savedFile list \<Rightarrow> thrown + File list" where
  "convertFiles d2f [] = Inr []"
| "convertFiles d2f (item # items) =
     (case d2f (savedDataUrl item) (savedName item) of
        Inl err \<Rightarrow> Inl err
      | Inr f \<Rightarrow>
          (case convertFiles d2f items of
             Inl err \<Rightarrow> Inl err
           | Inr fs \<Rightarrow> Inr (f # fs)))"

text \<open>
  The four parts of the \<^verbatim>\<open>try\<close> block of the mount effect. Each either throws or
  yields the state it reached.
\<close>

definition loadProductsPart ::
  "dataURLtoFile \<Rightarrow> (File \<Rightarrow> string) \<Rightarrow> savedState \<Rightarrow> app \<Rightarrow> thrown + app" where
  "loadProductsPart d2f objectUrl saved s =
     (case savedProducts saved of
        None \<Rightarrow> Inr s
      | Some items \<Rightarrow>
          (case loadProducts d2f objectUrl items of
             Inl err \<Rightarrow> Inl err
           | Inr loaded \<Rightarrow>
               Inr (s\<lparr> products := map fst loaded,
                       productFiles := map_of (rev (map (\<lambda>(p, f). (productId p, f)) loaded)),
                       activeProductId :=
                         (case savedActiveProductId saved of
                            None \<Rightarrow> activeProductId s
                          | Some savedActiveId \<Rightarrow>
                              if savedActiveId \<noteq> 0 \<and>
                                 list_ex (\<lambda>(p, f). productId p = savedActiveId) loaded
                              then Some savedActiveId
                              else activeProductId s) \<rparr>)))"

definition loadScenePart :: "dataURLtoFile \<Rightarrow> savedState \<Rightarrow> app \<Rightarrow> thrown + app" where
  "loadScenePart d2f saved s =
     (case savedScene saved of
        None \<Rightarrow> Inr s
      | Some scene \<Rightarrow>
          (case d2f (savedDataUrl scene) (savedName scene) of
             Inl err \<Rightarrow> Inl err
           | Inr sceneFile \<Rightarrow> Inr (s\<lparr> sceneImage := Some sceneFile \<rparr>)))"

definition loadUndoPart :: "dataURLtoFile \<Rightarrow> savedState \<Rightarrow> app \<Rightarrow> thrown + app" where
  "loadUndoPart d2f saved s =
     (case savedUndoHistory saved of
        None \<Rightarrow> Inr s
      | Some items \<Rightarrow>
          if length items > 0
          then (case convertFiles d2f items of
                  Inl err \<Rightarrow> Inl err
                | Inr historyFiles \<Rightarrow> Inr (s\<lparr> undoHistory := historyFiles, canUndo := True \<rparr>))
          else Inr s)"

definition loadRedoPart :: "dataURLtoFile \<Rightarrow> savedState \<Rightarrow> app \<Rightarrow> thrown + app" where
  "loadRedoPart d2f saved s =
     (case savedRedoHistory saved of
        None \<Rightarrow> Inr s
      | Some items \<Rightarrow>
          if length items > 0
          then (case convertFiles d2f items of
                  Inl err \<Rightarrow> Inl err
                | Inr historyFiles \<Rightarrow> Inr (s\<lparr> redoHistory := historyFiles, canRedo := True \<rparr>))
          else Inr s)"

text \<open>
  The \<^verbatim>\<open>catch\<close> of the mount effect only logs and removes the stored item, so
  whatever had been set before a part threw stays set.
\<close>

definition loadSavedState ::
  "dataURLtoFile \<Rightarrow> (File \<Rightarrow> string) \<Rightarrow> savedState \<Rightarrow> app \<Rightarrow> app" where
  "loadSavedState d2f objectUrl saved s =
     (case loadProductsPart d2f objectUrl saved s of
        Inl err \<Rightarrow> s
      | Inr s1 \<Rightarrow>
          (case loadScenePart d2f saved s1 of
             Inl err \<Rightarrow> s1
           | Inr s2 \<Rightarrow>
               (case loadUndoPart d2f saved s2 of
                  Inl err \<Rightarrow> s2
                | Inr s3 \<Rightarrow>
                    (case loadRedoPart d2f saved s3 of
                       Inl err \<Rightarrow> s3
                     | Inr s4 \<Rightarrow> s4))))"

text \<open>
  What \<^verbatim>\<open>localStorage.getItem\<close> and \<^verbatim>\<open>JSON.parse\<close> give the mount effect: no
  item, an item that does not parse, or a parsed object.
\<close>

datatype storedItem = NoItem | Unparsable | Parsed savedState

definition mount :: "dataURLtoFile \<Rightarrow> (File \<Rightarrow> string) \<Rightarrow> storedItem \<Rightarrow> app" where
  "mount d2f objectUrl stored =
     (case stored of
        NoItem \<Rightarrow> initialApp
      | Unparsable \<Rightarrow> initialApp
      | Parsed saved \<Rightarrow> loadSavedState d2f objectUrl saved initialApp)"


subsection \<open>Complete submissions and runs of the application\<close>

text \<open>
  One call of a submitting handler, from its start to the settling of the generator
  promise, with nothing else happening in between. The second component lists the
  generator calls made.
\<close>

datatype submission =
    PlaceProduct "jsNumber \<times> jsNumber" "jsNumber \<times> jsNumber" placementStyle "compositeResult settled"
  | ModifySurfaceSubmission string "string settled"
  | RedesignScene "string settled"

definition submit ::
  "dataURLtoFile \<Rightarrow> string \<Rightarrow> submission \<Rightarrow> app \<Rightarrow> app \<times> generatorCall list" where
  "submit d2f now sub s =
     (case sub of
        PlaceProduct position relativePosition placementStyle outcome \<Rightarrow>
          (case handleProductDrop_start position relativePosition placementStyle s of
             Returned s' \<Rightarrow> (s', [])
           | Awaiting s' previousScene call \<Rightarrow>
               (handleProductDrop_resume d2f now previousScene outcome s', [call]))
      | ModifySurfaceSubmission modificationValue outcome \<Rightarrow>
          (case handleSurfaceModificationSubmit_start modificationValue s of
             Returned s' \<Rightarrow> (s', [])
           | Awaiting s' previousScene call \<Rightarrow>
               (handleSurfaceModificationSubmit_resume d2f now previousScene outcome s', [call]))
      | RedesignScene outcome \<Rightarrow>
          (case handleSceneDesignGeneration_start s of
             Returned s' \<Rightarrow> (s', [])
           | Awaiting s' previousScene call \<Rightarrow>
               (handleSceneDesignGeneration_resume d2f now previousScene outcome s', [call])))"

text \<open>
  The submission passes the guards of its handler, the generator fulfils the promise
  and the result decodes to the file \<open>newScene\<close>.
\<close>

definition succeeds ::
  "dataURLtoFile \<Rightarrow> string \<Rightarrow> submission \<Rightarrow> app \<Rightarrow> File \<Rightarrow> bool" where
  "succeeds d2f now sub s newScene =
     (case sub of
        PlaceProduct position relativePosition placementStyle outcome \<Rightarrow>
          (case handleProductDrop_start position relativePosition placementStyle s of
             Returned s' \<Rightarrow> False
           | Awaiting s' previousScene call \<Rightarrow>
               (case outcome of
                  Rejected err \<Rightarrow> False
                | Fulfilled r \<Rightarrow>
                    d2f (finalImageUrl r) (''generated-scene-'' @ now @ ''.jpeg'') = Inr newScene))
      | ModifySurfaceSubmission modificationValue outcome \<Rightarrow>
          (case handleSurfaceModificationSubmit_start modificationValue s of
             Returned s' \<Rightarrow> False
           | Awaiting s' previousScene call \<Rightarrow>
               (case outcome of
                  Rejected err \<Rightarrow> False
                | Fulfilled url \<Rightarrow> d2f url (''modified-scene-'' @ now @ ''.jpeg'') = Inr newScene))
      | RedesignScene outcome \<Rightarrow>
          (case handleSceneDesignGeneration_start s of
             Returned s' \<Rightarrow> False
           | Awaiting s' previousScene call \<Rightarrow>
               (case outcome of
                  Rejected err \<Rightarrow> False
                | Fulfilled url \<Rightarrow>
                    d2f url (''redesigned-scene-'' @ now @ ''.jpeg'') = Inr newScene)))"

text \<open>
  The submission passes the guards of its handler and then fails: the generator
  rejects the promise, or its result does not decode.
\<close>

definition fails :: "dataURLtoFile \<Rightarrow> string \<Rightarrow> submission \<Rightarrow> app \<Rightarrow> thrown \<Rightarrow> bool" where
  "fails d2f now sub s err =
     (case sub of
        PlaceProduct position relativePosition placementStyle outcome \<Rightarrow>
          (case handleProductDrop_start position relativePosition placementStyle s of
             Returned s' \<Rightarrow> False
           | Awaiting s' previousScene call \<Rightarrow>
               (case outcome of
                  Rejected e \<Rightarrow> e = err
                | Fulfilled r \<Rightarrow>
                    d2f (finalImageUrl r) (''generated-scene-'' @ now @ ''.jpeg'') = Inl err))
      | ModifySurfaceSubmission modificationValue outcome \<Rightarrow>
          (case handleSurfaceModificationSubmit_start modificationValue s of
             Returned s' \<Rightarrow> False
           | Awaiting s' previousScene call \<Rightarrow>
               (case outcome of
                  Rejected e \<Rightarrow> e = err
                | Fulfilled url \<Rightarrow> d2f url (''modified-scene-'' @ now @ ''.jpeg'') = Inl err))
      | RedesignScene outcome \<Rightarrow>
          (case handleSceneDesignGeneration_start s of
             Returned s' \<Rightarrow> False
           | Awaiting s' previousScene call \<Rightarrow>
               (case outcome of
                  Rejected e \<Rightarrow> e = err
                | Fulfilled url \<Rightarrow>
                    d2f url (''redesigned-scene-'' @ now @ ''.jpeg'') = Inl err)))"

text \<open>The text each handler puts in front of the message of a failure.\<close>

definition failurePrefix :: "submission \<Rightarrow> string" where
  "failurePrefix sub =
     (case sub of
        PlaceProduct position relativePosition placementStyle outcome \<Rightarrow>
          ''Failed to generate the image. ''
      | ModifySurfaceSubmission modificationValue outcome \<Rightarrow> ''Failed to modify the surface. ''
      | RedesignScene outcome \<Rightarrow> ''Failed to generate the design. '')"

text \<open>
  The events of a session. A submission appears as two events, its start and the
  settling of its promise, so that a run may place any other event between them; the
  settling event carries the captured \<open>previousScene\<close>, which a run may choose freely.
  Runs therefore include every interleaving the application can show, and more.
\<close>

datatype appEvent =
    AddProduct nat string File
  | SilhouetteGenerated nat string
  | SelectProduct nat
  | SelectScene File
  | EditPrompt "nat list"
  | PlacementRequest placementRequest
  | CloseContextMenu
  | PlaceProductAction placementStyle
  | ModifySurfaceRequest surfaceType
  | CloseModal
  | StartProductDrop "jsNumber \<times> jsNumber" "jsNumber \<times> jsNumber" placementStyle
  | StartSceneDesign
  | StartSurfaceModification string
  | SettleProductDrop string File "compositeResult settled"
  | SettleSceneDesign string File "string settled"
  | SettleSurfaceModification string File "string settled"
  | InstantStart
  | InstantStartLoaded File File nat string
  | InstantStartFailed thrown
  | Undo
  | Redo
  | Reset
  | ChangeScene
  | TouchStart "jsNumber \<times> jsNumber"
  | TouchMove "jsNumber \<times> jsNumber" "domRect option"
  | TouchEnd "jsNumber \<times> jsNumber" "domRect option" "imgElement option"

fun stateOf :: "started \<Rightarrow> app" where
  "stateOf (Returned s) = s"
| "stateOf (Awaiting s previousScene call) = s"

fun step :: "jsArith \<Rightarrow> dataURLtoFile \<Rightarrow> appEvent \<Rightarrow> app \<Rightarrow> app" where
  "step ar d2f (AddProduct now imageUrl file) s = handleAddProduct now imageUrl file s"
| "step ar d2f (SilhouetteGenerated newId url) s = silhouetteGenerated newId url s"
| "step ar d2f (SelectProduct i) s = s\<lparr> activeProductId := Some i \<rparr>"
| "step ar d2f (SelectScene file) s = s\<lparr> sceneImage := Some file \<rparr>"
| "step ar d2f (EditPrompt text) s = s\<lparr> sceneDesignPrompt := text \<rparr>"
| "step ar d2f (PlacementRequest req) s = handlePlacementRequest req s"
| "step ar d2f CloseContextMenu s = closeContextMenu s"
| "step ar d2f (PlaceProductAction placementStyle) s =
     stateOf (handlePlaceProductAction placementStyle s)"
| "step ar d2f (ModifySurfaceRequest type) s = handleModifySurfaceRequest type s"
| "step ar d2f CloseModal s = s\<lparr> surfaceModificationState := None \<rparr>"
| "step ar d2f (StartProductDrop position relativePosition placementStyle) s =
     stateOf (handleProductDrop_start position relativePosition placementStyle s)"
| "step ar d2f StartSceneDesign s = stateOf (handleSceneDesignGeneration_start s)"
| "step ar d2f (StartSurfaceModification modificationValue) s =
     stateOf (handleSurfaceModificationSubmit_start modificationValue s)"
| "step ar d2f (SettleProductDrop now previousScene outcome) s =
     handleProductDrop_resume d2f now previousScene outcome s"
| "step ar d2f (SettleSceneDesign now previousScene outcome) s =
     handleSceneDesignGeneration_resume d2f now previousScene outcome s"
| "step ar d2f (SettleSurfaceModification now previousScene outcome) s =
     handleSurfaceModificationSubmit_resume d2f now previousScene outcome s"
| "step ar d2f InstantStart s = handleInstantStart_start s"
| "step ar d2f (InstantStartLoaded sceneFile objectFile now imageUrl) s =
     handleInstantStart_loaded sceneFile objectFile now imageUrl s"
| "step ar d2f (InstantStartFailed err) s = handleInstantStart_failed err s"
| "step ar d2f Undo s = handleUndo s"
| "step ar d2f Redo s = handleRedo s"
| "step ar d2f Reset s = handleReset s"
| "step ar d2f ChangeScene s = handleChangeScene s"
| "step ar d2f (TouchStart touch) s = handleTouchStart touch s"
| "step ar d2f (TouchMove touch dropZone) s = handleTouchMove ar touch dropZone s"
| "step ar d2f (TouchEnd touch dropZone img) s = fst (handleTouchEnd ar touch dropZone img s)"

fun run :: "jsArith \<Rightarrow> dataURLtoFile \<Rightarrow> appEvent list \<Rightarrow> app \<Rightarrow> app" where
  "run ar d2f [] s = s"
| "run ar d2f (e # es) s = run ar d2f es (step ar d2f e s)"

subsection \<open>Properties of states\<close>

text \<open>The two stacks together hold at most ten scenes.\<close>

definition historyBounded :: "app \<Rightarrow> bool" where
  "historyBounded s = (length (undoHistory s) + length (redoHistory s) \<le> 10)"

text \<open>
  A stored item respects the bound when its two history arrays together hold at most
  ten entries, as do the arrays of every state within the bound.
\<close>

definition storedWithinBound :: "storedItem \<Rightarrow> bool" where
  "storedWithinBound stored =
     (case stored of
        Parsed saved \<Rightarrow>
          length (case savedUndoHistory saved of None \<Rightarrow> [] | Some items \<Rightarrow> items) +
          length (case savedRedoHistory saved of None \<Rightarrow> [] | Some items \<Rightarrow> items) \<le> 10
      | _ \<Rightarrow> True)"

text \<open>The availability flags tell whether the stacks are non-empty.\<close>

definition flagsMatchStacks :: "app \<Rightarrow> bool" where
  "flagsMatchStacks s =
     (canUndo s = (undoHistory s \<noteq> []) \<and> canRedo s = (redoHistory s \<noteq> []))"

text \<open>Two states with the same current scene and the same stacks.\<close>

definition sameHistory :: "app \<Rightarrow> app \<Rightarrow> bool" where
  "sameHistory s t =
     (sceneImage s = sceneImage t \<and> undoHistory s = undoHistory t \<and>
      redoHistory s = redoHistory t)"

text \<open>The generator call a handler is suspended on, if it is suspended.\<close>

fun callOf :: "started \<Rightarrow> generatorCall option" where
  "callOf (Returned s) = None"
| "callOf (Awaiting s previousScene call) = Some call"

text \<open>
  The events that can take scenes off the redo stack: the settling of a submission
  (which clears it on success), the resets of the history, and redo (which pops one
  scene).
\<close>

fun takesFromRedo :: "appEvent \<Rightarrow> bool" where
  "takesFromRedo (SettleProductDrop now previousScene outcome) = True"
| "takesFromRedo (SettleSceneDesign now previousScene outcome) = True"
| "takesFromRedo (SettleSurfaceModification now previousScene outcome) = True"
| "takesFromRedo (InstantStartLoaded sceneFile objectFile now imageUrl) = True"
| "takesFromRedo Reset = True"
| "takesFromRedo ChangeScene = True"
| "takesFromRedo Redo = True"
| "takesFromRedo e = False"

subsection \<open>An environment for concrete runs\<close>

text \<open>
  A decoder that never throws and an object URL maker, used where a statement is
  evaluated on concrete data.
\<close>

definition exampleDecoder :: dataURLtoFile where
  "exampleDecoder url name = Inr (File name ''image/jpeg'' url)"

definition exampleObjectUrl :: "File \<Rightarrow> string" where
  "exampleObjectUrl f = ''blob:'' @ fileName f"

definition exampleScene :: File where
  "exampleScene = File ''scene.jpeg'' ''image/jpeg'' ''S0''"

definition exampleProductFile :: File where
  "exampleProductFile = File ''object.jpeg'' ''image/jpeg'' ''P''"

text \<open>A scene and a selected product, nothing in flight.\<close>

definition exampleReady :: app where
  "exampleReady =
     handleAddProduct 1 ''blob:object.jpeg'' exampleProductFile
       (initialApp\<lparr> sceneImage := Some exampleScene \<rparr>)"

text \<open>The code units of the instruction \<^verbatim>\<open>make it blue\<close>.\<close>

definition examplePrompt :: "nat list" where
  "examplePrompt = [109, 97, 107, 101, 32, 105, 116, 32, 98, 108, 117, 101]"

text \<open>The same with a redesign instruction typed and a surface modification pending.\<close>

definition examplePrepared :: app where
  "examplePrepared =
     exampleReady\<lparr> sceneDesignPrompt := examplePrompt,
                    surfaceModificationState :=
                      Some \<lparr> modType = color, modPosition = (Finite 50, Finite 50) \<rparr> \<rparr>"

text \<open>The same while a mutation is in flight.\<close>

definition exampleBusy :: app where
  "exampleBusy = examplePrepared\<lparr> isLoading := True \<rparr>"

definition exampleOldest :: File where
  "exampleOldest = File ''oldest.jpeg'' ''image/jpeg'' ''S-10''"

text \<open>The prepared state with an undo stack of ten scenes.\<close>

definition exampleFull :: app where
  "exampleFull =
     examplePrepared\<lparr> undoHistory := exampleOldest # replicate 9 exampleProductFile,
                       canUndo := True \<rparr>"

text \<open>A stored item with history arrays and no scene.\<close>

definition exampleStoredWithoutScene :: storedItem where
  "exampleStoredWithoutScene =
     Parsed \<lparr> savedProducts = None, savedScene = None,
              savedUndoHistory = Some [\<lparr> savedDataUrl = ''U'', savedName = ''undo.jpeg'' \<rparr>],
              savedRedoHistory = Some [\<lparr> savedDataUrl = ''R'', savedName = ''redo.jpeg'' \<rparr>],
              savedActiveProductId = None \<rparr>"

text \<open>
  The prepared state after a successful redesign, with a placement marker set, and
  after a successful placement that follows.
\<close>

definition exampleAfterFirst :: app where
  "exampleAfterFirst =
     (fst (submit exampleDecoder ''1'' (RedesignScene (Fulfilled ''S1'')) examplePrepared))
       \<lparr> persistedOrbPosition := Some (Finite 10, Finite 10) \<rparr>"

definition exampleAfterSecond :: app where
  "exampleAfterSecond =
     fst (submit exampleDecoder ''2''
            (PlaceProduct (Finite 10, Finite 10) (Finite 50, Finite 50) on_surface
               (Fulfilled \<lparr> finalImageUrl = ''S2'', resultDebugImageUrl = None,
                            finalPrompt = None \<rparr>))
            exampleAfterFirst)"

text \<open>The events whose handlers consult the busy flag.\<close>

fun consultsBusy :: "appEvent \<Rightarrow> bool" where
  "consultsBusy (PlacementRequest req) = True"
| "consultsBusy (TouchEnd touch dropZone img) = True"
| "consultsBusy e = False"

text \<open>The busy state with the placement menu still open.\<close>

definition exampleBusyWithMenu :: app where
  "exampleBusyWithMenu =
     exampleBusy\<lparr> placementContextMenu :=
                     Some \<lparr> screenX = Finite 310, screenY = Finite 120,
                            containerX = Finite 300, containerY = Finite 100,
                            relativeX = Finite 25, relativeY = Finite 25 \<rparr> \<rparr>"

text \<open>
  Stored items with a scene whose history arrays hold more than ten entries: eleven
  undo entries, and ten undo entries with one redo entry.
\<close>

definition exampleStoredEleven :: storedItem where
  "exampleStoredEleven =
     Parsed \<lparr> savedProducts = None,
              savedScene = Some \<lparr> savedDataUrl = ''S0'', savedName = ''scene.jpeg'' \<rparr>,
              savedUndoHistory =
                Some (replicate 11 \<lparr> savedDataUrl = ''U'', savedName = ''undo.jpeg'' \<rparr>),
              savedRedoHistory = None,
              savedActiveProductId = None \<rparr>"

definition exampleStoredTenAndOne :: storedItem where
  "exampleStoredTenAndOne =
     Parsed \<lparr> savedProducts = None,
              savedScene = Some \<lparr> savedDataUrl = ''S0'', savedName = ''scene.jpeg'' \<rparr>,
              savedUndoHistory =
                Some (replicate 10 \<lparr> savedDataUrl = ''U'', savedName = ''undo.jpeg'' \<rparr>),
              savedRedoHistory = Some [\<lparr> savedDataUrl = ''R'', savedName = ''redo.jpeg'' \<rparr>],
              savedActiveProductId = None \<rparr>"

text \<open>Containers at the origin and images, named by their dimensions.\<close>

definition box800x400 :: domRect where
  "box800x400 =
     \<lparr> rectLeft = Finite 0, rectTop = Finite 0, rectWidth = Finite 800,
       rectHeight = Finite 400 \<rparr>"

definition box800x450 :: domRect where
  "box800x450 =
     \<lparr> rectLeft = Finite 0, rectTop = Finite 0, rectWidth = Finite 800,
       rectHeight = Finite 450 \<rparr>"

definition box300x300 :: domRect where
  "box300x300 =
     \<lparr> rectLeft = Finite 0, rectTop = Finite 0, rectWidth = Finite 300,
       rectHeight = Finite 300 \<rparr>"

definition image900x900 :: imgElement where
  "image900x900 = \<lparr> naturalWidth = Finite 900, naturalHeight = Finite 900 \<rparr>"

definition image1600x900 :: imgElement where
  "image1600x900 = \<lparr> naturalWidth = Finite 1600, naturalHeight = Finite 900 \<rparr>"

definition image316x300 :: imgElement where
  "image316x300 = \<lparr> naturalWidth = Finite 316, naturalHeight = Finite 300 \<rparr>"

definition image101x1080 :: imgElement where
  "image101x1080 = \<lparr> naturalWidth = Finite 101, naturalHeight = Finite 1080 \<rparr>"

text \<open>An image that has not loaded: both natural dimensions are zero.\<close>

definition imageNotLoaded :: imgElement where
  "imageNotLoaded = \<lparr> naturalWidth = Finite 0, naturalHeight = Finite 0 \<rparr>"


section \<open>Rounding: results\<close>

text \<open>
  The exponent found by \<open>exponentOf\<close> is the binary exponent, rounding is monotone and
  keeps a value that is a double, so a quotient of \<open>0 \<le> x \<le> w\<close> rounds into
  \<open>[0, 1]\<close> and its hundredfold into \<open>[0, 100]\<close>.
\<close>

lemma powi_of_nonneg: "0 \<le> e \<Longrightarrow> (2::rat) powi e = 2 ^ nat e"
  by (simp add: power_int_def)

lemma powi_plus_one: "(2::rat) powi (e + 1) = 2 * 2 powi e"
  by (simp add: power_int_add)

lemma powi_strict_mono: "e < e' \<Longrightarrow> (2::rat) powi e < 2 powi e'"
  by (simp add: power_int_strict_increasing)

lemma powi_mono: "e \<le> e' \<Longrightarrow> (2::rat) powi e \<le> 2 powi e'"
  by (simp add: power_int_increasing)

lemma int_between_bitlen:
  assumes "0 < p"
  shows "(2::rat) powi (bitlen p - 1) \<le> of_int p" and "of_int p < (2::rat) powi (bitlen p)"
proof -
  from bitlen_bounds [OF assms]
  have lo: "2 ^ nat (bitlen p - 1) \<le> p" and hi: "p < 2 ^ nat (bitlen p)" by simp_all
  have b1: "1 \<le> bitlen p" using assms by (simp add: bitlen_alt_def)
  have "(of_int (2 ^ nat (bitlen p - 1)) :: rat) \<le> of_int p" using lo by (simp only: of_int_le_iff)
  then show "(2::rat) powi (bitlen p - 1) \<le> of_int p"
    using b1 by (simp add: powi_of_nonneg)
  have "(of_int p :: rat) < of_int (2 ^ nat (bitlen p))" using hi by (simp only: of_int_less_iff)
  then show "of_int p < (2::rat) powi (bitlen p)"
    using b1 by (simp add: powi_of_nonneg)
qed

lemma exponentOf_bounds:
  assumes "0 < a"
  shows "2 powi (exponentOf a) \<le> a" and "a < 2 powi (exponentOf a + 1)"
proof -
  obtain p q where pq: "quotient_of a = (p, q)" by (cases "quotient_of a")
  have q: "0 < q" using pq by (rule quotient_of_denom_pos)
  have a: "a = of_int p / of_int q" using pq by (rule quotient_of_div)
  have p: "0 < p" using assms a q by (simp add: zero_less_divide_iff)
  define e0 where "e0 = bitlen p - bitlen q"
  note P = int_between_bitlen [OF p] and Q = int_between_bitlen [OF q]
  have Qpos: "(0::rat) < of_int q" using q by simp
  have "a < 2 powi (bitlen p) / 2 powi (bitlen q - 1)"
  proof -
    have "of_int p / of_int q < (2::rat) powi (bitlen p) / of_int q"
      using P(2) Qpos by (simp add: divide_strict_right_mono)
    also have "\<dots> \<le> 2 powi (bitlen p) / 2 powi (bitlen q - 1)"
      using Q(1) by (simp add: frac_le)
    finally show ?thesis using a by simp
  qed
  moreover have "(2::rat) powi (bitlen p) / 2 powi (bitlen q - 1) = 2 powi (bitlen p - (bitlen q - 1))"
    by (simp add: power_int_diff)
  moreover have "bitlen p - (bitlen q - 1) = e0 + 1" by (simp add: e0_def)
  ultimately have up: "a < 2 powi (e0 + 1)" by simp
  have "2 powi (bitlen p - 1) / 2 powi (bitlen q) < a"
  proof -
    have "(2::rat) powi (bitlen p - 1) / 2 powi (bitlen q) < 2 powi (bitlen p - 1) / of_int q"
      using Q(2) Qpos by (simp add: frac_less2)
    also have "\<dots> \<le> of_int p / of_int q"
      using P(1) Qpos by (simp add: divide_right_mono)
    finally show ?thesis using a by simp
  qed
  moreover have "(2::rat) powi (bitlen p - 1) / 2 powi (bitlen q) = 2 powi (bitlen p - 1 - bitlen q)"
    by (simp add: power_int_diff)
  moreover have "bitlen p - 1 - bitlen q = e0 - 1" by (simp add: e0_def)
  ultimately have lo: "2 powi (e0 - 1) < a" by simp
  have ex: "exponentOf a = (if 2 powi e0 \<le> a then e0 else e0 - 1)"
    by (simp add: exponentOf_def pq e0_def Let_def)
  show "2 powi (exponentOf a) \<le> a"
    using lo by (simp add: ex)
  show "a < 2 powi (exponentOf a + 1)"
    using up by (auto simp add: ex)
qed

lemma exponentOf_unique:
  assumes "0 < a" "2 powi e \<le> a" "a < 2 powi (e + 1)"
  shows "exponentOf a = e"
proof (rule ccontr)
  assume ne: "exponentOf a \<noteq> e"
  note b = exponentOf_bounds [OF assms(1)]
  show False
  proof (cases "exponentOf a < e")
    case True
    then have "(2::rat) powi (exponentOf a + 1) \<le> 2 powi e" by (simp add: powi_mono)
    then show False using b(2) assms(2) by simp
  next
    case False
    then have "e + 1 \<le> exponentOf a" using ne by simp
    then have "(2::rat) powi (e + 1) \<le> 2 powi (exponentOf a)" by (simp add: powi_mono)
    then show False using b(1) assms(3) by simp
  qed
qed

lemma exponentOf_mono:
  assumes "0 < a" "a \<le> b"
  shows "exponentOf a \<le> exponentOf b"
proof (rule ccontr)
  assume "\<not> exponentOf a \<le> exponentOf b"
  then have "exponentOf b + 1 \<le> exponentOf a" by simp
  then have "(2::rat) powi (exponentOf b + 1) \<le> 2 powi (exponentOf a)" by (simp add: powi_mono)
  moreover have "0 < b" using assms by simp
  ultimately show False
    using exponentOf_bounds(1) [OF assms(1)] exponentOf_bounds(2) [of b] assms(2) by simp
qed

lemma roundNearestEven_between:
  "\<lfloor>m\<rfloor> \<le> roundNearestEven m" "roundNearestEven m \<le> \<lfloor>m\<rfloor> + 1"
  by (simp_all add: roundNearestEven_def Let_def)

lemma roundNearestEven_of_int: "roundNearestEven (of_int n) = n"
  by (simp add: roundNearestEven_def Let_def)

lemma roundNearestEven_mono:
  assumes "m \<le> m'"
  shows "roundNearestEven m \<le> roundNearestEven m'"
proof (cases "\<lfloor>m\<rfloor> = \<lfloor>m'\<rfloor>")
  case True
  then have "m - of_int \<lfloor>m\<rfloor> \<le> m' - of_int \<lfloor>m'\<rfloor>" using assms by simp
  then show ?thesis using True by (auto simp add: roundNearestEven_def Let_def)
next
  case False
  then have "\<lfloor>m\<rfloor> < \<lfloor>m'\<rfloor>" using assms floor_mono [of m m'] by simp
  then have "roundNearestEven m \<le> \<lfloor>m'\<rfloor>" using roundNearestEven_between(2) [of m] by simp
  then show ?thesis using roundNearestEven_between(1) [of m'] by simp
qed

lemma roundNearestEven_le: "m \<le> of_int n \<Longrightarrow> roundNearestEven m \<le> n"
  using roundNearestEven_mono [of m "of_int n"] by (simp add: roundNearestEven_of_int)

lemma roundNearestEven_ge: "of_int n \<le> m \<Longrightarrow> n \<le> roundNearestEven m"
  using roundNearestEven_mono [of "of_int n" m] by (simp add: roundNearestEven_of_int)


lemma powi_ratio: "(2::rat) powi x / 2 powi y = 2 powi (x - y)"
  by (simp add: power_int_diff)

lemma powi_product: "(2::rat) powi x * 2 powi y = 2 powi (x + y)"
  by (simp add: power_int_add)

lemma powi_53: "(2::rat) powi 53 = of_int (2 ^ 53)"
  by simp

lemma powi_52: "(2::rat) powi 52 = of_int (2 ^ 52)"
  by simp

lemma roundMagnitude_nonneg:
  assumes "0 < a"
  shows "0 \<le> roundMagnitude a"
proof -
  define e where "e = max (exponentOf a) (- 1022)"
  have "0 \<le> a / 2 powi (e - 52)" using assms by simp
  then have "0 \<le> roundNearestEven (a / 2 powi (e - 52))"
    using roundNearestEven_ge [of 0] by simp
  then show ?thesis by (simp add: roundMagnitude_def Let_def e_def)
qed

lemma roundMagnitude_upper:
  assumes "0 < a"
  shows "roundMagnitude a \<le> 2 powi (max (exponentOf a) (- 1022) + 1)"
proof -
  define e where "e = max (exponentOf a) (- 1022)"
  have qpos: "(0::rat) < 2 powi (e - 52)" by simp
  have "a < 2 powi (exponentOf a + 1)" by (rule exponentOf_bounds(2) [OF assms])
  also have "\<dots> \<le> 2 powi (e + 1)" by (simp add: e_def powi_mono)
  finally have "a / 2 powi (e - 52) < 2 powi (e + 1) / 2 powi (e - 52)"
    using qpos by (simp add: divide_strict_right_mono)
  also have "\<dots> = 2 powi ((e + 1) - (e - 52))" by (rule powi_ratio)
  also have "(e + 1) - (e - 52) = 53" by simp
  finally have "a / 2 powi (e - 52) \<le> of_int (2 ^ 53)" by (simp only: powi_53)
  then have "roundNearestEven (a / 2 powi (e - 52)) \<le> 2 ^ 53"
    by (rule roundNearestEven_le)
  then have "(of_int (roundNearestEven (a / 2 powi (e - 52))) :: rat) \<le> of_int (2 ^ 53)"
    by (simp only: of_int_le_iff)
  then have "of_int (roundNearestEven (a / 2 powi (e - 52))) * 2 powi (e - 52)
      \<le> (of_int (2 ^ 53) :: rat) * 2 powi (e - 52)"
    using qpos by (simp only: mult_le_cancel_right_pos)
  also have "(of_int (2 ^ 53) :: rat) * 2 powi (e - 52) = 2 powi 53 * 2 powi (e - 52)"
    by (simp only: powi_53)
  also have "\<dots> = 2 powi (53 + (e - 52))" by (rule powi_product)
  also have "53 + (e - 52) = e + 1" by simp
  finally show ?thesis by (simp add: roundMagnitude_def Let_def e_def)
qed

lemma roundMagnitude_lower:
  assumes "0 < a" "- 1022 \<le> exponentOf a"
  shows "2 powi (exponentOf a) \<le> roundMagnitude a"
proof -
  define e where "e = exponentOf a"
  have m: "max (exponentOf a) (- 1022) = e" using assms(2) by (simp add: e_def)
  have qpos: "(0::rat) < 2 powi (e - 52)" by simp
  have "2 powi e \<le> a" unfolding e_def by (rule exponentOf_bounds(1) [OF assms(1)])
  then have "2 powi e / 2 powi (e - 52) \<le> a / 2 powi (e - 52)"
    using qpos by (simp add: divide_right_mono)
  moreover have "(2::rat) powi e / 2 powi (e - 52) = 2 powi (e - (e - 52))" by (rule powi_ratio)
  moreover have "e - (e - 52) = 52" by simp
  ultimately have "of_int (2 ^ 52) \<le> a / 2 powi (e - 52)" by (simp only: powi_52)
  then have "2 ^ 52 \<le> roundNearestEven (a / 2 powi (e - 52))"
    by (rule roundNearestEven_ge)
  then have "(of_int (2 ^ 52) :: rat) \<le> of_int (roundNearestEven (a / 2 powi (e - 52)))"
    by (simp only: of_int_le_iff)
  then have "(of_int (2 ^ 52) :: rat) * 2 powi (e - 52)
      \<le> of_int (roundNearestEven (a / 2 powi (e - 52))) * 2 powi (e - 52)"
    using qpos by (simp only: mult_le_cancel_right_pos)
  moreover have "(of_int (2 ^ 52) :: rat) * 2 powi (e - 52) = 2 powi 52 * 2 powi (e - 52)"
    by (simp only: powi_52)
  moreover have "(2::rat) powi 52 * 2 powi (e - 52) = 2 powi (52 + (e - 52))" by (rule powi_product)
  moreover have "52 + (e - 52) = e" by simp
  ultimately have "(2::rat) powi e
      \<le> of_int (roundNearestEven (a / 2 powi (e - 52))) * 2 powi (e - 52)"
    by (simp only:)
  then show ?thesis using m by (simp add: roundMagnitude_def Let_def e_def)
qed

lemma roundMagnitude_mono:
  assumes "0 < a" "a \<le> b"
  shows "roundMagnitude a \<le> roundMagnitude b"
proof -
  have b: "0 < b" using assms by simp
  define ea where "ea = max (exponentOf a) (- 1022)"
  define eb where "eb = max (exponentOf b) (- 1022)"
  have le: "ea \<le> eb" using exponentOf_mono [OF assms] by (simp add: ea_def eb_def)
  show ?thesis
  proof (cases "ea = eb")
    case True
    have qpos: "(0::rat) < 2 powi (eb - 52)" by simp
    have "a / 2 powi (eb - 52) \<le> b / 2 powi (eb - 52)"
      using assms(2) qpos by (simp add: divide_right_mono)
    then have "roundNearestEven (a / 2 powi (eb - 52)) \<le> roundNearestEven (b / 2 powi (eb - 52))"
      by (rule roundNearestEven_mono)
    then have "(of_int (roundNearestEven (a / 2 powi (eb - 52))) :: rat)
        \<le> of_int (roundNearestEven (b / 2 powi (eb - 52)))"
      by (simp only: of_int_le_iff)
    then have "of_int (roundNearestEven (a / 2 powi (eb - 52))) * 2 powi (eb - 52)
        \<le> (of_int (roundNearestEven (b / 2 powi (eb - 52))) :: rat) * 2 powi (eb - 52)"
      using qpos by (simp only: mult_le_cancel_right_pos)
    then show ?thesis using True by (simp add: roundMagnitude_def Let_def ea_def eb_def)
  next
    case False
    then have lt: "ea < eb" using le by simp
    then have n: "- 1022 \<le> exponentOf b" and eq: "eb = exponentOf b"
      by (auto simp add: ea_def eb_def)
    have "roundMagnitude a \<le> 2 powi (ea + 1)"
      unfolding ea_def by (rule roundMagnitude_upper [OF assms(1)])
    also have "\<dots> \<le> 2 powi eb" using lt by (simp add: powi_mono)
    also have "\<dots> \<le> roundMagnitude b"
      unfolding eq by (rule roundMagnitude_lower [OF b n])
    finally show ?thesis .
  qed
qed

lemma roundMagnitude_one: "roundMagnitude 1 = 1"
  by code_simp

lemma roundMagnitude_hundred: "roundMagnitude 100 = 100"
  by code_simp

lemma roundDouble_bounded:
  assumes "0 < a" "a \<le> B" "roundMagnitude B = B" "B < 2 powi 1024"
  shows "\<exists>v. roundDouble a = Finite v \<and> 0 \<le> v \<and> v \<le> B"
proof -
  have "roundMagnitude a \<le> B" using roundMagnitude_mono [OF assms(1,2)] assms(3) by simp
  moreover have "0 \<le> roundMagnitude a" by (rule roundMagnitude_nonneg [OF assms(1)])
  ultimately show ?thesis using assms(1,4) by (simp add: roundDouble_def)
qed

lemma percentage_in_range:
  assumes "jsLessEq (Finite 0) ix" "jsLessEq ix rw" "jsLess (Finite 0) rw" "jsLess rw PosInfinity"
  shows "jsLessEq (Finite 0) (multiplyWith roundDouble (divideWith roundDouble ix rw) (Finite 100)) \<and>
         jsLessEq (multiplyWith roundDouble (divideWith roundDouble ix rw) (Finite 100)) (Finite 100)"
proof -
  obtain w where w: "rw = Finite w" "0 < w"
    using assms(3,4) by (cases rw) (auto simp add: jsLess_def)
  have "ix = NegZero \<or> ix = Finite 0 \<or> (\<exists>x. ix = Finite x \<and> 0 < x \<and> x \<le> w)"
    using assms(1,2) w by (cases ix) (auto simp add: jsLessEq_def)
  then consider (nz) "ix = NegZero" | (z) "ix = Finite 0"
    | (pos) x where "ix = Finite x" "0 < x" "x \<le> w"
    by blast
  then show ?thesis
  proof cases
    case nz
    then show ?thesis using w
      by (simp add: divideWith_def multiplyWith_def signedZero_def jsLessEq_def)
  next
    case z
    then show ?thesis using w
      by (simp add: divideWith_def multiplyWith_def signedZero_def jsLessEq_def)
  next
    case pos
    have r: "0 < x / w" "x / w \<le> 1" using pos w by simp_all
    have one: "(1::rat) < 2 powi 1024" by simp
    obtain q where q: "roundDouble (x / w) = Finite q" "0 \<le> q" "q \<le> 1"
      using roundDouble_bounded [OF r roundMagnitude_one one] by auto
    have d: "divideWith roundDouble ix rw = Finite q"
      using pos w q by (simp add: divideWith_def)
    show ?thesis
    proof (cases "q = 0")
      case True
      then show ?thesis using d
        by (simp add: multiplyWith_def signedZero_def jsLessEq_def)
    next
      case False
      then have p: "0 < q * 100" "q * 100 \<le> 100" using q by simp_all
      have hundred: "(100::rat) < 2 powi 1024" by simp
      obtain v where v: "roundDouble (q * 100) = Finite v" "0 \<le> v" "v \<le> 100"
        using roundDouble_bounded [OF p roundMagnitude_hundred hundred] by auto
      then show ?thesis using d False
        by (simp add: multiplyWith_def jsLessEq_def)
    qed
  qed
qed

lemma lessEq_not_less: "jsLessEq x y \<Longrightarrow> \<not> jsLess y x"
  by (cases x; cases y) (auto simp add: jsLessEq_def jsLess_def)

lemma ieee754_fields:
  "numDiv ieee754 = divideWith roundDouble" "numMul ieee754 = multiplyWith roundDouble"
  "numSub ieee754 = subtractWith roundDouble" "numLt ieee754 = jsLess"
  "numGt ieee754 = jsGreater"
  by (simp_all add: ieee754_def arithmeticWith_def)

section \<open>The coordinate mapper: results\<close>

text \<open>
  Both copies of the computation in the code agree with the mapping of the
  specification, whatever the arithmetic.
\<close>

lemma handlePlacement_refines_spec:
  "handlePlacement ar (Some im) True clientX clientY box =
     (case spec_mapToImageSpace ar box im (clientX, clientY) of
        Inl e \<Rightarrow> None
      | Inr rel \<Rightarrow>
          Some \<lparr> dropPosition =
                   (numSub ar clientX (rectLeft box), numSub ar clientY (rectTop box)),
                 dropRelative = rel \<rparr>)"
  by (simp add: handlePlacement_def spec_mapToImageSpace_def spec_outside_def
      spec_imageX_def spec_imageY_def spec_offsetX_def spec_offsetY_def
      spec_renderedWidth_def spec_renderedHeight_def spec_imageAspect_def
      spec_containerAspect_def Let_def)

lemma handleTouchEnd_refines_spec:
  "isTouchDragging s \<Longrightarrow>
   snd (handleTouchEnd ar (clientX, clientY) (Some box) (Some im) s) =
     (case spec_mapToImageSpace ar box im (clientX, clientY) of
        Inl e \<Rightarrow> None
      | Inr rel \<Rightarrow>
          Some \<lparr> reqClientX = clientX, reqClientY = clientY,
                 reqContainerX = numSub ar clientX (rectLeft box),
                 reqContainerY = numSub ar clientY (rectTop box),
                 reqRelative = rel \<rparr>)"
  by (simp add: handleTouchEnd_def spec_mapToImageSpace_def spec_outside_def
      spec_imageX_def spec_imageY_def spec_offsetX_def spec_offsetY_def
      spec_renderedWidth_def spec_renderedHeight_def spec_imageAspect_def
      spec_containerAspect_def Let_def)

subsection \<open>Evaluating double arithmetic\<close>

text \<open>
  Rounding a rational whose binary exponent \<open>e\<close> is known, in a form that
  simplification can evaluate.
\<close>

lemma roundDouble_eval_pos:
  assumes "0 < a" "2 powi e \<le> a" "a < 2 powi (e + 1)" "- 1022 \<le> e"
  shows "roundDouble a =
           (if (2::rat) powi 1024 \<le> of_int (roundNearestEven (a / 2 powi (e - 52))) * 2 powi (e - 52)
            then PosInfinity
            else Finite (of_int (roundNearestEven (a / 2 powi (e - 52))) * 2 powi (e - 52)))"
proof -
  have "exponentOf a = e" by (rule exponentOf_unique [OF assms(1-3)])
  then have "roundMagnitude a = of_int (roundNearestEven (a / 2 powi (e - 52))) * 2 powi (e - 52)"
    using assms(4) by (simp add: roundMagnitude_def Let_def max_def)
  then show ?thesis using assms(1) by (simp add: roundDouble_def)
qed

lemma roundDouble_eval_neg:
  assumes "a < 0" "2 powi e \<le> - a" "- a < 2 powi (e + 1)" "- 1022 \<le> e"
  shows "roundDouble a =
           (if (2::rat) powi 1024 \<le> of_int (roundNearestEven (- a / 2 powi (e - 52))) * 2 powi (e - 52)
            then NegInfinity
            else if of_int (roundNearestEven (- a / 2 powi (e - 52))) * (2::rat) powi (e - 52) = 0
            then NegZero
            else Finite (- (of_int (roundNearestEven (- a / 2 powi (e - 52))) * 2 powi (e - 52))))"
proof -
  have "exponentOf (- a) = e" using assms(1) by (intro exponentOf_unique assms(2,3)) simp
  then have "roundMagnitude (- a) =
      of_int (roundNearestEven (- a / 2 powi (e - 52))) * 2 powi (e - 52)"
    using assms(4) by (simp add: roundMagnitude_def Let_def max_def)
  then show ?thesis using assms(1) by (simp add: roundDouble_def)
qed

lemma floor_quotient_numeral:
  "\<lfloor>(numeral a :: rat) / numeral b\<rfloor> = numeral a div numeral b"
  using floor_divide_of_int_eq [of "numeral a" "numeral b", where ?'a = rat] by simp

text \<open>
  The operations that the mapping carries out on the inputs used below, each with its
  result in double arithmetic.
\<close>

lemma double_div_1:
  "divideWith roundDouble (Finite 900) (Finite 900) = Finite 1"
  by (simp add: divideWith_def roundDouble_eval_pos [where e = 0] roundNearestEven_def
      floor_quotient_numeral Let_def)

lemma double_div_2:
  "divideWith roundDouble (Finite 800) (Finite 400) = Finite 2"
  by (simp add: divideWith_def roundDouble_eval_pos [where e = 1] roundNearestEven_def
      floor_quotient_numeral Let_def)

lemma double_mul_3:
  "multiplyWith roundDouble (Finite 400) (Finite 1) = Finite 400"
  by (simp add: multiplyWith_def roundDouble_eval_pos [where e = 8] roundNearestEven_def
      floor_quotient_numeral Let_def)

lemma double_sub_4:
  "subtractWith roundDouble (Finite 800) (Finite 400) = Finite 400"
  by (simp add: subtractWith_def roundDouble_eval_pos [where e = 8] roundNearestEven_def
      floor_quotient_numeral Let_def)

lemma double_div_5:
  "divideWith roundDouble (Finite 400) (Finite 2) = Finite 200"
  by (simp add: divideWith_def roundDouble_eval_pos [where e = 7] roundNearestEven_def
      floor_quotient_numeral Let_def)

lemma double_sub_6:
  "subtractWith roundDouble (Finite 400) (Finite 400) = Finite 0"
  by (simp add: subtractWith_def signedZero_def signedInfinity_def)

lemma double_div_7:
  "divideWith roundDouble (Finite 0) (Finite 2) = Finite 0"
  by (simp add: divideWith_def signedZero_def signedInfinity_def)

lemma double_sub_8:
  "subtractWith roundDouble (Finite 200) (Finite 0) = Finite 200"
  by (simp add: subtractWith_def roundDouble_eval_pos [where e = 7] roundNearestEven_def
      floor_quotient_numeral Let_def)

lemma double_sub_9:
  "subtractWith roundDouble (Finite 0) (Finite 0) = Finite 0"
  by (simp add: subtractWith_def signedZero_def signedInfinity_def)

lemma double_sub_10:
  "subtractWith roundDouble (Finite 200) (Finite 200) = Finite 0"
  by (simp add: subtractWith_def signedZero_def signedInfinity_def)

lemma double_div_11:
  "divideWith roundDouble (Finite 0) (Finite 400) = Finite 0"
  by (simp add: divideWith_def signedZero_def signedInfinity_def)

lemma double_mul_12:
  "multiplyWith roundDouble (Finite 0) (Finite 100) = Finite 0"
  by (simp add: multiplyWith_def signedZero_def signedInfinity_def)

lemma double_sub_13:
  "subtractWith roundDouble (Finite 150) (Finite 0) = Finite 150"
  by (simp add: subtractWith_def roundDouble_eval_pos [where e = 7] roundNearestEven_def
      floor_quotient_numeral Let_def)

lemma double_sub_14:
  "subtractWith roundDouble (Finite 150) (Finite 200) = Finite (- 50)"
  by (simp add: subtractWith_def roundDouble_eval_neg [where e = 5] roundNearestEven_def
      floor_quotient_numeral Let_def)

lemma double_div_15:
  "divideWith roundDouble (Finite 1600) (Finite 900) = Finite (2001599834386887 / 1125899906842624)"
  by (simp add: divideWith_def roundDouble_eval_pos [where e = 0] roundNearestEven_def
      floor_quotient_numeral Let_def)

lemma double_div_16:
  "divideWith roundDouble (Finite 800) (Finite 450) = Finite (2001599834386887 / 1125899906842624)"
  by (simp add: divideWith_def roundDouble_eval_pos [where e = 0] roundNearestEven_def
      floor_quotient_numeral Let_def)

lemma double_mul_17:
  "multiplyWith roundDouble (Finite 450) (Finite (2001599834386887 / 1125899906842624)) = Finite 800"
  by (simp add: multiplyWith_def roundDouble_eval_pos [where e = 9] roundNearestEven_def
      floor_quotient_numeral Let_def)

lemma double_sub_18:
  "subtractWith roundDouble (Finite 800) (Finite 800) = Finite 0"
  by (simp add: subtractWith_def signedZero_def signedInfinity_def)

lemma double_sub_19:
  "subtractWith roundDouble (Finite 450) (Finite 450) = Finite 0"
  by (simp add: subtractWith_def signedZero_def signedInfinity_def)

lemma double_sub_20:
  "subtractWith roundDouble (Finite 400) (Finite 0) = Finite 400"
  by (simp add: subtractWith_def roundDouble_eval_pos [where e = 8] roundNearestEven_def
      floor_quotient_numeral Let_def)

lemma double_sub_21:
  "subtractWith roundDouble (Finite 225) (Finite 0) = Finite 225"
  by (simp add: subtractWith_def roundDouble_eval_pos [where e = 7] roundNearestEven_def
      floor_quotient_numeral Let_def)

lemma double_div_22:
  "divideWith roundDouble (Finite 400) (Finite 800) = Finite (1 / 2)"
  by (simp add: divideWith_def roundDouble_eval_pos [where e = "- 1"] roundNearestEven_def
      floor_quotient_numeral Let_def)

lemma double_mul_23:
  "multiplyWith roundDouble (Finite (1 / 2)) (Finite 100) = Finite 50"
  by (simp add: multiplyWith_def roundDouble_eval_pos [where e = 5] roundNearestEven_def
      floor_quotient_numeral Let_def)

lemma double_div_24:
  "divideWith roundDouble (Finite 225) (Finite 450) = Finite (1 / 2)"
  by (simp add: divideWith_def roundDouble_eval_pos [where e = "- 1"] roundNearestEven_def
      floor_quotient_numeral Let_def)

lemma double_sub_25:
  "subtractWith roundDouble (Finite 600) (Finite 0) = Finite 600"
  by (simp add: subtractWith_def roundDouble_eval_pos [where e = 9] roundNearestEven_def
      floor_quotient_numeral Let_def)

lemma double_sub_26:
  "subtractWith roundDouble (Finite 600) (Finite 200) = Finite 400"
  by (simp add: subtractWith_def roundDouble_eval_pos [where e = 8] roundNearestEven_def
      floor_quotient_numeral Let_def)

lemma double_div_27:
  "divideWith roundDouble (Finite 400) (Finite 400) = Finite 1"
  by (simp add: divideWith_def roundDouble_eval_pos [where e = 0] roundNearestEven_def
      floor_quotient_numeral Let_def)

lemma double_mul_28:
  "multiplyWith roundDouble (Finite 1) (Finite 100) = Finite 100"
  by (simp add: multiplyWith_def roundDouble_eval_pos [where e = 6] roundNearestEven_def
      floor_quotient_numeral Let_def)

lemma double_div_29:
  "divideWith roundDouble (Finite 0) (Finite 0) = NaN"
  by (simp add: divideWith_def signedZero_def signedInfinity_def)

lemma double_mul_30:
  "multiplyWith roundDouble (Finite 450) NaN = NaN"
  by (simp add: multiplyWith_def signedZero_def signedInfinity_def)

lemma double_sub_31:
  "subtractWith roundDouble (Finite 800) NaN = NaN"
  by (simp add: subtractWith_def signedZero_def signedInfinity_def)

lemma double_div_32:
  "divideWith roundDouble NaN (Finite 2) = NaN"
  by (simp add: divideWith_def signedZero_def signedInfinity_def)

lemma double_sub_33:
  "subtractWith roundDouble (Finite 400) NaN = NaN"
  by (simp add: subtractWith_def signedZero_def signedInfinity_def)

lemma double_div_34:
  "divideWith roundDouble NaN NaN = NaN"
  by (simp add: divideWith_def signedZero_def signedInfinity_def)

lemma double_mul_35:
  "multiplyWith roundDouble NaN (Finite 100) = NaN"
  by (simp add: multiplyWith_def signedZero_def signedInfinity_def)

lemma double_div_36:
  "divideWith roundDouble (Finite 316) (Finite 300) = Finite (2371895803748461 / 2251799813685248)"
  by (simp add: divideWith_def roundDouble_eval_pos [where e = 0] roundNearestEven_def
      floor_quotient_numeral Let_def)

lemma double_mul_37:
  "multiplyWith roundDouble (Finite 450) (Finite (2371895803748461 / 2251799813685248)) = Finite (8338696185053183 / 17592186044416)"
  by (simp add: multiplyWith_def roundDouble_eval_pos [where e = 8] roundNearestEven_def
      floor_quotient_numeral Let_def)

lemma double_sub_38:
  "subtractWith roundDouble (Finite 800) (Finite (8338696185053183 / 17592186044416)) = Finite (5735052650479617 / 17592186044416)"
  by (simp add: subtractWith_def roundDouble_eval_pos [where e = 8] roundNearestEven_def
      floor_quotient_numeral Let_def)

lemma double_div_39:
  "divideWith roundDouble (Finite (5735052650479617 / 17592186044416)) (Finite 2) = Finite (5735052650479617 / 35184372088832)"
  by (simp add: divideWith_def roundDouble_eval_pos [where e = 7] roundNearestEven_def
      floor_quotient_numeral Let_def)

lemma double_sub_40:
  "subtractWith roundDouble (Finite 637) (Finite 0) = Finite 637"
  by (simp add: subtractWith_def roundDouble_eval_pos [where e = 9] roundNearestEven_def
      floor_quotient_numeral Let_def)

lemma double_sub_41:
  "subtractWith roundDouble (Finite 637) (Finite (5735052650479617 / 35184372088832)) = Finite 474"
  by (simp add: subtractWith_def roundDouble_eval_pos [where e = 8] roundNearestEven_def
      floor_quotient_numeral Let_def)

lemma double_sub_42:
  "subtractWith roundDouble (Finite 163) (Finite 0) = Finite 163"
  by (simp add: subtractWith_def roundDouble_eval_pos [where e = 7] roundNearestEven_def
      floor_quotient_numeral Let_def)

lemma double_sub_43:
  "subtractWith roundDouble (Finite 163) (Finite (5735052650479617 / 35184372088832)) = Finite (- (1 / 35184372088832))"
  by (simp add: subtractWith_def roundDouble_eval_neg [where e = "- 45"] roundNearestEven_def
      floor_quotient_numeral Let_def)

lemma double_div_44:
  "divideWith roundDouble (Finite 300) (Finite 300) = Finite 1"
  by (simp add: divideWith_def roundDouble_eval_pos [where e = 0] roundNearestEven_def
      floor_quotient_numeral Let_def)

lemma double_mul_45:
  "multiplyWith roundDouble (Finite 300) (Finite 1) = Finite 300"
  by (simp add: multiplyWith_def roundDouble_eval_pos [where e = 8] roundNearestEven_def
      floor_quotient_numeral Let_def)

lemma double_sub_46:
  "subtractWith roundDouble (Finite 300) (Finite 300) = Finite 0"
  by (simp add: subtractWith_def signedZero_def signedInfinity_def)

lemma double_sub_47:
  "subtractWith roundDouble (Finite 100) (Finite 0) = Finite 100"
  by (simp add: subtractWith_def roundDouble_eval_pos [where e = 6] roundNearestEven_def
      floor_quotient_numeral Let_def)

lemma double_div_48:
  "divideWith roundDouble (Finite 100) (Finite 300) = Finite (6004799503160661 / 18014398509481984)"
  by (simp add: divideWith_def roundDouble_eval_pos [where e = "- 2"] roundNearestEven_def
      floor_quotient_numeral Let_def)

lemma double_mul_49:
  "multiplyWith roundDouble (Finite (6004799503160661 / 18014398509481984)) (Finite 100) = Finite (2345624805922133 / 70368744177664)"
  by (simp add: multiplyWith_def roundDouble_eval_pos [where e = 5] roundNearestEven_def
      floor_quotient_numeral Let_def)

lemma double_div_50:
  "divideWith roundDouble (Finite 0) (Finite 300) = Finite 0"
  by (simp add: divideWith_def signedZero_def signedInfinity_def)

lemma double_div_51:
  "divideWith roundDouble (Finite 101) (Finite 1080) = Finite (6738719442435853 / 72057594037927936)"
  by (simp add: divideWith_def roundDouble_eval_pos [where e = "- 4"] roundNearestEven_def
      floor_quotient_numeral Let_def)

lemma double_mul_52:
  "multiplyWith roundDouble (Finite 450) (Finite (6738719442435853 / 72057594037927936)) = Finite (2961351317476693 / 70368744177664)"
  by (simp add: multiplyWith_def roundDouble_eval_pos [where e = 5] roundNearestEven_def
      floor_quotient_numeral Let_def)

lemma double_sub_53:
  "subtractWith roundDouble (Finite 800) (Finite (2961351317476693 / 70368744177664)) = Finite (6666705503081813 / 8796093022208)"
  by (simp add: subtractWith_def roundDouble_eval_pos [where e = 9] roundNearestEven_def
      floor_quotient_numeral Let_def)

lemma double_div_54:
  "divideWith roundDouble (Finite (6666705503081813 / 8796093022208)) (Finite 2) = Finite (6666705503081813 / 17592186044416)"
  by (simp add: divideWith_def roundDouble_eval_pos [where e = 8] roundNearestEven_def
      floor_quotient_numeral Let_def)

lemma double_sub_55:
  "subtractWith roundDouble (Finite (6666705503081813 / 17592186044416)) (Finite 0) = Finite (6666705503081813 / 17592186044416)"
  by (simp add: subtractWith_def roundDouble_eval_pos [where e = 8] roundNearestEven_def
      floor_quotient_numeral Let_def)

lemma double_sub_56:
  "subtractWith roundDouble (Finite (6666705503081813 / 17592186044416)) (Finite (6666705503081813 / 17592186044416)) = Finite 0"
  by (simp add: subtractWith_def signedZero_def signedInfinity_def)

lemma double_div_57:
  "divideWith roundDouble (Finite 0) (Finite (2961351317476693 / 70368744177664)) = Finite 0"
  by (simp add: divideWith_def signedZero_def signedInfinity_def)

lemma double_div_58:
  "divideWith roundDouble (Finite 0) (Finite 450) = Finite 0"
  by (simp add: divideWith_def signedZero_def signedInfinity_def)

lemmas double_ops =
  double_div_1 double_div_2 double_mul_3 double_sub_4 double_div_5 double_sub_6
  double_div_7 double_sub_8 double_sub_9 double_sub_10 double_div_11 double_mul_12
  double_sub_13 double_sub_14 double_div_15 double_div_16 double_mul_17 double_sub_18
  double_sub_19 double_sub_20 double_sub_21 double_div_22 double_mul_23 double_div_24
  double_sub_25 double_sub_26 double_div_27 double_mul_28 double_div_29 double_mul_30
  double_sub_31 double_div_32 double_sub_33 double_div_34 double_mul_35 double_div_36
  double_mul_37 double_sub_38 double_div_39 double_sub_40 double_sub_41 double_sub_42
  double_sub_43 double_div_44 double_mul_45 double_sub_46 double_sub_47 double_div_48
  double_mul_49 double_div_50 double_div_51 double_mul_52 double_sub_53 double_div_54
  double_sub_55 double_sub_56 double_div_57 double_div_58

lemma exactArith_fields:
  "numDiv exactArith = divideWith Finite" "numMul exactArith = multiplyWith Finite"
  "numSub exactArith = subtractWith Finite" "numLt exactArith = jsLess"
  "numGt exactArith = jsGreater"
  by (simp_all add: exactArith_def arithmeticWith_def)

lemmas spec_defs =
  spec_mapToImageSpace_def spec_outside_def spec_imageX_def spec_imageY_def spec_offsetX_def
  spec_offsetY_def spec_renderedWidth_def spec_renderedHeight_def spec_imageAspect_def
  spec_containerAspect_def

lemmas fixture_defs =
  box800x400_def box800x450_def box300x300_def image900x900_def image1600x900_def
  image316x300_def image101x1080_def imageNotLoaded_def

text \<open>The mapping in double arithmetic at the points used below.\<close>

lemma double_square_left_edge:
  "spec_mapToImageSpace ieee754 box800x400 image900x900 (Finite 200, Finite 0)
   = Inr (Finite 0, Finite 0)"
  by (simp add: spec_defs fixture_defs ieee754_fields double_ops jsLess_def jsGreater_def)

lemma double_square_padding:
  "spec_mapToImageSpace ieee754 box800x400 image900x900 (Finite 150, Finite 0)
   = Inl OutOfBounds"
  by (simp add: spec_defs fixture_defs ieee754_fields double_ops jsLess_def jsGreater_def)

lemma double_same_aspect_centre:
  "spec_mapToImageSpace ieee754 box800x450 image1600x900 (Finite 400, Finite 225)
   = Inr (Finite 50, Finite 50)"
  by (simp add: spec_defs fixture_defs ieee754_fields double_ops jsLess_def jsGreater_def)

lemma double_square_corner:
  "spec_mapToImageSpace ieee754 box800x400 image900x900 (Finite 600, Finite 400)
   = Inr (Finite 100, Finite 100)"
  by (simp add: spec_defs fixture_defs ieee754_fields double_ops jsLess_def jsGreater_def)

lemma double_not_loaded:
  "spec_mapToImageSpace ieee754 box800x450 imageNotLoaded (Finite 400, Finite 225)
   = Inr (NaN, Finite 50)"
  by (simp add: spec_defs fixture_defs ieee754_fields double_ops jsLess_def jsGreater_def)

lemma double_right_edge:
  "spec_mapToImageSpace ieee754 box800x450 image316x300 (Finite 637, Finite 0)
   = Inl OutOfBounds"
  by (simp add: spec_defs fixture_defs ieee754_fields double_ops jsLess_def jsGreater_def)

lemma double_left_edge:
  "spec_mapToImageSpace ieee754 box800x450 image316x300 (Finite 163, Finite 0)
   = Inl OutOfBounds"
  by (simp add: spec_defs fixture_defs ieee754_fields double_ops jsLess_def jsGreater_def)

lemma double_third:
  "spec_mapToImageSpace ieee754 box300x300 image900x900 (Finite 100, Finite 0)
   = Inr (Finite (2345624805922133 / 70368744177664), Finite 0)"
  by (simp add: spec_defs fixture_defs ieee754_fields double_ops jsLess_def jsGreater_def)

lemma double_just_outside:
  "spec_mapToImageSpace ieee754 box800x450 image101x1080
     (Finite (6666705503081813 / 17592186044416), Finite 0)
   = Inr (Finite 0, Finite 0)"
  by (simp add: spec_defs fixture_defs ieee754_fields double_ops jsLess_def jsGreater_def)

text \<open>The same formulas in exact arithmetic.\<close>

lemmas exact_ops =
  exactArith_fields divideWith_def multiplyWith_def subtractWith_def signedZero_def
  signedInfinity_def jsLess_def jsGreater_def

lemma exact_right_edge:
  "spec_mapToImageSpace exactArith box800x450 image316x300 (Finite 637, Finite 0)
   = Inr (Finite 100, Finite 0)"
  by (simp add: spec_defs fixture_defs exact_ops)

lemma exact_left_edge:
  "spec_mapToImageSpace exactArith box800x450 image316x300 (Finite 163, Finite 0)
   = Inr (Finite 0, Finite 0)"
  by (simp add: spec_defs fixture_defs exact_ops)

lemma exact_third:
  "spec_mapToImageSpace exactArith box300x300 image900x900 (Finite 100, Finite 0)
   = Inr (Finite (100 / 3), Finite 0)"
  by (simp add: spec_defs fixture_defs exact_ops)

lemma exact_just_outside:
  "spec_mapToImageSpace exactArith box800x450 image101x1080
     (Finite (6666705503081813 / 17592186044416), Finite 0)
   = Inl OutOfBounds"
  by (simp add: spec_defs fixture_defs exact_ops)

lemma nearest_double_of_third:
  "roundDouble (100 / 3) = Finite (4691249611844267 / 140737488355328)"
  by (simp add: roundDouble_eval_pos [where e = 5] roundNearestEven_def
      floor_quotient_numeral Let_def)

lemmas double_eval =
  spec_defs fixture_defs ieee754_fields double_ops jsLess_def jsGreater_def jsLessEq_def

text \<open>
  Claim C1, as worded, fails on the code. The claim reads the formulas as exact
  arithmetic on every container, image and point; the code evaluates them in doubles.
  In the 300 by 300 container with the 900 by 900 image the point \<open>(100, 0)\<close> has
  the exact percentage \<open>100 / 3\<close>; the code returns \<open>33.33333333333333\<close>, which is
  not even the double nearest to \<open>100 / 3\<close>. In the 800 by 450 container with the
  316 by 300 image the point \<open>(637, 0)\<close> lies on the right edge of the rendered
  image, where the exact formulas give \<open>(100, 0)\<close>; the code computes the rendered
  width \<open>473.99999999999994\<close>, finds \<open>474\<close> greater and makes no call. For an image
  that has not loaded (natural size 0 by 0) the code makes the call with the
  percentage \<open>NaN\<close>.
\<close>

theorem mapper_result_is_not_the_exact_formula:
  "spec_mapToImageSpace exactArith box300x300 image900x900 (Finite 100, Finite 0)
     = Inr (Finite (100 / 3), Finite 0) \<and>
   handlePlacement ieee754 (Some image900x900) True (Finite 100) (Finite 0) box300x300
     = Some \<lparr> dropPosition = (Finite 100, Finite 0),
              dropRelative = (Finite (2345624805922133 / 70368744177664), Finite 0) \<rparr> \<and>
   roundDouble (100 / 3) = Finite (4691249611844267 / 140737488355328) \<and>
   spec_mapToImageSpace exactArith box800x450 image316x300 (Finite 637, Finite 0)
     = Inr (Finite 100, Finite 0) \<and>
   spec_renderedWidth ieee754 box800x450 image316x300
     = Finite (8338696185053183 / 17592186044416) \<and>
   handlePlacement ieee754 (Some image316x300) True (Finite 637) (Finite 0) box800x450 = None \<and>
   handlePlacement ieee754 (Some imageNotLoaded) True (Finite 400) (Finite 225) box800x450
     = Some \<lparr> dropPosition = (Finite 400, Finite 225), dropRelative = (NaN, Finite 50) \<rparr>"
proof -
  have a: "handlePlacement ieee754 (Some image900x900) True (Finite 100) (Finite 0) box300x300
     = Some \<lparr> dropPosition = (Finite 100, Finite 0),
              dropRelative = (Finite (2345624805922133 / 70368744177664), Finite 0) \<rparr>"
    by (simp add: handlePlacement_refines_spec double_eval)
  have b: "spec_renderedWidth ieee754 box800x450 image316x300
     = Finite (8338696185053183 / 17592186044416)"
    by (simp add: double_eval)
  have c: "handlePlacement ieee754 (Some image316x300) True (Finite 637) (Finite 0) box800x450
     = None"
    by (simp add: handlePlacement_refines_spec double_eval)
  have d: "handlePlacement ieee754 (Some imageNotLoaded) True (Finite 400) (Finite 225)
       box800x450
     = Some \<lparr> dropPosition = (Finite 400, Finite 225), dropRelative = (NaN, Finite 50) \<rparr>"
    by (simp add: handlePlacement_refines_spec double_eval)
  show ?thesis
    using exact_third a nearest_double_of_third exact_right_edge b c d by (intro conjI)
qed

text \<open>
  Claim C1, amended. In whatever arithmetic the engine provides, and so in doubles
  with every operation rounded to the nearest double, both copies of the computation
  (the mouse handler and the touch handler) follow the formulas of the specification
  operation by operation: the aspect ratios are the two quotients; when the image
  ratio is greater than the container ratio the rendered width is the container width
  and the rendered height is the container width divided by the image ratio,
  otherwise the rendered height is the container height and the rendered width is the
  container height times the image ratio; each offset is the left-over space divided
  by two; a point that the test accepts is answered with
  \<open>(imageX / renderedWidth * 100, imageY / renderedHeight * 100)\<close>, every other point
  with no placement. In doubles, in the 800 by 400 container with the 900 by 900 image
  the point \<open>(200, 0)\<close> maps to \<open>(0, 0)\<close> and \<open>(150, 0)\<close> is rejected, and in the 800
  by 450 container with the 1600 by 900 image \<open>(400, 225)\<close> maps to \<open>(50, 50)\<close>.
  The result is the rounded one, which need not be the exact quotient.
\<close>

theorem coordinate_mapper_follows_formulas:
  "handlePlacement ar (Some im) True clientX clientY box =
     (case spec_mapToImageSpace ar box im (clientX, clientY) of
        Inl e \<Rightarrow> None
      | Inr rel \<Rightarrow>
          Some \<lparr> dropPosition =
                   (numSub ar clientX (rectLeft box), numSub ar clientY (rectTop box)),
                 dropRelative = rel \<rparr>) \<and>
   (isTouchDragging s \<longrightarrow>
    snd (handleTouchEnd ar (clientX, clientY) (Some box) (Some im) s) =
      (case spec_mapToImageSpace ar box im (clientX, clientY) of
         Inl e \<Rightarrow> None
       | Inr rel \<Rightarrow>
           Some \<lparr> reqClientX = clientX, reqClientY = clientY,
                  reqContainerX = numSub ar clientX (rectLeft box),
                  reqContainerY = numSub ar clientY (rectTop box),
                  reqRelative = rel \<rparr>)) \<and>
   spec_renderedWidth ar box im =
     (if numGt ar (numDiv ar (naturalWidth im) (naturalHeight im))
           (numDiv ar (rectWidth box) (rectHeight box))
      then rectWidth box
      else numMul ar (rectHeight box) (numDiv ar (naturalWidth im) (naturalHeight im))) \<and>
   spec_renderedHeight ar box im =
     (if numGt ar (numDiv ar (naturalWidth im) (naturalHeight im))
           (numDiv ar (rectWidth box) (rectHeight box))
      then numDiv ar (rectWidth box) (numDiv ar (naturalWidth im) (naturalHeight im))
      else rectHeight box) \<and>
   spec_imageX ar box im clientX =
     numSub ar (numSub ar clientX (rectLeft box))
       (numDiv ar (numSub ar (rectWidth box) (spec_renderedWidth ar box im)) (Finite 2)) \<and>
   spec_imageY ar box im clientY =
     numSub ar (numSub ar clientY (rectTop box))
       (numDiv ar (numSub ar (rectHeight box) (spec_renderedHeight ar box im)) (Finite 2)) \<and>
   spec_mapToImageSpace ar box im (clientX, clientY) =
     (if numLt ar (spec_imageX ar box im clientX) (Finite 0) \<or>
         numGt ar (spec_imageX ar box im clientX) (spec_renderedWidth ar box im) \<or>
         numLt ar (spec_imageY ar box im clientY) (Finite 0) \<or>
         numGt ar (spec_imageY ar box im clientY) (spec_renderedHeight ar box im)
      then Inl OutOfBounds
      else Inr (numMul ar
                  (numDiv ar (spec_imageX ar box im clientX) (spec_renderedWidth ar box im))
                  (Finite 100),
                numMul ar
                  (numDiv ar (spec_imageY ar box im clientY) (spec_renderedHeight ar box im))
                  (Finite 100))) \<and>
   handlePlacement ieee754 (Some image900x900) True (Finite 200) (Finite 0) box800x400
     = Some \<lparr> dropPosition = (Finite 200, Finite 0), dropRelative = (Finite 0, Finite 0) \<rparr> \<and>
   handlePlacement ieee754 (Some image900x900) True (Finite 150) (Finite 0) box800x400
     = None \<and>
   handlePlacement ieee754 (Some image1600x900) True (Finite 400) (Finite 225) box800x450
     = Some \<lparr> dropPosition = (Finite 400, Finite 225),
              dropRelative = (Finite 50, Finite 50) \<rparr>"
proof -
  have touch: "isTouchDragging s \<longrightarrow>
    snd (handleTouchEnd ar (clientX, clientY) (Some box) (Some im) s) =
      (case spec_mapToImageSpace ar box im (clientX, clientY) of
         Inl e \<Rightarrow> None
       | Inr rel \<Rightarrow>
           Some \<lparr> reqClientX = clientX, reqClientY = clientY,
                  reqContainerX = numSub ar clientX (rectLeft box),
                  reqContainerY = numSub ar clientY (rectTop box),
                  reqRelative = rel \<rparr>)"
    using handleTouchEnd_refines_spec by blast
  have rw: "spec_renderedWidth ar box im =
     (if numGt ar (numDiv ar (naturalWidth im) (naturalHeight im))
           (numDiv ar (rectWidth box) (rectHeight box))
      then rectWidth box
      else numMul ar (rectHeight box) (numDiv ar (naturalWidth im) (naturalHeight im)))"
    by (simp add: spec_renderedWidth_def spec_imageAspect_def spec_containerAspect_def)
  have rh: "spec_renderedHeight ar box im =
     (if numGt ar (numDiv ar (naturalWidth im) (naturalHeight im))
           (numDiv ar (rectWidth box) (rectHeight box))
      then numDiv ar (rectWidth box) (numDiv ar (naturalWidth im) (naturalHeight im))
      else rectHeight box)"
    by (simp add: spec_renderedHeight_def spec_imageAspect_def spec_containerAspect_def)
  have ix: "spec_imageX ar box im clientX =
     numSub ar (numSub ar clientX (rectLeft box))
       (numDiv ar (numSub ar (rectWidth box) (spec_renderedWidth ar box im)) (Finite 2))"
    by (simp add: spec_imageX_def spec_offsetX_def)
  have iy: "spec_imageY ar box im clientY =
     numSub ar (numSub ar clientY (rectTop box))
       (numDiv ar (numSub ar (rectHeight box) (spec_renderedHeight ar box im)) (Finite 2))"
    by (simp add: spec_imageY_def spec_offsetY_def)
  have res: "spec_mapToImageSpace ar box im (clientX, clientY) =
     (if numLt ar (spec_imageX ar box im clientX) (Finite 0) \<or>
         numGt ar (spec_imageX ar box im clientX) (spec_renderedWidth ar box im) \<or>
         numLt ar (spec_imageY ar box im clientY) (Finite 0) \<or>
         numGt ar (spec_imageY ar box im clientY) (spec_renderedHeight ar box im)
      then Inl OutOfBounds
      else Inr (numMul ar
                  (numDiv ar (spec_imageX ar box im clientX) (spec_renderedWidth ar box im))
                  (Finite 100),
                numMul ar
                  (numDiv ar (spec_imageY ar box im clientY) (spec_renderedHeight ar box im))
                  (Finite 100)))"
    by (simp add: spec_mapToImageSpace_def spec_outside_def)
  have f1: "handlePlacement ieee754 (Some image900x900) True (Finite 200) (Finite 0) box800x400
     = Some \<lparr> dropPosition = (Finite 200, Finite 0), dropRelative = (Finite 0, Finite 0) \<rparr>"
    by (simp add: handlePlacement_refines_spec double_eval)
  have f2: "handlePlacement ieee754 (Some image900x900) True (Finite 150) (Finite 0) box800x400
     = None"
    by (simp add: handlePlacement_refines_spec double_eval)
  have f3: "handlePlacement ieee754 (Some image1600x900) True (Finite 400) (Finite 225)
       box800x450
     = Some \<lparr> dropPosition = (Finite 400, Finite 225),
              dropRelative = (Finite 50, Finite 50) \<rparr>"
    by (simp add: handlePlacement_refines_spec double_eval)
  show ?thesis
    using handlePlacement_refines_spec touch rw rh ix iy res f1 f2 f3 by (intro conjI)
qed

theorem coordinate_mapper_follows_formulas_witness:
  "isTouchDragging (initialApp\<lparr> isTouchDragging := True \<rparr>) \<and>
   snd (handleTouchEnd ieee754 (Finite 600, Finite 400) (Some box800x400) (Some image900x900)
          (initialApp\<lparr> isTouchDragging := True \<rparr>))
     = Some \<lparr> reqClientX = Finite 600, reqClientY = Finite 400,
              reqContainerX = Finite 600, reqContainerY = Finite 400,
              reqRelative = (Finite 100, Finite 100) \<rparr>"
  using coordinate_mapper_follows_formulas
    [of ieee754 image900x900 "Finite 600" "Finite 400" box800x400
        "initialApp\<lparr> isTouchDragging := True \<rparr>"]
  by (simp add: double_eval)

text \<open>
  Claim C7, as worded, fails on the code. In the 800 by 450 container with the 316 by
  300 image the point \<open>(163, 0)\<close> lies on the left edge of the rendered image
  (image-local coordinates \<open>(0, 0)\<close>, boundary included), yet the code computes the
  image-local abscissa \<open>- 2.8e-14\<close> and produces no placement. In the same container
  with the 101 by 1080 image the abscissa \<open>378.9583333333333\<close> lies to the left of
  the rendered image, whose edge is at \<open>9095 / 24\<close>, yet the code accepts the point
  with the percentages \<open>(0, 0)\<close>.
\<close>

theorem boundary_is_decided_after_rounding:
  "spec_mapToImageSpace exactArith box800x450 image316x300 (Finite 163, Finite 0)
     = Inr (Finite 0, Finite 0) \<and>
   spec_imageX ieee754 box800x450 image316x300 (Finite 163)
     = Finite (- (1 / 35184372088832)) \<and>
   handlePlacement ieee754 (Some image316x300) True (Finite 163) (Finite 0) box800x450 = None \<and>
   spec_mapToImageSpace exactArith box800x450 image101x1080
       (Finite (6666705503081813 / 17592186044416), Finite 0)
     = Inl OutOfBounds \<and>
   handlePlacement ieee754 (Some image101x1080) True
       (Finite (6666705503081813 / 17592186044416)) (Finite 0) box800x450
     = Some \<lparr> dropPosition = (Finite (6666705503081813 / 17592186044416), Finite 0),
              dropRelative = (Finite 0, Finite 0) \<rparr>"
proof -
  have a: "spec_imageX ieee754 box800x450 image316x300 (Finite 163)
     = Finite (- (1 / 35184372088832))"
    by (simp add: double_eval)
  have b: "handlePlacement ieee754 (Some image316x300) True (Finite 163) (Finite 0) box800x450
     = None"
    by (simp add: handlePlacement_refines_spec double_eval)
  have c: "handlePlacement ieee754 (Some image101x1080) True
       (Finite (6666705503081813 / 17592186044416)) (Finite 0) box800x450
     = Some \<lparr> dropPosition = (Finite (6666705503081813 / 17592186044416), Finite 0),
              dropRelative = (Finite 0, Finite 0) \<rparr>"
    by (simp add: handlePlacement_refines_spec double_eval)
  show ?thesis
    using exact_left_edge a b exact_just_outside c by (intro conjI)
qed

text \<open>
  Claim C7, amended. The decision is taken on the image-local coordinates and the
  rendered dimensions as the code computes them in doubles. When the computed
  coordinates lie in \<open>[0, renderedWidth]\<close> and \<open>[0, renderedHeight]\<close> (bounds
  included) and the computed rendered dimensions are positive and finite, both
  handlers answer with percentages that lie between 0 and 100. When a computed
  coordinate is below 0 or above the computed rendered dimension, the mapping is
  \<open>OutOfBounds\<close>, the mouse handler makes no \<^verbatim>\<open>onProductDrop\<close> call and the touch
  handler raises no placement request. Since the offsets and the rendered dimensions
  are rounded, a point on the edge of the rendered image can fall on either side.
\<close>

theorem computed_coordinates_decide:
  "(jsLessEq (Finite 0) (spec_imageX ieee754 box im clientX) \<and>
    jsLessEq (spec_imageX ieee754 box im clientX) (spec_renderedWidth ieee754 box im) \<and>
    jsLessEq (Finite 0) (spec_imageY ieee754 box im clientY) \<and>
    jsLessEq (spec_imageY ieee754 box im clientY) (spec_renderedHeight ieee754 box im) \<and>
    jsLess (Finite 0) (spec_renderedWidth ieee754 box im) \<and>
    jsLess (spec_renderedWidth ieee754 box im) PosInfinity \<and>
    jsLess (Finite 0) (spec_renderedHeight ieee754 box im) \<and>
    jsLess (spec_renderedHeight ieee754 box im) PosInfinity
    \<longrightarrow> (\<exists>xPercent yPercent.
           jsLessEq (Finite 0) xPercent \<and> jsLessEq xPercent (Finite 100) \<and>
           jsLessEq (Finite 0) yPercent \<and> jsLessEq yPercent (Finite 100) \<and>
           spec_mapToImageSpace ieee754 box im (clientX, clientY) = Inr (xPercent, yPercent) \<and>
           handlePlacement ieee754 (Some im) True clientX clientY box =
             Some \<lparr> dropPosition =
                      (numSub ieee754 clientX (rectLeft box),
                       numSub ieee754 clientY (rectTop box)),
                    dropRelative = (xPercent, yPercent) \<rparr> \<and>
           (isTouchDragging s \<longrightarrow>
            snd (handleTouchEnd ieee754 (clientX, clientY) (Some box) (Some im) s) =
              Some \<lparr> reqClientX = clientX, reqClientY = clientY,
                     reqContainerX = numSub ieee754 clientX (rectLeft box),
                     reqContainerY = numSub ieee754 clientY (rectTop box),
                     reqRelative = (xPercent, yPercent) \<rparr>))) \<and>
   (jsLess (spec_imageX ieee754 box im clientX) (Finite 0) \<or>
    jsGreater (spec_imageX ieee754 box im clientX) (spec_renderedWidth ieee754 box im) \<or>
    jsLess (spec_imageY ieee754 box im clientY) (Finite 0) \<or>
    jsGreater (spec_imageY ieee754 box im clientY) (spec_renderedHeight ieee754 box im)
    \<longrightarrow> spec_mapToImageSpace ieee754 box im (clientX, clientY) = Inl OutOfBounds \<and>
        handlePlacement ieee754 (Some im) True clientX clientY box = None \<and>
        snd (handleTouchEnd ieee754 (clientX, clientY) (Some box) (Some im) s) = None)"
proof (intro conjI impI)
  assume inside: "jsLessEq (Finite 0) (spec_imageX ieee754 box im clientX) \<and>
    jsLessEq (spec_imageX ieee754 box im clientX) (spec_renderedWidth ieee754 box im) \<and>
    jsLessEq (Finite 0) (spec_imageY ieee754 box im clientY) \<and>
    jsLessEq (spec_imageY ieee754 box im clientY) (spec_renderedHeight ieee754 box im) \<and>
    jsLess (Finite 0) (spec_renderedWidth ieee754 box im) \<and>
    jsLess (spec_renderedWidth ieee754 box im) PosInfinity \<and>
    jsLess (Finite 0) (spec_renderedHeight ieee754 box im) \<and>
    jsLess (spec_renderedHeight ieee754 box im) PosInfinity"
  let ?ix = "spec_imageX ieee754 box im clientX"
  let ?iy = "spec_imageY ieee754 box im clientY"
  let ?rw = "spec_renderedWidth ieee754 box im"
  let ?rh = "spec_renderedHeight ieee754 box im"
  let ?x = "multiplyWith roundDouble (divideWith roundDouble ?ix ?rw) (Finite 100)"
  let ?y = "multiplyWith roundDouble (divideWith roundDouble ?iy ?rh) (Finite 100)"
  have x0: "jsLessEq (Finite 0) ?ix" and x1: "jsLessEq ?ix ?rw"
    and y0: "jsLessEq (Finite 0) ?iy" and y1: "jsLessEq ?iy ?rh"
    and w0: "jsLess (Finite 0) ?rw" and w1: "jsLess ?rw PosInfinity"
    and h0: "jsLess (Finite 0) ?rh" and h1: "jsLess ?rh PosInfinity"
    using inside by simp_all
  have x: "jsLessEq (Finite 0) ?x \<and> jsLessEq ?x (Finite 100)"
    by (rule percentage_in_range [OF x0 x1 w0 w1])
  have y: "jsLessEq (Finite 0) ?y \<and> jsLessEq ?y (Finite 100)"
    by (rule percentage_in_range [OF y0 y1 h0 h1])
  have "\<not> spec_outside ieee754 box im (clientX, clientY)"
    using lessEq_not_less [OF x0] lessEq_not_less [OF x1] lessEq_not_less [OF y0]
      lessEq_not_less [OF y1]
    by (simp add: spec_outside_def ieee754_fields jsGreater_def)
  then have m: "spec_mapToImageSpace ieee754 box im (clientX, clientY) = Inr (?x, ?y)"
    by (simp add: spec_mapToImageSpace_def ieee754_fields)
  have p: "handlePlacement ieee754 (Some im) True clientX clientY box =
             Some \<lparr> dropPosition =
                      (numSub ieee754 clientX (rectLeft box),
                       numSub ieee754 clientY (rectTop box)),
                    dropRelative = (?x, ?y) \<rparr>"
    by (simp add: handlePlacement_refines_spec m)
  have t: "isTouchDragging s \<longrightarrow>
           snd (handleTouchEnd ieee754 (clientX, clientY) (Some box) (Some im) s) =
             Some \<lparr> reqClientX = clientX, reqClientY = clientY,
                    reqContainerX = numSub ieee754 clientX (rectLeft box),
                    reqContainerY = numSub ieee754 clientY (rectTop box),
                    reqRelative = (?x, ?y) \<rparr>"
    by (simp add: handleTouchEnd_refines_spec m)
  show "\<exists>xPercent yPercent.
           jsLessEq (Finite 0) xPercent \<and> jsLessEq xPercent (Finite 100) \<and>
           jsLessEq (Finite 0) yPercent \<and> jsLessEq yPercent (Finite 100) \<and>
           spec_mapToImageSpace ieee754 box im (clientX, clientY) = Inr (xPercent, yPercent) \<and>
           handlePlacement ieee754 (Some im) True clientX clientY box =
             Some \<lparr> dropPosition =
                      (numSub ieee754 clientX (rectLeft box),
                       numSub ieee754 clientY (rectTop box)),
                    dropRelative = (xPercent, yPercent) \<rparr> \<and>
           (isTouchDragging s \<longrightarrow>
            snd (handleTouchEnd ieee754 (clientX, clientY) (Some box) (Some im) s) =
              Some \<lparr> reqClientX = clientX, reqClientY = clientY,
                     reqContainerX = numSub ieee754 clientX (rectLeft box),
                     reqContainerY = numSub ieee754 clientY (rectTop box),
                     reqRelative = (xPercent, yPercent) \<rparr>)"
    using x y m p t by blast
next
  assume outside: "jsLess (spec_imageX ieee754 box im clientX) (Finite 0) \<or>
    jsGreater (spec_imageX ieee754 box im clientX) (spec_renderedWidth ieee754 box im) \<or>
    jsLess (spec_imageY ieee754 box im clientY) (Finite 0) \<or>
    jsGreater (spec_imageY ieee754 box im clientY) (spec_renderedHeight ieee754 box im)"
  then have "spec_outside ieee754 box im (clientX, clientY)"
    by (simp add: spec_outside_def ieee754_fields)
  then show m: "spec_mapToImageSpace ieee754 box im (clientX, clientY) = Inl OutOfBounds"
    by (simp add: spec_mapToImageSpace_def)
  show "handlePlacement ieee754 (Some im) True clientX clientY box = None"
    by (simp add: handlePlacement_refines_spec m)
  show "snd (handleTouchEnd ieee754 (clientX, clientY) (Some box) (Some im) s) = None"
  proof (cases "isTouchDragging s")
    case True
    then show ?thesis by (simp add: handleTouchEnd_refines_spec m)
  next
    case False
    then show ?thesis by (simp add: handleTouchEnd_def)
  qed
qed

theorem computed_coordinates_decide_witness:
  "spec_imageX ieee754 box800x400 image900x900 (Finite 600) = Finite 400 \<and>
   spec_imageY ieee754 box800x400 image900x900 (Finite 400) = Finite 400 \<and>
   spec_renderedWidth ieee754 box800x400 image900x900 = Finite 400 \<and>
   spec_renderedHeight ieee754 box800x400 image900x900 = Finite 400 \<and>
   jsLessEq (Finite 0) (Finite 400) \<and> jsLessEq (Finite 400) (Finite 400) \<and>
   jsLess (Finite 0) (Finite 400) \<and> jsLess (Finite 400) PosInfinity \<and>
   isTouchDragging (initialApp\<lparr> isTouchDragging := True \<rparr>) \<and>
   handlePlacement ieee754 (Some image900x900) True (Finite 600) (Finite 400) box800x400
     = Some \<lparr> dropPosition = (Finite 600, Finite 400),
              dropRelative = (Finite 100, Finite 100) \<rparr> \<and>
   spec_imageX ieee754 box800x400 image900x900 (Finite 150) = Finite (- 50) \<and>
   jsLess (Finite (- 50)) (Finite 0) \<and>
   snd (handleTouchEnd ieee754 (Finite 150, Finite 0) (Some box800x400) (Some image900x900)
          (initialApp\<lparr> isTouchDragging := True \<rparr>)) = None"
proof -
  have v: "spec_imageX ieee754 box800x400 image900x900 (Finite 600) = Finite 400"
    "spec_imageY ieee754 box800x400 image900x900 (Finite 400) = Finite 400"
    "spec_renderedWidth ieee754 box800x400 image900x900 = Finite 400"
    "spec_renderedHeight ieee754 box800x400 image900x900 = Finite 400"
    "spec_imageX ieee754 box800x400 image900x900 (Finite 150) = Finite (- 50)"
    by (simp_all add: double_eval)
  have c: "jsLessEq (Finite 0) (Finite 400)" "jsLessEq (Finite 400) (Finite 400)"
    "jsLess (Finite 0) (Finite 400)" "jsLess (Finite 400) PosInfinity"
    "jsLess (Finite (- 50)) (Finite 0)"
    by (simp_all add: jsLessEq_def jsLess_def)
  have p: "numSub ieee754 (Finite 600) (rectLeft box800x400) = Finite 600"
    "numSub ieee754 (Finite 400) (rectTop box800x400) = Finite 400"
    by (simp_all add: double_eval)
  have inside: "handlePlacement ieee754 (Some image900x900) True (Finite 600) (Finite 400)
       box800x400
     = Some \<lparr> dropPosition = (Finite 600, Finite 400),
              dropRelative = (Finite 100, Finite 100) \<rparr>"
    using computed_coordinates_decide
      [of box800x400 image900x900 "Finite 600" "Finite 400"
          "initialApp\<lparr> isTouchDragging := True \<rparr>"]
      v c p double_square_corner
    by auto
  have outside: "snd (handleTouchEnd ieee754 (Finite 150, Finite 0) (Some box800x400)
          (Some image900x900) (initialApp\<lparr> isTouchDragging := True \<rparr>)) = None"
    using computed_coordinates_decide
      [of box800x400 image900x900 "Finite 150" "Finite 0"
          "initialApp\<lparr> isTouchDragging := True \<rparr>"]
      v c
    by simp
  show ?thesis using v c inside outside by simp
qed

text \<open>
  Claim C8. When the test of the rejected branch holds for the point of a drop, that
  is, when a computed image-local coordinate is below 0 or above the computed rendered
  dimension, resolving the drop is silent. \<^verbatim>\<open>handlePlacement\<close> makes no
  \<^verbatim>\<open>onProductDrop\<close> call and writes no state, so a click leaves the uploader as it
  was; a native drop leaves what \<^verbatim>\<open>handleDrop\<close> resets on every drop before it
  resolves the point (the drag indicator and the message of a failed URL load); a
  touch drop raises no placement request and leaves the application as it was except
  for the four cells of the touch drag indicator. No error message is set on any of
  these paths. The test is the one written in the code, in the arithmetic of the
  engine, and nothing is assumed of the dimensions.
\<close>

theorem out_of_bounds_drop_is_silent:
  assumes "let containerWidth = rectWidth box;
               containerHeight = rectHeight box;
               imageAspectRatio = numDiv ar (naturalWidth im) (naturalHeight im);
               containerAspectRatio = numDiv ar containerWidth containerHeight;
               renderedWidth =
                 (if numGt ar imageAspectRatio containerAspectRatio then containerWidth
                  else numMul ar containerHeight imageAspectRatio);
               renderedHeight =
                 (if numGt ar imageAspectRatio containerAspectRatio
                  then numDiv ar containerWidth imageAspectRatio
                  else containerHeight);
               offsetX = numDiv ar (numSub ar containerWidth renderedWidth) (Finite 2);
               offsetY = numDiv ar (numSub ar containerHeight renderedHeight) (Finite 2);
               pointX = numSub ar clientX (rectLeft box);
               pointY = numSub ar clientY (rectTop box);
               imageX = numSub ar pointX offsetX;
               imageY = numSub ar pointY offsetY
           in numLt ar imageX (Finite 0) \<or> numGt ar imageX renderedWidth \<or>
              numLt ar imageY (Finite 0) \<or> numGt ar imageY renderedHeight"
  shows "handlePlacement ar (Some im) onProductDrop clientX clientY box = None \<and>
         handleClick ar isDropZone (Some im) onProductDrop clientX clientY box u = (u, []) \<and>
         handleDrop ar True (Some im) True clientX clientY box droppedFile u =
           (u\<lparr> isDraggingOver := False, orbPosition := None, urlError := None \<rparr>, []) \<and>
         handleTouchEnd ar (clientX, clientY) (Some box) (Some im) s =
           ((if isTouchDragging s
             then s\<lparr> isTouchDragging := False, touchGhostPosition := None,
                     isHoveringDropZone := False, touchOrbPosition := None \<rparr>
             else s), None) \<and>
         error (fst (handleTouchEnd ar (clientX, clientY) (Some box) (Some im) s)) = error s \<and>
         placementContextMenu (fst (handleTouchEnd ar (clientX, clientY) (Some box) (Some im) s)) =
           placementContextMenu s \<and>
         spec_mapToImageSpace ar box im (clientX, clientY) = Inl OutOfBounds"
proof -
  have "spec_outside ar box im (clientX, clientY)"
    using assms unfolding spec_defs Let_def fst_conv snd_conv by assumption
  then have m: "spec_mapToImageSpace ar box im (clientX, clientY) = Inl OutOfBounds"
    by (simp add: spec_mapToImageSpace_def)
  have p: "handlePlacement ar (Some im) True clientX clientY box = None"
    by (simp add: handlePlacement_refines_spec m)
  have p': "handlePlacement ar (Some im) onProductDrop clientX clientY box = None"
  proof (cases onProductDrop)
    case True
    then show ?thesis using p by simp
  next
    case False
    then show ?thesis by (simp add: handlePlacement_def)
  qed
  have c: "handleClick ar isDropZone (Some im) onProductDrop clientX clientY box u = (u, [])"
    by (simp add: handleClick_def p p')
  have d: "handleDrop ar True (Some im) True clientX clientY box droppedFile u =
           (u\<lparr> isDraggingOver := False, orbPosition := None, urlError := None \<rparr>, [])"
    by (simp add: handleDrop_def p Let_def)
  have t: "handleTouchEnd ar (clientX, clientY) (Some box) (Some im) s =
           ((if isTouchDragging s
             then s\<lparr> isTouchDragging := False, touchGhostPosition := None,
                     isHoveringDropZone := False, touchOrbPosition := None \<rparr>
             else s), None)"
  proof (cases "isTouchDragging s")
    case True
    have "snd (handleTouchEnd ar (clientX, clientY) (Some box) (Some im) s) = None"
      using True by (simp add: handleTouchEnd_refines_spec m)
    then show ?thesis using True
      by (auto simp add: handleTouchEnd_def Let_def split: option.splits if_splits)
  next
    case False
    then show ?thesis by (simp add: handleTouchEnd_def)
  qed
  have e: "error (fst (handleTouchEnd ar (clientX, clientY) (Some box) (Some im) s)) = error s"
    by (simp add: t)
  have k: "placementContextMenu (fst (handleTouchEnd ar (clientX, clientY) (Some box) (Some im) s)) =
           placementContextMenu s"
    by (simp add: t)
  show ?thesis using p' c d t e k m by (intro conjI)
qed

theorem out_of_bounds_drop_is_silent_witness:
  "numLt ieee754 (spec_imageX ieee754 box800x450 image316x300 (Finite 163)) (Finite 0) \<and>
   handleTouchEnd ieee754 (Finite 163, Finite 0) (Some box800x450) (Some image316x300)
     (initialApp\<lparr> isTouchDragging := True, touchGhostPosition := Some (Finite 163, Finite 0) \<rparr>)
   = (initialApp, None) \<and>
   handleDrop ieee754 True (Some image316x300) True (Finite 163) (Finite 0) box800x450 None
     \<lparr> isDraggingOver = True, orbPosition = Some (Finite 163, Finite 0),
       fileTypeError = None, urlError = None \<rparr>
   = (\<lparr> isDraggingOver = False, orbPosition = None, fileTypeError = None, urlError = None \<rparr>,
      [])"
proof -
  have h: "let containerWidth = rectWidth box800x450;
               containerHeight = rectHeight box800x450;
               imageAspectRatio =
                 numDiv ieee754 (naturalWidth image316x300) (naturalHeight image316x300);
               containerAspectRatio = numDiv ieee754 containerWidth containerHeight;
               renderedWidth =
                 (if numGt ieee754 imageAspectRatio containerAspectRatio then containerWidth
                  else numMul ieee754 containerHeight imageAspectRatio);
               renderedHeight =
                 (if numGt ieee754 imageAspectRatio containerAspectRatio
                  then numDiv ieee754 containerWidth imageAspectRatio
                  else containerHeight);
               offsetX = numDiv ieee754 (numSub ieee754 containerWidth renderedWidth) (Finite 2);
               offsetY =
                 numDiv ieee754 (numSub ieee754 containerHeight renderedHeight) (Finite 2);
               pointX = numSub ieee754 (Finite 163) (rectLeft box800x450);
               pointY = numSub ieee754 (Finite 0) (rectTop box800x450);
               imageX = numSub ieee754 pointX offsetX;
               imageY = numSub ieee754 pointY offsetY
           in numLt ieee754 imageX (Finite 0) \<or> numGt ieee754 imageX renderedWidth \<or>
              numLt ieee754 imageY (Finite 0) \<or> numGt ieee754 imageY renderedHeight"
    by (simp add: Let_def double_eval)
  have n: "numLt ieee754 (spec_imageX ieee754 box800x450 image316x300 (Finite 163)) (Finite 0)"
    by (simp add: double_eval)
  show ?thesis
    using out_of_bounds_drop_is_silent [OF h,
        where s = "initialApp\<lparr> isTouchDragging := True,
                               touchGhostPosition := Some (Finite 163, Finite 0) \<rparr>"
          and droppedFile = None
          and u = "\<lparr> isDraggingOver = True, orbPosition = Some (Finite 163, Finite 0),
                    fileTypeError = None, urlError = None \<rparr>"]
      n
    by (simp add: initialApp_def)
qed


section \<open>The history: results\<close>

subsection \<open>What a submission does to the history\<close>

lemma submit_success_effect:
  assumes "succeeds d2f now sub s newScene"
  shows "\<exists>previousScene call.
           sceneImage s = Some previousScene \<and>
           snd (submit d2f now sub s) = [call] \<and>
           sceneImage (fst (submit d2f now sub s)) = Some newScene \<and>
           undoHistory (fst (submit d2f now sub s)) =
             (if length (undoHistory s) \<ge> 10 then tl (undoHistory s @ [previousScene])
              else undoHistory s @ [previousScene]) \<and>
           redoHistory (fst (submit d2f now sub s)) = [] \<and>
           canUndo (fst (submit d2f now sub s)) \<and>
           \<not> canRedo (fst (submit d2f now sub s)) \<and>
           \<not> isLoading (fst (submit d2f now sub s))"
proof (cases sub)
  case (PlaceProduct position relativePosition placementStyle outcome)
  then show ?thesis using assms
    by (auto simp add: succeeds_def submit_def handleProductDrop_start_def
        handleProductDrop_resume_def Let_def
        split: option.splits if_splits settled.splits)
next
  case (ModifySurfaceSubmission modificationValue outcome)
  then show ?thesis using assms
    by (auto simp add: succeeds_def submit_def handleSurfaceModificationSubmit_start_def
        handleSurfaceModificationSubmit_resume_def Let_def
        split: option.splits if_splits settled.splits)
next
  case (RedesignScene outcome)
  then show ?thesis using assms
    by (auto simp add: succeeds_def submit_def handleSceneDesignGeneration_start_def
        handleSceneDesignGeneration_resume_def Let_def
        split: option.splits if_splits settled.splits)
qed

lemma submit_failure_effect:
  assumes "fails d2f now sub s err"
  shows "sceneImage (fst (submit d2f now sub s)) = sceneImage s \<and>
         undoHistory (fst (submit d2f now sub s)) = undoHistory s \<and>
         redoHistory (fst (submit d2f now sub s)) = redoHistory s \<and>
         canUndo (fst (submit d2f now sub s)) = canUndo s \<and>
         canRedo (fst (submit d2f now sub s)) = canRedo s \<and>
         error (fst (submit d2f now sub s)) = Some (failurePrefix sub @ errorMessage err) \<and>
         \<not> isLoading (fst (submit d2f now sub s))"
proof (cases sub)
  case (PlaceProduct position relativePosition placementStyle outcome)
  then show ?thesis using assms
    by (auto simp add: fails_def submit_def failurePrefix_def handleProductDrop_start_def
        handleProductDrop_resume_def Let_def
        split: option.splits if_splits settled.splits)
next
  case (ModifySurfaceSubmission modificationValue outcome)
  then show ?thesis using assms
    by (auto simp add: fails_def submit_def failurePrefix_def
        handleSurfaceModificationSubmit_start_def
        handleSurfaceModificationSubmit_resume_def Let_def
        split: option.splits if_splits settled.splits)
next
  case (RedesignScene outcome)
  then show ?thesis using assms
    by (auto simp add: fails_def submit_def failurePrefix_def
        handleSceneDesignGeneration_start_def
        handleSceneDesignGeneration_resume_def Let_def
        split: option.splits if_splits settled.splits)
qed

lemma handleUndo_effect:
  "undoHistory s \<noteq> [] \<Longrightarrow> sceneImage s = Some current \<Longrightarrow>
   sceneImage (handleUndo s) = Some (last (undoHistory s)) \<and>
   undoHistory (handleUndo s) = butlast (undoHistory s) \<and>
   redoHistory (handleUndo s) = redoHistory s @ [current]"
  by (simp add: handleUndo_def)

lemma handleRedo_effect:
  "redoHistory s \<noteq> [] \<Longrightarrow> sceneImage s = Some current \<Longrightarrow>
   sceneImage (handleRedo s) = Some (last (redoHistory s)) \<and>
   redoHistory (handleRedo s) = butlast (redoHistory s) \<and>
   undoHistory (handleRedo s) = undoHistory s @ [current]"
  by (simp add: handleRedo_def)

lemma handleUndo_blocked:
  "undoHistory s = [] \<or> sceneImage s = None \<Longrightarrow> handleUndo s = s"
  by (auto simp add: handleUndo_def)

lemma handleRedo_blocked:
  "redoHistory s = [] \<or> sceneImage s = None \<Longrightarrow> handleRedo s = s"
  by (auto simp add: handleRedo_def)

subsection \<open>Invariants of runs\<close>

lemma convertFiles_length:
  "convertFiles d2f items = Inr fs \<Longrightarrow> length fs = length items"
  by (induction items arbitrary: fs) (auto split: sum.splits)

lemma resume_bounded:
  assumes "historyBounded s"
  shows "historyBounded (handleProductDrop_resume d2f now previousScene outcome s)"
    and "historyBounded (handleSceneDesignGeneration_resume d2f now previousScene outcome' s)"
    and "historyBounded (handleSurfaceModificationSubmit_resume d2f now previousScene outcome' s)"
  using assms
  by (auto simp add: historyBounded_def handleProductDrop_resume_def
      handleSceneDesignGeneration_resume_def handleSurfaceModificationSubmit_resume_def Let_def
      split: settled.splits sum.splits)

lemma start_history:
  "undoHistory (stateOf (handleProductDrop_start position relativePosition placementStyle s)) =
     undoHistory s \<and>
   redoHistory (stateOf (handleProductDrop_start position relativePosition placementStyle s)) =
     redoHistory s \<and>
   canUndo (stateOf (handleProductDrop_start position relativePosition placementStyle s)) =
     canUndo s \<and>
   canRedo (stateOf (handleProductDrop_start position relativePosition placementStyle s)) =
     canRedo s"
  "undoHistory (stateOf (handleSceneDesignGeneration_start s)) = undoHistory s \<and>
   redoHistory (stateOf (handleSceneDesignGeneration_start s)) = redoHistory s \<and>
   canUndo (stateOf (handleSceneDesignGeneration_start s)) = canUndo s \<and>
   canRedo (stateOf (handleSceneDesignGeneration_start s)) = canRedo s"
  "undoHistory (stateOf (handleSurfaceModificationSubmit_start modificationValue s)) =
     undoHistory s \<and>
   redoHistory (stateOf (handleSurfaceModificationSubmit_start modificationValue s)) =
     redoHistory s \<and>
   canUndo (stateOf (handleSurfaceModificationSubmit_start modificationValue s)) = canUndo s \<and>
   canRedo (stateOf (handleSurfaceModificationSubmit_start modificationValue s)) = canRedo s"
  "undoHistory (stateOf (handlePlaceProductAction placementStyle s)) = undoHistory s \<and>
   redoHistory (stateOf (handlePlaceProductAction placementStyle s)) = redoHistory s \<and>
   canUndo (stateOf (handlePlaceProductAction placementStyle s)) = canUndo s \<and>
   canRedo (stateOf (handlePlaceProductAction placementStyle s)) = canRedo s"
  by (auto simp add: handleProductDrop_start_def handleSceneDesignGeneration_start_def
      handleSurfaceModificationSubmit_start_def handlePlaceProductAction_def Let_def
      split: option.splits)

lemma touch_history:
  "undoHistory (handleTouchStart touch s) = undoHistory s \<and>
   redoHistory (handleTouchStart touch s) = redoHistory s \<and>
   canUndo (handleTouchStart touch s) = canUndo s \<and>
   canRedo (handleTouchStart touch s) = canRedo s"
  "undoHistory (handleTouchMove ar touch dropZone s) = undoHistory s \<and>
   redoHistory (handleTouchMove ar touch dropZone s) = redoHistory s \<and>
   canUndo (handleTouchMove ar touch dropZone s) = canUndo s \<and>
   canRedo (handleTouchMove ar touch dropZone s) = canRedo s"
  "undoHistory (fst (handleTouchEnd ar touch dropZone img s)) = undoHistory s \<and>
   redoHistory (fst (handleTouchEnd ar touch dropZone img s)) = redoHistory s \<and>
   canUndo (fst (handleTouchEnd ar touch dropZone img s)) = canUndo s \<and>
   canRedo (fst (handleTouchEnd ar touch dropZone img s)) = canRedo s"
  by (auto simp add: handleTouchStart_def handleTouchMove_def handleTouchEnd_def
      handlePlacementRequest_def Let_def split: option.splits)

lemma menu_history:
  "undoHistory (handlePlacementRequest req s) = undoHistory s \<and>
   redoHistory (handlePlacementRequest req s) = redoHistory s \<and>
   canUndo (handlePlacementRequest req s) = canUndo s \<and>
   canRedo (handlePlacementRequest req s) = canRedo s"
  "undoHistory (closeContextMenu s) = undoHistory s \<and>
   redoHistory (closeContextMenu s) = redoHistory s \<and>
   canUndo (closeContextMenu s) = canUndo s \<and>
   canRedo (closeContextMenu s) = canRedo s"
  "undoHistory (handleModifySurfaceRequest type s) = undoHistory s \<and>
   redoHistory (handleModifySurfaceRequest type s) = redoHistory s \<and>
   canUndo (handleModifySurfaceRequest type s) = canUndo s \<and>
   canRedo (handleModifySurfaceRequest type s) = canRedo s"
  "undoHistory (handleAddProduct now imageUrl file s) = undoHistory s \<and>
   redoHistory (handleAddProduct now imageUrl file s) = redoHistory s \<and>
   canUndo (handleAddProduct now imageUrl file s) = canUndo s \<and>
   canRedo (handleAddProduct now imageUrl file s) = canRedo s"
  "undoHistory (silhouetteGenerated newId url s) = undoHistory s \<and>
   redoHistory (silhouetteGenerated newId url s) = redoHistory s \<and>
   canUndo (silhouetteGenerated newId url s) = canUndo s \<and>
   canRedo (silhouetteGenerated newId url s) = canRedo s"
  by (auto simp add: handlePlacementRequest_def closeContextMenu_def
      handleModifySurfaceRequest_def handleAddProduct_def silhouetteGenerated_def
      split: option.splits)

lemma undo_redo_bounded:
  "historyBounded s \<Longrightarrow> historyBounded (handleUndo s)"
  "historyBounded s \<Longrightarrow> historyBounded (handleRedo s)"
proof -
  show "historyBounded s \<Longrightarrow> historyBounded (handleUndo s)"
    by (cases "undoHistory s" rule: rev_cases)
      (auto simp add: historyBounded_def handleUndo_def split: option.splits)
  show "historyBounded s \<Longrightarrow> historyBounded (handleRedo s)"
    by (cases "redoHistory s" rule: rev_cases)
      (auto simp add: historyBounded_def handleRedo_def split: option.splits)
qed

lemma step_bounded:
  assumes "historyBounded s"
  shows "historyBounded (step ar d2f e s)"
proof (cases e)
  case (SettleProductDrop now previousScene outcome)
  then show ?thesis using resume_bounded(1) [OF assms] by simp
next
  case (SettleSceneDesign now previousScene outcome)
  then show ?thesis using resume_bounded(2) [OF assms] by simp
next
  case (SettleSurfaceModification now previousScene outcome)
  then show ?thesis using resume_bounded(3) [OF assms] by simp
next
  case Undo
  then show ?thesis using undo_redo_bounded(1) [OF assms] by simp
next
  case Redo
  then show ?thesis using undo_redo_bounded(2) [OF assms] by simp
next
  case (InstantStartLoaded sceneFile objectFile now imageUrl)
  then show ?thesis
    by (simp add: historyBounded_def handleInstantStart_loaded_def menu_history)
next
  case Reset
  then show ?thesis by (simp add: historyBounded_def handleReset_def)
next
  case ChangeScene
  then show ?thesis by (simp add: historyBounded_def handleChangeScene_def)
qed (use assms in \<open>simp_all add: historyBounded_def start_history touch_history menu_history
    handleInstantStart_start_def handleInstantStart_failed_def\<close>)

lemma run_bounded: "historyBounded s \<Longrightarrow> historyBounded (run ar d2f evs s)"
  by (induction evs arbitrary: s) (simp_all add: step_bounded)

lemma loadProductsPart_history:
  "loadProductsPart d2f objectUrl saved s = Inr s' \<Longrightarrow>
   undoHistory s' = undoHistory s \<and> redoHistory s' = redoHistory s \<and>
   canUndo s' = canUndo s \<and> canRedo s' = canRedo s \<and> sceneImage s' = sceneImage s"
  by (auto simp add: loadProductsPart_def split: option.splits sum.splits)

lemma loadScenePart_history:
  "loadScenePart d2f saved s = Inr s' \<Longrightarrow>
   undoHistory s' = undoHistory s \<and> redoHistory s' = redoHistory s \<and>
   canUndo s' = canUndo s \<and> canRedo s' = canRedo s"
  by (auto simp add: loadScenePart_def split: option.splits sum.splits)

lemma loadUndoPart_history:
  "loadUndoPart d2f saved s = Inr s' \<Longrightarrow>
   redoHistory s' = redoHistory s \<and> canRedo s' = canRedo s \<and> sceneImage s' = sceneImage s \<and>
   ((undoHistory s' = undoHistory s \<and> canUndo s' = canUndo s) \<or>
    (undoHistory s' \<noteq> [] \<and> canUndo s' \<and>
     length (undoHistory s') =
       length (case savedUndoHistory saved of None \<Rightarrow> [] | Some items \<Rightarrow> items)))"
  by (auto simp add: loadUndoPart_def dest: convertFiles_length
      split: option.splits sum.splits if_splits)

lemma loadRedoPart_history:
  "loadRedoPart d2f saved s = Inr s' \<Longrightarrow>
   undoHistory s' = undoHistory s \<and> canUndo s' = canUndo s \<and> sceneImage s' = sceneImage s \<and>
   ((redoHistory s' = redoHistory s \<and> canRedo s' = canRedo s) \<or>
    (redoHistory s' \<noteq> [] \<and> canRedo s' \<and>
     length (redoHistory s') =
       length (case savedRedoHistory saved of None \<Rightarrow> [] | Some items \<Rightarrow> items)))"
  by (auto simp add: loadRedoPart_def dest: convertFiles_length
      split: option.splits sum.splits if_splits)

text \<open>
  Loading into a state with empty stacks and cleared flags: the flags match the stacks
  afterwards, and no stack is longer than the array it was read from.
\<close>

lemma loadSavedState_history:
  assumes "undoHistory s = []" "redoHistory s = []" "\<not> canUndo s" "\<not> canRedo s"
  shows "flagsMatchStacks (loadSavedState d2f objectUrl saved s) \<and>
         length (undoHistory (loadSavedState d2f objectUrl saved s)) \<le>
           length (case savedUndoHistory saved of None \<Rightarrow> [] | Some items \<Rightarrow> items) \<and>
         length (redoHistory (loadSavedState d2f objectUrl saved s)) \<le>
           length (case savedRedoHistory saved of None \<Rightarrow> [] | Some items \<Rightarrow> items)"
proof (cases "loadProductsPart d2f objectUrl saved s")
  case (Inl err)
  then show ?thesis using assms by (simp add: loadSavedState_def flagsMatchStacks_def)
next
  case p: (Inr s1)
  note h1 = loadProductsPart_history [OF p]
  show ?thesis
  proof (cases "loadScenePart d2f saved s1")
    case (Inl err)
    then show ?thesis using assms p h1 by (simp add: loadSavedState_def flagsMatchStacks_def)
  next
    case sc: (Inr s2)
    note h2 = loadScenePart_history [OF sc]
    show ?thesis
    proof (cases "loadUndoPart d2f saved s2")
      case (Inl err)
      then show ?thesis using assms p sc h1 h2
        by (simp add: loadSavedState_def flagsMatchStacks_def)
    next
      case u: (Inr s3)
      note h3 = loadUndoPart_history [OF u]
      show ?thesis
      proof (cases "loadRedoPart d2f saved s3")
        case (Inl err)
        then show ?thesis using assms p sc u h1 h2 h3
          by (auto simp add: loadSavedState_def flagsMatchStacks_def)
      next
        case r: (Inr s4)
        note h4 = loadRedoPart_history [OF r]
        show ?thesis using assms p sc u r h1 h2 h3 h4
          by (auto simp add: loadSavedState_def flagsMatchStacks_def)
      qed
    qed
  qed
qed

lemma mount_history:
  "flagsMatchStacks (mount d2f objectUrl stored) \<and>
   (storedWithinBound stored \<longrightarrow> historyBounded (mount d2f objectUrl stored))"
proof (cases stored)
  case NoItem
  then show ?thesis
    by (simp add: mount_def flagsMatchStacks_def historyBounded_def initialApp_def)
next
  case Unparsable
  then show ?thesis
    by (simp add: mount_def flagsMatchStacks_def historyBounded_def initialApp_def)
next
  case (Parsed saved)
  have "undoHistory initialApp = []" "redoHistory initialApp = []"
    "\<not> canUndo initialApp" "\<not> canRedo initialApp"
    by (simp_all add: initialApp_def)
  from loadSavedState_history [OF this, of d2f objectUrl saved] Parsed
  show ?thesis
    by (auto simp add: mount_def historyBounded_def storedWithinBound_def)
qed

lemma butlast_empty_conv: "(butlast xs = []) = (length xs \<le> 1)"
  by (cases xs rule: rev_cases) auto

lemma resume_flags:
  "flagsMatchStacks s \<Longrightarrow>
   flagsMatchStacks (handleProductDrop_resume d2f now previousScene outcome s)"
  "flagsMatchStacks s \<Longrightarrow>
   flagsMatchStacks (handleSceneDesignGeneration_resume d2f now previousScene outcome' s)"
  "flagsMatchStacks s \<Longrightarrow>
   flagsMatchStacks (handleSurfaceModificationSubmit_resume d2f now previousScene outcome' s)"
  by (auto simp add: flagsMatchStacks_def handleProductDrop_resume_def
      handleSceneDesignGeneration_resume_def handleSurfaceModificationSubmit_resume_def Let_def
      split: settled.splits sum.splits list.splits)

lemma undo_redo_flags:
  "flagsMatchStacks s \<Longrightarrow> flagsMatchStacks (handleUndo s)"
  "flagsMatchStacks s \<Longrightarrow> flagsMatchStacks (handleRedo s)"
  by (auto simp add: flagsMatchStacks_def handleUndo_def handleRedo_def butlast_empty_conv
      split: option.splits)

lemma step_flags:
  assumes "flagsMatchStacks s"
  shows "flagsMatchStacks (step ar d2f e s)"
proof (cases e)
  case (SettleProductDrop now previousScene outcome)
  then show ?thesis using resume_flags(1) [OF assms] by simp
next
  case (SettleSceneDesign now previousScene outcome)
  then show ?thesis using resume_flags(2) [OF assms] by simp
next
  case (SettleSurfaceModification now previousScene outcome)
  then show ?thesis using resume_flags(3) [OF assms] by simp
next
  case Undo
  then show ?thesis using undo_redo_flags(1) [OF assms] by simp
next
  case Redo
  then show ?thesis using undo_redo_flags(2) [OF assms] by simp
next
  case (InstantStartLoaded sceneFile objectFile now imageUrl)
  then show ?thesis
    by (simp add: flagsMatchStacks_def handleInstantStart_loaded_def menu_history)
next
  case Reset
  then show ?thesis by (simp add: flagsMatchStacks_def handleReset_def)
next
  case ChangeScene
  then show ?thesis by (simp add: flagsMatchStacks_def handleChangeScene_def)
qed (use assms in \<open>simp_all add: flagsMatchStacks_def start_history touch_history menu_history
    handleInstantStart_start_def handleInstantStart_failed_def\<close>)

lemma run_flags: "flagsMatchStacks s \<Longrightarrow> flagsMatchStacks (run ar d2f evs s)"
  by (induction evs arbitrary: s) (simp_all add: step_flags)


subsection \<open>The bound of the undo stack\<close>

lemmas example_defs =
  exampleFull_def exampleBusy_def examplePrepared_def exampleReady_def handleAddProduct_def
  initialApp_def

text \<open>
  Claim C2, as worded, fails on the code. The mount effect installs the stored
  history arrays whatever their length, a commit drops one scene only, and redo
  pushes without a cap. From a stored item with a scene and eleven undo entries, a
  redesign instruction typed and the redesign committed leave an undo stack of eleven
  scenes; from a stored item with ten undo entries and one redo entry, a redo leaves
  an undo stack of eleven scenes.
\<close>

theorem undo_stack_of_eleven_after_commit:
  "length (undoHistory (mount exampleDecoder exampleObjectUrl exampleStoredEleven)) = 11 \<and>
   sceneImage (mount exampleDecoder exampleObjectUrl exampleStoredEleven)
     = Some (File ''scene.jpeg'' ''image/jpeg'' ''S0'') \<and>
   succeeds exampleDecoder ''1'' (RedesignScene (Fulfilled ''S1''))
     (step ieee754 exampleDecoder (EditPrompt examplePrompt)
        (mount exampleDecoder exampleObjectUrl exampleStoredEleven))
     (File ''redesigned-scene-1.jpeg'' ''image/jpeg'' ''S1'') \<and>
   length (undoHistory (fst (submit exampleDecoder ''1'' (RedesignScene (Fulfilled ''S1''))
     (step ieee754 exampleDecoder (EditPrompt examplePrompt)
        (mount exampleDecoder exampleObjectUrl exampleStoredEleven))))) = 11 \<and>
   length (undoHistory
     (run ieee754 exampleDecoder
        [EditPrompt examplePrompt, StartSceneDesign,
         SettleSceneDesign ''1'' (File ''scene.jpeg'' ''image/jpeg'' ''S0'') (Fulfilled ''S1'')]
        (mount exampleDecoder exampleObjectUrl exampleStoredEleven))) = 11 \<and>
   sceneImage
     (run ieee754 exampleDecoder
        [EditPrompt examplePrompt, StartSceneDesign,
         SettleSceneDesign ''1'' (File ''scene.jpeg'' ''image/jpeg'' ''S0'') (Fulfilled ''S1'')]
        (mount exampleDecoder exampleObjectUrl exampleStoredEleven))
     = Some (File ''redesigned-scene-1.jpeg'' ''image/jpeg'' ''S1'') \<and>
   length (undoHistory (mount exampleDecoder exampleObjectUrl exampleStoredTenAndOne)) = 10 \<and>
   length (undoHistory
     (run ieee754 exampleDecoder [Redo]
        (mount exampleDecoder exampleObjectUrl exampleStoredTenAndOne))) = 11"
proof -
  have m: "mount exampleDecoder exampleObjectUrl exampleStoredEleven =
           initialApp\<lparr> sceneImage := Some (File ''scene.jpeg'' ''image/jpeg'' ''S0''),
                       undoHistory := replicate 11 (File ''undo.jpeg'' ''image/jpeg'' ''U''),
                       canUndo := True \<rparr>"
    by (simp add: mount_def exampleStoredEleven_def loadSavedState_def
        loadProductsPart_def loadScenePart_def loadUndoPart_def loadRedoPart_def
        exampleDecoder_def numeral_eq_Suc)
  have n: "mount exampleDecoder exampleObjectUrl exampleStoredTenAndOne =
           initialApp\<lparr> sceneImage := Some (File ''scene.jpeg'' ''image/jpeg'' ''S0''),
                       undoHistory := replicate 10 (File ''undo.jpeg'' ''image/jpeg'' ''U''),
                       canUndo := True,
                       redoHistory := [File ''redo.jpeg'' ''image/jpeg'' ''R''],
                       canRedo := True \<rparr>"
    by (simp add: mount_def exampleStoredTenAndOne_def loadSavedState_def
        loadProductsPart_def loadScenePart_def loadUndoPart_def loadRedoPart_def
        exampleDecoder_def numeral_eq_Suc)
  have a: "length (undoHistory (mount exampleDecoder exampleObjectUrl exampleStoredEleven)) = 11"
    by (simp add: m)
  have b: "sceneImage (mount exampleDecoder exampleObjectUrl exampleStoredEleven)
     = Some (File ''scene.jpeg'' ''image/jpeg'' ''S0'')"
    by (simp add: m)
  have c: "succeeds exampleDecoder ''1'' (RedesignScene (Fulfilled ''S1''))
     (step ieee754 exampleDecoder (EditPrompt examplePrompt)
        (mount exampleDecoder exampleObjectUrl exampleStoredEleven))
     (File ''redesigned-scene-1.jpeg'' ''image/jpeg'' ''S1'')"
    by (simp add: m succeeds_def handleSceneDesignGeneration_start_def exampleDecoder_def
        trimIsEmpty_def isWhitespace_def examplePrompt_def)
  have d: "length (undoHistory (fst (submit exampleDecoder ''1'' (RedesignScene (Fulfilled ''S1''))
     (step ieee754 exampleDecoder (EditPrompt examplePrompt)
        (mount exampleDecoder exampleObjectUrl exampleStoredEleven))))) = 11"
    by (simp add: m submit_def handleSceneDesignGeneration_start_def
        handleSceneDesignGeneration_resume_def exampleDecoder_def
        trimIsEmpty_def isWhitespace_def examplePrompt_def)
  have e: "length (undoHistory
     (run ieee754 exampleDecoder
        [EditPrompt examplePrompt, StartSceneDesign,
         SettleSceneDesign ''1'' (File ''scene.jpeg'' ''image/jpeg'' ''S0'') (Fulfilled ''S1'')]
        (mount exampleDecoder exampleObjectUrl exampleStoredEleven))) = 11"
    by (simp add: m handleSceneDesignGeneration_start_def
        handleSceneDesignGeneration_resume_def exampleDecoder_def
        trimIsEmpty_def isWhitespace_def examplePrompt_def)
  have f: "sceneImage
     (run ieee754 exampleDecoder
        [EditPrompt examplePrompt, StartSceneDesign,
         SettleSceneDesign ''1'' (File ''scene.jpeg'' ''image/jpeg'' ''S0'') (Fulfilled ''S1'')]
        (mount exampleDecoder exampleObjectUrl exampleStoredEleven))
     = Some (File ''redesigned-scene-1.jpeg'' ''image/jpeg'' ''S1'')"
    by (simp add: m handleSceneDesignGeneration_start_def
        handleSceneDesignGeneration_resume_def exampleDecoder_def
        trimIsEmpty_def isWhitespace_def examplePrompt_def)
  have g: "length (undoHistory (mount exampleDecoder exampleObjectUrl exampleStoredTenAndOne))
     = 10"
    by (simp add: n)
  have h: "length (undoHistory
     (run ieee754 exampleDecoder [Redo]
        (mount exampleDecoder exampleObjectUrl exampleStoredTenAndOne))) = 11"
    by (simp add: n handleRedo_def)
  show ?thesis using a b c d e f g h by (intro conjI)
qed

text \<open>
  Claim C2, amended. From a state whose two stacks together hold at most ten scenes,
  such as the state after a mount without stored state or with stored history arrays
  that together hold at most ten entries, the undo stack holds at most ten scenes
  after any run of events (with every interleaving of starts and settlings of
  submissions), and so after every commit. A commit on a stack of at most ten scenes
  leaves at most ten. A commit on a stack of ten or more scenes drops the oldest
  scene, at the bottom, and keeps the new one on top, so the length stays what it
  was; on a shorter stack nothing is dropped. The bound is not re-established for
  history arrays that were stored with more entries.
\<close>

theorem undo_stack_bounded:
  "(storedWithinBound stored \<longrightarrow>
      length (undoHistory (run ar d2f evs (mount d2f objectUrl stored))) \<le> 10) \<and>
   (historyBounded s \<longrightarrow> length (undoHistory (run ar d2f evs s)) \<le> 10) \<and>
   (succeeds d2f now sub s newScene \<and> length (undoHistory s) \<le> 10 \<longrightarrow>
      length (undoHistory (fst (submit d2f now sub s))) \<le> 10) \<and>
   (succeeds d2f now sub s newScene \<and> sceneImage s = Some previousScene \<and>
    length (undoHistory s) = 10 \<longrightarrow>
      undoHistory (fst (submit d2f now sub s)) = tl (undoHistory s) @ [previousScene]) \<and>
   (succeeds d2f now sub s newScene \<and> sceneImage s = Some previousScene \<and>
    length (undoHistory s) < 10 \<longrightarrow>
      undoHistory (fst (submit d2f now sub s)) = undoHistory s @ [previousScene]) \<and>
   (succeeds d2f now sub s newScene \<and> sceneImage s = Some previousScene \<and>
    length (undoHistory s) \<ge> 10 \<longrightarrow>
      undoHistory (fst (submit d2f now sub s)) = tl (undoHistory s) @ [previousScene] \<and>
      length (undoHistory (fst (submit d2f now sub s))) = length (undoHistory s))"
proof -
  have a: "storedWithinBound stored \<longrightarrow>
      length (undoHistory (run ar d2f evs (mount d2f objectUrl stored))) \<le> 10"
  proof
    assume "storedWithinBound stored"
    then have "historyBounded (mount d2f objectUrl stored)" using mount_history by blast
    then have "historyBounded (run ar d2f evs (mount d2f objectUrl stored))"
      by (rule run_bounded)
    then show "length (undoHistory (run ar d2f evs (mount d2f objectUrl stored))) \<le> 10"
      by (simp add: historyBounded_def)
  qed
  have b: "historyBounded s \<longrightarrow> length (undoHistory (run ar d2f evs s)) \<le> 10"
    using run_bounded [of s ar d2f evs] by (auto simp add: historyBounded_def)
  have c: "succeeds d2f now sub s newScene \<and> length (undoHistory s) \<le> 10 \<longrightarrow>
      length (undoHistory (fst (submit d2f now sub s))) \<le> 10"
    using submit_success_effect [of d2f now sub s newScene] by auto
  have d: "succeeds d2f now sub s newScene \<and> sceneImage s = Some previousScene \<and>
    length (undoHistory s) = 10 \<longrightarrow>
      undoHistory (fst (submit d2f now sub s)) = tl (undoHistory s) @ [previousScene]"
  proof
    assume h: "succeeds d2f now sub s newScene \<and> sceneImage s = Some previousScene \<and>
      length (undoHistory s) = 10"
    then have "undoHistory s \<noteq> []" by auto
    then show "undoHistory (fst (submit d2f now sub s)) = tl (undoHistory s) @ [previousScene]"
      using h submit_success_effect [of d2f now sub s newScene] by auto
  qed
  have e: "succeeds d2f now sub s newScene \<and> sceneImage s = Some previousScene \<and>
    length (undoHistory s) < 10 \<longrightarrow>
      undoHistory (fst (submit d2f now sub s)) = undoHistory s @ [previousScene]"
    using submit_success_effect [of d2f now sub s newScene] by auto
  have f: "succeeds d2f now sub s newScene \<and> sceneImage s = Some previousScene \<and>
    length (undoHistory s) \<ge> 10 \<longrightarrow>
      undoHistory (fst (submit d2f now sub s)) = tl (undoHistory s) @ [previousScene] \<and>
      length (undoHistory (fst (submit d2f now sub s))) = length (undoHistory s)"
  proof
    assume h: "succeeds d2f now sub s newScene \<and> sceneImage s = Some previousScene \<and>
      length (undoHistory s) \<ge> 10"
    then have ne: "undoHistory s \<noteq> []" by auto
    then have u: "undoHistory (fst (submit d2f now sub s)) =
        tl (undoHistory s) @ [previousScene]"
      using h submit_success_effect [of d2f now sub s newScene] by auto
    have "length (tl (undoHistory s) @ [previousScene]) = length (undoHistory s)"
      using ne by (cases "undoHistory s") simp_all
    then show "undoHistory (fst (submit d2f now sub s)) = tl (undoHistory s) @ [previousScene] \<and>
      length (undoHistory (fst (submit d2f now sub s))) = length (undoHistory s)"
      using u by simp
  qed
  show ?thesis using a b c d e f by (intro conjI)
qed

theorem undo_stack_bounded_witness:
  "storedWithinBound exampleStoredWithoutScene \<and>
   historyBounded exampleFull \<and>
   succeeds exampleDecoder ''1'' (RedesignScene (Fulfilled ''S1'')) exampleFull
     (File ''redesigned-scene-1.jpeg'' ''image/jpeg'' ''S1'') \<and>
   sceneImage exampleFull = Some exampleScene \<and>
   length (undoHistory exampleFull) = 10 \<and>
   length (undoHistory (run ieee754 exampleDecoder [Undo, Redo]
     (mount exampleDecoder exampleObjectUrl exampleStoredWithoutScene))) \<le> 10 \<and>
   undoHistory (fst (submit exampleDecoder ''1'' (RedesignScene (Fulfilled ''S1'')) exampleFull))
     = replicate 9 exampleProductFile @ [exampleScene]"
proof -
  have st: "storedWithinBound exampleStoredWithoutScene"
    by (simp add: storedWithinBound_def exampleStoredWithoutScene_def)
  have hb: "historyBounded exampleFull"
    by (simp add: historyBounded_def example_defs)
  have sc: "sceneImage exampleFull = Some exampleScene"
    by (simp add: example_defs)
  have len: "length (undoHistory exampleFull) = 10"
    by (simp add: exampleFull_def)
  have tl: "tl (undoHistory exampleFull) = replicate 9 exampleProductFile"
    by (simp add: exampleFull_def)
  have su: "succeeds exampleDecoder ''1'' (RedesignScene (Fulfilled ''S1'')) exampleFull
     (File ''redesigned-scene-1.jpeg'' ''image/jpeg'' ''S1'')"
    by (simp add: succeeds_def handleSceneDesignGeneration_start_def exampleDecoder_def
        example_defs trimIsEmpty_def isWhitespace_def examplePrompt_def)
  show ?thesis
    using undo_stack_bounded [where stored = exampleStoredWithoutScene and ar = ieee754
        and d2f = exampleDecoder and evs = "[Undo, Redo]" and objectUrl = exampleObjectUrl
        and s = exampleFull and now = "''1''" and sub = "RedesignScene (Fulfilled ''S1'')"
        and newScene = "File ''redesigned-scene-1.jpeg'' ''image/jpeg'' ''S1''"
        and previousScene = exampleScene]
      st hb sc len su tl
    by simp
qed

subsection \<open>Who empties the redo stack\<close>

lemma step_keeps_redo:
  assumes "\<not> takesFromRedo e"
  shows "redoHistory (step ar d2f e s) = redoHistory s \<or>
         (e = Undo \<and> (\<exists>current. sceneImage s = Some current \<and>
            redoHistory (step ar d2f e s) = redoHistory s @ [current]))"
proof (cases e)
  case Undo
  then show ?thesis by (auto simp add: handleUndo_def split: option.splits)
qed (use assms in \<open>simp_all add: start_history touch_history menu_history
    handleInstantStart_start_def handleInstantStart_failed_def\<close>)

text \<open>
  Claim C3 as stated fails: a change of scene, which is no commit, empties a redo stack
  that holds a scene, and so does the reset. The state used is reached by one redesign
  followed by one undo.
\<close>

theorem redo_stack_emptied_without_commit:
  "redoHistory
     (handleUndo (fst (submit exampleDecoder ''1'' (RedesignScene (Fulfilled ''S1''))
        examplePrepared)))
     = [File ''redesigned-scene-1.jpeg'' ''image/jpeg'' ''S1''] \<and>
   redoHistory
     (handleChangeScene
        (handleUndo (fst (submit exampleDecoder ''1'' (RedesignScene (Fulfilled ''S1''))
           examplePrepared))))
     = [] \<and>
   redoHistory
     (handleReset
        (handleUndo (fst (submit exampleDecoder ''1'' (RedesignScene (Fulfilled ''S1''))
           examplePrepared))))
     = []"
  by (simp add: submit_def handleSceneDesignGeneration_start_def
      handleSceneDesignGeneration_resume_def handleUndo_def handleChangeScene_def
      handleReset_def exampleDecoder_def example_defs trimIsEmpty_def isWhitespace_def examplePrompt_def)

text \<open>
  Claim C3, amended. Every commit leaves the redo stack empty. Undo and redo never
  clear it: undo pops one scene from the undo stack and pushes exactly the current
  scene onto the redo stack, redo pops one scene from the redo stack and pushes
  exactly the current scene onto the undo stack, and a blocked undo or redo changes
  nothing. Besides commit, the resets of the history (reset, change of scene, instant
  start) empty the redo stack, together with the undo stack. Every other event leaves
  the redo stack as it is.
\<close>

theorem redo_stack_cleared_by_commit_and_resets:
  "(succeeds d2f now sub s newScene \<longrightarrow> redoHistory (fst (submit d2f now sub s)) = []) \<and>
   (undoHistory s \<noteq> [] \<and> sceneImage s = Some current \<longrightarrow>
      redoHistory (handleUndo s) = redoHistory s @ [current] \<and>
      undoHistory (handleUndo s) = butlast (undoHistory s) \<and>
      sceneImage (handleUndo s) = Some (last (undoHistory s))) \<and>
   (undoHistory s = [] \<or> sceneImage s = None \<longrightarrow> handleUndo s = s) \<and>
   (redoHistory s \<noteq> [] \<and> sceneImage s = Some current \<longrightarrow>
      undoHistory (handleRedo s) = undoHistory s @ [current] \<and>
      redoHistory (handleRedo s) = butlast (redoHistory s) \<and>
      sceneImage (handleRedo s) = Some (last (redoHistory s))) \<and>
   (redoHistory s = [] \<or> sceneImage s = None \<longrightarrow> handleRedo s = s) \<and>
   redoHistory (handleReset s) = [] \<and>
   undoHistory (handleReset s) = [] \<and>
   redoHistory (handleChangeScene s) = [] \<and>
   undoHistory (handleChangeScene s) = [] \<and>
   redoHistory (handleInstantStart_loaded sceneFile objectFile newId imageUrl s) = [] \<and>
   undoHistory (handleInstantStart_loaded sceneFile objectFile newId imageUrl s) = [] \<and>
   (\<not> takesFromRedo e \<longrightarrow>
      redoHistory (step ar d2f e s) = redoHistory s \<or>
      (e = Undo \<and> (\<exists>c. sceneImage s = Some c \<and>
         redoHistory (step ar d2f e s) = redoHistory s @ [c])))"
proof -
  have a: "succeeds d2f now sub s newScene \<longrightarrow> redoHistory (fst (submit d2f now sub s)) = []"
    using submit_success_effect [of d2f now sub s newScene] by auto
  have b: "undoHistory s \<noteq> [] \<and> sceneImage s = Some current \<longrightarrow>
      redoHistory (handleUndo s) = redoHistory s @ [current] \<and>
      undoHistory (handleUndo s) = butlast (undoHistory s) \<and>
      sceneImage (handleUndo s) = Some (last (undoHistory s))"
    using handleUndo_effect [of s current] by simp
  have c: "undoHistory s = [] \<or> sceneImage s = None \<longrightarrow> handleUndo s = s"
    using handleUndo_blocked by blast
  have d: "redoHistory s \<noteq> [] \<and> sceneImage s = Some current \<longrightarrow>
      undoHistory (handleRedo s) = undoHistory s @ [current] \<and>
      redoHistory (handleRedo s) = butlast (redoHistory s) \<and>
      sceneImage (handleRedo s) = Some (last (redoHistory s))"
    using handleRedo_effect [of s current] by simp
  have e: "redoHistory s = [] \<or> sceneImage s = None \<longrightarrow> handleRedo s = s"
    using handleRedo_blocked by blast
  have f: "redoHistory (handleReset s) = []" "undoHistory (handleReset s) = []"
    by (simp_all add: handleReset_def)
  have g: "redoHistory (handleChangeScene s) = []" "undoHistory (handleChangeScene s) = []"
    by (simp_all add: handleChangeScene_def)
  have h: "redoHistory (handleInstantStart_loaded sceneFile objectFile newId imageUrl s) = []"
    "undoHistory (handleInstantStart_loaded sceneFile objectFile newId imageUrl s) = []"
    by (simp_all add: handleInstantStart_loaded_def menu_history)
  have i: "\<not> takesFromRedo e \<longrightarrow>
      redoHistory (step ar d2f e s) = redoHistory s \<or>
      (e = Undo \<and> (\<exists>c. sceneImage s = Some c \<and>
         redoHistory (step ar d2f e s) = redoHistory s @ [c]))"
    using step_keeps_redo by blast
  show ?thesis using a b c d e f g h i by (intro conjI)
qed

theorem redo_stack_cleared_by_commit_and_resets_witness:
  "succeeds exampleDecoder ''1'' (RedesignScene (Fulfilled ''S1'')) exampleFull
     (File ''redesigned-scene-1.jpeg'' ''image/jpeg'' ''S1'') \<and>
   redoHistory (fst (submit exampleDecoder ''1'' (RedesignScene (Fulfilled ''S1'')) exampleFull))
     = [] \<and>
   undoHistory exampleFull \<noteq> [] \<and> sceneImage exampleFull = Some exampleScene \<and>
   redoHistory (handleUndo exampleFull) = [exampleScene] \<and>
   sceneImage (handleUndo exampleFull) = Some exampleProductFile \<and>
   redoHistory exampleFull = [] \<and> handleRedo exampleFull = exampleFull \<and>
   \<not> takesFromRedo Undo \<and>
   redoHistory (step ieee754 exampleDecoder Undo exampleFull) = redoHistory exampleFull @ [exampleScene]"
proof -
  have sc: "sceneImage exampleFull = Some exampleScene" by (simp add: example_defs)
  have un: "undoHistory exampleFull \<noteq> []" by (simp add: example_defs)
  have la: "last (undoHistory exampleFull) = exampleProductFile" by (simp add: example_defs)
  have re: "redoHistory exampleFull = []" by (simp add: example_defs)
  have su: "succeeds exampleDecoder ''1'' (RedesignScene (Fulfilled ''S1'')) exampleFull
     (File ''redesigned-scene-1.jpeg'' ''image/jpeg'' ''S1'')"
    by (simp add: succeeds_def handleSceneDesignGeneration_start_def exampleDecoder_def
        example_defs trimIsEmpty_def isWhitespace_def examplePrompt_def)
  show ?thesis
    using redo_stack_cleared_by_commit_and_resets [where d2f = exampleDecoder
        and now = "''1''" and sub = "RedesignScene (Fulfilled ''S1'')" and s = exampleFull
        and newScene = "File ''redesigned-scene-1.jpeg'' ''image/jpeg'' ''S1''"
        and current = exampleScene and e = Undo and ar = ieee754]
      sc un la re su
    by simp
qed

subsection \<open>The busy flag\<close>

text \<open>
  Every event but a placement request and the end of a touch drag acts without regard
  to the busy flag.
\<close>

lemma step_ignores_busy:
  assumes "\<not> consultsBusy e"
  shows "(step ar d2f e (s\<lparr> isLoading := busy \<rparr>))\<lparr> isLoading := other \<rparr> =
           (step ar d2f e s)\<lparr> isLoading := other \<rparr>"
proof (cases e)
  case (PlacementRequest req)
  then show ?thesis using assms by simp
next
  case (TouchEnd touch dropZone img)
  then show ?thesis using assms by simp
next
  case (PlaceProductAction placementStyle)
  then show ?thesis
    by (simp add: handlePlaceProductAction_def handleProductDrop_start_def activeProduct_def
        Let_def split: option.splits)
next
  case (StartProductDrop position relativePosition placementStyle)
  then show ?thesis
    by (simp add: handleProductDrop_start_def activeProduct_def Let_def split: option.splits)
next
  case StartSceneDesign
  then show ?thesis
    by (simp add: handleSceneDesignGeneration_start_def split: option.splits)
next
  case (StartSurfaceModification modificationValue)
  then show ?thesis
    by (simp add: handleSurfaceModificationSubmit_start_def split: option.splits)
next
  case (SettleProductDrop now previousScene outcome)
  then show ?thesis
    by (simp add: handleProductDrop_resume_def Let_def split: settled.splits sum.splits)
next
  case (SettleSceneDesign now previousScene outcome)
  then show ?thesis
    by (simp add: handleSceneDesignGeneration_resume_def Let_def
        split: settled.splits sum.splits)
next
  case (SettleSurfaceModification now previousScene outcome)
  then show ?thesis
    by (simp add: handleSurfaceModificationSubmit_resume_def Let_def
        split: settled.splits sum.splits)
next
  case Undo
  then show ?thesis by (simp add: handleUndo_def split: option.splits)
next
  case Redo
  then show ?thesis by (simp add: handleRedo_def split: option.splits)
qed (simp_all add: handleAddProduct_def silhouetteGenerated_def closeContextMenu_def
    handleModifySurfaceRequest_def handleInstantStart_start_def handleInstantStart_loaded_def
    handleInstantStart_failed_def handleReset_def handleChangeScene_def handleTouchStart_def
    handleTouchMove_def activeProduct_def split: option.splits)

text \<open>
  Claim C4 as stated fails: with a mutation in flight, each of the three submitting
  handlers, called with its other preconditions met, goes on to call the generator.
\<close>

theorem busy_submission_calls_generator:
  "isLoading exampleBusy \<and>
   callOf (handleProductDrop_start (Finite 10, Finite 10) (Finite 50, Finite 50) on_surface exampleBusy) =
     Some (GenerateCompositeImage exampleProductFile ''object.jpeg'' exampleScene ''scene.jpeg''
             (Finite 50, Finite 50) on_surface) \<and>
   callOf (handleSurfaceModificationSubmit_start ''warm beige'' exampleBusy) =
     Some (ModifySurface exampleScene (Finite 50, Finite 50) color ''warm beige'') \<and>
   callOf (handleSceneDesignGeneration_start exampleBusy) =
     Some (GenerateInteriorDesign exampleScene examplePrompt) \<and>
   snd (submit exampleDecoder ''1'' (RedesignScene (Rejected OtherValue)) exampleBusy) =
     [GenerateInteriorDesign exampleScene examplePrompt]"
  by (simp add: submit_def handleProductDrop_start_def
      handleSurfaceModificationSubmit_start_def handleSceneDesignGeneration_start_def
      example_defs exampleScene_def exampleProductFile_def trimIsEmpty_def isWhitespace_def examplePrompt_def)

text \<open>
  Claim C4, amended. While a mutation is in flight a placement request is ignored:
  \<^verbatim>\<open>handlePlacementRequest\<close> returns the state as it is, and the end of a touch
  drag leaves the placement menu and the placement marker as they were. No other
  handler reads the busy flag: every event other than a placement request or the end
  of a touch drag does to a state with the flag set what it does to the same state
  with the flag cleared, the flag itself apart, and the generator call made by each of
  the three submitting handlers and by \<^verbatim>\<open>handlePlaceProductAction\<close> does not
  depend on the flag, so nothing they do or report depends on it. In particular, with
  a menu that was opened before the mutation started,
  \<^verbatim>\<open>handlePlaceProductAction\<close> calls the generator while a mutation is in flight
  and \<^verbatim>\<open>handleModifySurfaceRequest\<close> opens the modification dialogue.
\<close>

theorem busy_flag_read_by_placement_request_only:
  "(isLoading s \<longrightarrow> handlePlacementRequest req s = s) \<and>
   (isLoading s \<longrightarrow>
      placementContextMenu (fst (handleTouchEnd ar touch dropZone img s)) =
        placementContextMenu s \<and>
      persistedOrbPosition (fst (handleTouchEnd ar touch dropZone img s)) =
        persistedOrbPosition s) \<and>
   (\<not> consultsBusy e \<longrightarrow>
      (step ar d2f e (s\<lparr> isLoading := busy \<rparr>))\<lparr> isLoading := other \<rparr> =
        (step ar d2f e s)\<lparr> isLoading := other \<rparr>) \<and>
   callOf (handleProductDrop_start position relativePosition placementStyle
             (s\<lparr> isLoading := busy \<rparr>)) =
     callOf (handleProductDrop_start position relativePosition placementStyle s) \<and>
   callOf (handleSurfaceModificationSubmit_start modificationValue (s\<lparr> isLoading := busy \<rparr>)) =
     callOf (handleSurfaceModificationSubmit_start modificationValue s) \<and>
   callOf (handleSceneDesignGeneration_start (s\<lparr> isLoading := busy \<rparr>)) =
     callOf (handleSceneDesignGeneration_start s) \<and>
   callOf (handlePlaceProductAction placementStyle (s\<lparr> isLoading := busy \<rparr>)) =
     callOf (handlePlaceProductAction placementStyle s) \<and>
   isLoading exampleBusyWithMenu \<and>
   callOf (handlePlaceProductAction on_surface exampleBusyWithMenu) =
     Some (GenerateCompositeImage exampleProductFile ''object.jpeg'' exampleScene ''scene.jpeg''
             (Finite 25, Finite 25) on_surface) \<and>
   surfaceModificationState (handleModifySurfaceRequest color exampleBusyWithMenu) =
     Some \<lparr> modType = color, modPosition = (Finite 25, Finite 25) \<rparr>"
proof -
  have a: "isLoading s \<longrightarrow> handlePlacementRequest req s = s"
    by (simp add: handlePlacementRequest_def)
  have b: "isLoading s \<longrightarrow>
      placementContextMenu (fst (handleTouchEnd ar touch dropZone img s)) =
        placementContextMenu s \<and>
      persistedOrbPosition (fst (handleTouchEnd ar touch dropZone img s)) =
        persistedOrbPosition s"
    by (auto simp add: handleTouchEnd_def handlePlacementRequest_def Let_def
        split: option.splits)
  have c: "callOf (handleProductDrop_start position relativePosition placementStyle
             (s\<lparr> isLoading := busy \<rparr>)) =
     callOf (handleProductDrop_start position relativePosition placementStyle s)"
    by (simp add: handleProductDrop_start_def activeProduct_def Let_def split: option.splits)
  have d: "callOf (handleSurfaceModificationSubmit_start modificationValue
             (s\<lparr> isLoading := busy \<rparr>)) =
     callOf (handleSurfaceModificationSubmit_start modificationValue s)"
    by (simp add: handleSurfaceModificationSubmit_start_def split: option.splits)
  have e: "callOf (handleSceneDesignGeneration_start (s\<lparr> isLoading := busy \<rparr>)) =
     callOf (handleSceneDesignGeneration_start s)"
    by (simp add: handleSceneDesignGeneration_start_def split: option.splits)
  have f: "callOf (handlePlaceProductAction placementStyle (s\<lparr> isLoading := busy \<rparr>)) =
     callOf (handlePlaceProductAction placementStyle s)"
    by (simp add: handlePlaceProductAction_def handleProductDrop_start_def activeProduct_def
        Let_def split: option.splits)
  have g: "\<not> consultsBusy e \<longrightarrow>
      (step ar d2f e (s\<lparr> isLoading := busy \<rparr>))\<lparr> isLoading := other \<rparr> =
        (step ar d2f e s)\<lparr> isLoading := other \<rparr>"
    by (rule impI) (rule step_ignores_busy)
  have h: "isLoading exampleBusyWithMenu"
    by (simp add: exampleBusyWithMenu_def example_defs)
  have i: "callOf (handlePlaceProductAction on_surface exampleBusyWithMenu) =
     Some (GenerateCompositeImage exampleProductFile ''object.jpeg'' exampleScene ''scene.jpeg''
             (Finite 25, Finite 25) on_surface)"
    by (simp add: handlePlaceProductAction_def handleProductDrop_start_def activeProduct_def
        exampleBusyWithMenu_def example_defs exampleScene_def exampleProductFile_def Let_def)
  have j: "surfaceModificationState (handleModifySurfaceRequest color exampleBusyWithMenu) =
     Some \<lparr> modType = color, modPosition = (Finite 25, Finite 25) \<rparr>"
    by (simp add: handleModifySurfaceRequest_def closeContextMenu_def exampleBusyWithMenu_def
        example_defs)
  show ?thesis using a b g c d e f h i j by (intro conjI)
qed

theorem busy_flag_read_by_placement_request_only_witness:
  "isLoading exampleBusy \<and>
   handlePlacementRequest
     \<lparr> reqClientX = Finite 310, reqClientY = Finite 120, reqContainerX = Finite 300,
       reqContainerY = Finite 100, reqRelative = (Finite 25, Finite 25) \<rparr> exampleBusy
     = exampleBusy \<and>
   placementContextMenu
     (fst (handleTouchEnd ieee754 (Finite 600, Finite 400) (Some box800x400)
        (Some image900x900) exampleBusy)) =
     placementContextMenu exampleBusy \<and>
   \<not> consultsBusy Undo \<and>
   (step ieee754 exampleDecoder Undo (exampleBusy\<lparr> isLoading := False \<rparr>))
     \<lparr> isLoading := True \<rparr> =
   (step ieee754 exampleDecoder Undo exampleBusy)\<lparr> isLoading := True \<rparr>"
proof -
  have l: "isLoading exampleBusy" by (simp add: example_defs)
  show ?thesis
    using busy_flag_read_by_placement_request_only [where s = exampleBusy
        and req = "\<lparr> reqClientX = Finite 310, reqClientY = Finite 120,
                     reqContainerX = Finite 300, reqContainerY = Finite 100,
                     reqRelative = (Finite 25, Finite 25) \<rparr>"
        and ar = ieee754 and touch = "(Finite 600, Finite 400)"
        and dropZone = "Some box800x400" and img = "Some image900x900"
        and e = Undo and d2f = exampleDecoder and busy = False and other = True] l
    by simp
qed

subsection \<open>Failed submissions\<close>

text \<open>
  Claim C5. When a submission fails after it was started, the current scene, the undo
  stack and the redo stack are what they were before the submission (and so are the
  two availability flags); nothing is pushed, the captured previous scene is dropped,
  the busy flag is cleared and the error shown is the text of the handler followed by
  the message of the failure, which for an \<^verbatim>\<open>Error\<close> is its own message. The same
  holds when the failure arrives on a state that other events have changed in the
  meantime: the settling of a rejected promise leaves the history of that state as it
  is. A submission that its handler turns away at the guards makes no generator call
  and leaves the history untouched as well.
\<close>

theorem failed_submission_leaves_history:
  "(fails d2f now sub s err \<longrightarrow>
      sceneImage (fst (submit d2f now sub s)) = sceneImage s \<and>
      undoHistory (fst (submit d2f now sub s)) = undoHistory s \<and>
      redoHistory (fst (submit d2f now sub s)) = redoHistory s \<and>
      canUndo (fst (submit d2f now sub s)) = canUndo s \<and>
      canRedo (fst (submit d2f now sub s)) = canRedo s \<and>
      error (fst (submit d2f now sub s)) = Some (failurePrefix sub @ errorMessage err) \<and>
      \<not> isLoading (fst (submit d2f now sub s))) \<and>
   errorMessage (ErrorObject message) = message \<and>
   sameHistory (handleProductDrop_resume d2f now previousScene (Rejected err) t) t \<and>
   sameHistory (handleSceneDesignGeneration_resume d2f now previousScene (Rejected err) t) t \<and>
   sameHistory (handleSurfaceModificationSubmit_resume d2f now previousScene (Rejected err) t) t \<and>
   (snd (submit d2f now sub s) = [] \<longrightarrow> sameHistory (fst (submit d2f now sub s)) s)"
proof -
  have a: "fails d2f now sub s err \<longrightarrow>
      sceneImage (fst (submit d2f now sub s)) = sceneImage s \<and>
      undoHistory (fst (submit d2f now sub s)) = undoHistory s \<and>
      redoHistory (fst (submit d2f now sub s)) = redoHistory s \<and>
      canUndo (fst (submit d2f now sub s)) = canUndo s \<and>
      canRedo (fst (submit d2f now sub s)) = canRedo s \<and>
      error (fst (submit d2f now sub s)) = Some (failurePrefix sub @ errorMessage err) \<and>
      \<not> isLoading (fst (submit d2f now sub s))"
    using submit_failure_effect [of d2f now sub s err] by blast
  have b: "errorMessage (ErrorObject message) = message"
    by (simp add: errorMessage_def)
  have c: "sameHistory (handleProductDrop_resume d2f now previousScene (Rejected err) t) t"
    by (simp add: sameHistory_def handleProductDrop_resume_def)
  have d: "sameHistory (handleSceneDesignGeneration_resume d2f now previousScene (Rejected err) t) t"
    by (simp add: sameHistory_def handleSceneDesignGeneration_resume_def)
  have e: "sameHistory
             (handleSurfaceModificationSubmit_resume d2f now previousScene (Rejected err) t) t"
    by (simp add: sameHistory_def handleSurfaceModificationSubmit_resume_def)
  have f: "snd (submit d2f now sub s) = [] \<longrightarrow> sameHistory (fst (submit d2f now sub s)) s"
  proof (cases sub)
    case (PlaceProduct position relativePosition placementStyle outcome)
    then show ?thesis
      by (auto simp add: submit_def sameHistory_def handleProductDrop_start_def Let_def
          split: option.splits)
  next
    case (ModifySurfaceSubmission modificationValue outcome)
    then show ?thesis
      by (auto simp add: submit_def sameHistory_def handleSurfaceModificationSubmit_start_def
          split: option.splits)
  next
    case (RedesignScene outcome)
    then show ?thesis
      by (auto simp add: submit_def sameHistory_def handleSceneDesignGeneration_start_def
          split: option.splits)
  qed
  show ?thesis using a b c d e f by (intro conjI)
qed

theorem failed_submission_leaves_history_witness:
  "fails exampleDecoder ''1'' (RedesignScene (Rejected (ErrorObject ''quota exceeded'')))
     exampleFull (ErrorObject ''quota exceeded'') \<and>
   sceneImage (fst (submit exampleDecoder ''1''
      (RedesignScene (Rejected (ErrorObject ''quota exceeded''))) exampleFull))
     = Some exampleScene \<and>
   undoHistory (fst (submit exampleDecoder ''1''
      (RedesignScene (Rejected (ErrorObject ''quota exceeded''))) exampleFull))
     = exampleOldest # replicate 9 exampleProductFile \<and>
   redoHistory (fst (submit exampleDecoder ''1''
      (RedesignScene (Rejected (ErrorObject ''quota exceeded''))) exampleFull))
     = [] \<and>
   error (fst (submit exampleDecoder ''1''
      (RedesignScene (Rejected (ErrorObject ''quota exceeded''))) exampleFull))
     = Some ''Failed to generate the design. quota exceeded'' \<and>
   snd (submit exampleDecoder ''1'' (RedesignScene (Rejected OtherValue)) initialApp) = [] \<and>
   sameHistory
     (fst (submit exampleDecoder ''1'' (RedesignScene (Rejected OtherValue)) initialApp))
     initialApp"
proof -
  have fl: "fails exampleDecoder ''1'' (RedesignScene (Rejected (ErrorObject ''quota exceeded'')))
     exampleFull (ErrorObject ''quota exceeded'')"
    by (simp add: fails_def handleSceneDesignGeneration_start_def example_defs trimIsEmpty_def
        isWhitespace_def examplePrompt_def)
  have st: "sceneImage exampleFull = Some exampleScene"
    "undoHistory exampleFull = exampleOldest # replicate 9 exampleProductFile"
    "redoHistory exampleFull = []"
    by (simp_all add: example_defs)
  have em: "snd (submit exampleDecoder ''1'' (RedesignScene (Rejected OtherValue)) initialApp) = []"
    by (simp add: submit_def handleSceneDesignGeneration_start_def initialApp_def)
  show ?thesis
    using failed_submission_leaves_history [of exampleDecoder "''1''"
        "RedesignScene (Rejected (ErrorObject ''quota exceeded''))" exampleFull
        "ErrorObject ''quota exceeded''"]
      failed_submission_leaves_history [of exampleDecoder "''1''"
        "RedesignScene (Rejected OtherValue)" initialApp]
      fl st em
    by (simp add: failurePrefix_def errorMessage_def)
qed

subsection \<open>Two commits, two undos\<close>

lemma push_keeps_top:
  "\<exists>ys. (if length xs \<ge> 10 then tl (xs @ [a]) else xs @ [a]) = ys @ [a]"
  by (cases xs) auto

lemma push_keeps_top_two:
  "\<exists>ys. (if length (zs @ [b]) \<ge> 10 then tl ((zs @ [b]) @ [a]) else (zs @ [b]) @ [a])
        = ys @ [b, a]"
  by (cases zs) auto

text \<open>
  Claim C6. From a state whose current scene is \<open>S0\<close>, a commit of \<open>S1\<close>, a commit
  of \<open>S2\<close> and two undos make \<open>S0\<close> the current scene again (the first undo shows
  \<open>S1\<close>). The commits are successful submissions of any kind; between the four
  operations anything may happen that leaves the current scene and the two stacks
  alone. The undo stack may hold any number of scenes at the start.
\<close>

theorem commit_commit_undo_undo_restores:
  assumes "sceneImage s = Some S0"
    and "succeeds d2f now1 sub1 s S1"
    and "sameHistory s1 (fst (submit d2f now1 sub1 s))"
    and "succeeds d2f now2 sub2 s1 S2"
    and "sameHistory s2 (fst (submit d2f now2 sub2 s1))"
    and "sameHistory s3 (handleUndo s2)"
  shows "sceneImage (handleUndo s2) = Some S1 \<and>
         sceneImage (handleUndo s3) = Some S0 \<and>
         redoHistory (handleUndo s3) = [S2, S1]"
proof -
  from submit_success_effect [OF assms(2)] assms(1)
  have e1: "sceneImage (fst (submit d2f now1 sub1 s)) = Some S1"
    and u1: "undoHistory (fst (submit d2f now1 sub1 s)) =
       (if length (undoHistory s) \<ge> 10 then tl (undoHistory s @ [S0])
        else undoHistory s @ [S0])"
    by auto
  obtain zs where zs: "undoHistory (fst (submit d2f now1 sub1 s)) = zs @ [S0]"
    using u1 push_keeps_top [of "undoHistory s" S0] by auto
  have s1: "sceneImage s1 = Some S1" "undoHistory s1 = zs @ [S0]"
    using assms(3) e1 zs by (simp_all add: sameHistory_def)
  from submit_success_effect [OF assms(4)] s1
  have e2: "sceneImage (fst (submit d2f now2 sub2 s1)) = Some S2"
    and r2: "redoHistory (fst (submit d2f now2 sub2 s1)) = []"
    and u2: "undoHistory (fst (submit d2f now2 sub2 s1)) =
       (if length (zs @ [S0]) \<ge> 10 then tl ((zs @ [S0]) @ [S1]) else (zs @ [S0]) @ [S1])"
    by auto
  obtain ys where ys: "undoHistory (fst (submit d2f now2 sub2 s1)) = ys @ [S0, S1]"
    using u2 push_keeps_top_two [of zs S0 S1] by auto
  have s2: "sceneImage s2 = Some S2" "undoHistory s2 = ys @ [S0, S1]" "redoHistory s2 = []"
    using assms(5) e2 r2 ys by (simp_all add: sameHistory_def)
  have un1: "sceneImage (handleUndo s2) = Some S1"
    "undoHistory (handleUndo s2) = ys @ [S0]" "redoHistory (handleUndo s2) = [S2]"
    using s2 by (simp_all add: handleUndo_def butlast_append)
  have s3: "sceneImage s3 = Some S1" "undoHistory s3 = ys @ [S0]" "redoHistory s3 = [S2]"
    using assms(6) un1 by (simp_all add: sameHistory_def)
  have un2: "sceneImage (handleUndo s3) = Some S0" "redoHistory (handleUndo s3) = [S2, S1]"
    using s3 by (simp_all add: handleUndo_def)
  show ?thesis using un1(1) un2 by simp
qed

theorem commit_commit_undo_undo_restores_witness:
  "sceneImage examplePrepared = Some exampleScene \<and>
   succeeds exampleDecoder ''1'' (RedesignScene (Fulfilled ''S1'')) examplePrepared
     (File ''redesigned-scene-1.jpeg'' ''image/jpeg'' ''S1'') \<and>
   sameHistory exampleAfterFirst
     (fst (submit exampleDecoder ''1'' (RedesignScene (Fulfilled ''S1'')) examplePrepared)) \<and>
   succeeds exampleDecoder ''2''
     (PlaceProduct (Finite 10, Finite 10) (Finite 50, Finite 50) on_surface
        (Fulfilled \<lparr> finalImageUrl = ''S2'', resultDebugImageUrl = None, finalPrompt = None \<rparr>))
     exampleAfterFirst (File ''generated-scene-2.jpeg'' ''image/jpeg'' ''S2'') \<and>
   sceneImage (handleUndo exampleAfterSecond)
     = Some (File ''redesigned-scene-1.jpeg'' ''image/jpeg'' ''S1'') \<and>
   sceneImage (handleUndo (handleUndo exampleAfterSecond)) = Some exampleScene"
proof -
  have a: "sceneImage examplePrepared = Some exampleScene"
    by (simp add: example_defs)
  have b: "succeeds exampleDecoder ''1'' (RedesignScene (Fulfilled ''S1'')) examplePrepared
     (File ''redesigned-scene-1.jpeg'' ''image/jpeg'' ''S1'')"
    by (simp add: succeeds_def handleSceneDesignGeneration_start_def exampleDecoder_def
        example_defs trimIsEmpty_def isWhitespace_def examplePrompt_def)
  have c: "sameHistory exampleAfterFirst
     (fst (submit exampleDecoder ''1'' (RedesignScene (Fulfilled ''S1'')) examplePrepared))"
    by (simp add: sameHistory_def exampleAfterFirst_def)
  have d: "succeeds exampleDecoder ''2''
     (PlaceProduct (Finite 10, Finite 10) (Finite 50, Finite 50) on_surface
        (Fulfilled \<lparr> finalImageUrl = ''S2'', resultDebugImageUrl = None, finalPrompt = None \<rparr>))
     exampleAfterFirst (File ''generated-scene-2.jpeg'' ''image/jpeg'' ''S2'')"
    by (simp add: succeeds_def handleProductDrop_start_def exampleAfterFirst_def submit_def
        handleSceneDesignGeneration_start_def handleSceneDesignGeneration_resume_def
        exampleDecoder_def example_defs trimIsEmpty_def isWhitespace_def examplePrompt_def)
  have e: "sameHistory exampleAfterSecond
     (fst (submit exampleDecoder ''2''
            (PlaceProduct (Finite 10, Finite 10) (Finite 50, Finite 50) on_surface
               (Fulfilled \<lparr> finalImageUrl = ''S2'', resultDebugImageUrl = None,
                            finalPrompt = None \<rparr>))
            exampleAfterFirst))"
    by (simp add: sameHistory_def exampleAfterSecond_def)
  have f: "sameHistory (handleUndo exampleAfterSecond) (handleUndo exampleAfterSecond)"
    by (simp add: sameHistory_def)
  show ?thesis
    using commit_commit_undo_undo_restores [OF a b c d e f] a b c d by simp
qed

subsection \<open>Undo and redo without a scene\<close>

text \<open>
  Claim C9. Undo and redo need a current scene: without one both return the state
  unchanged, whatever the stacks hold. Such a state, with scenes on both stacks and
  both availability flags set, is what the mount effect builds from a stored item
  that has history arrays and no scene. With a scene and a non-empty stack the same
  calls do change the state.
\<close>

theorem undo_redo_require_scene:
  "(sceneImage s = None \<longrightarrow> handleUndo s = s \<and> handleRedo s = s) \<and>
   (sceneImage s \<noteq> None \<and> undoHistory s \<noteq> [] \<longrightarrow> handleUndo s \<noteq> s) \<and>
   (sceneImage s \<noteq> None \<and> redoHistory s \<noteq> [] \<longrightarrow> handleRedo s \<noteq> s) \<and>
   sceneImage (mount exampleDecoder exampleObjectUrl exampleStoredWithoutScene) = None \<and>
   undoHistory (mount exampleDecoder exampleObjectUrl exampleStoredWithoutScene) =
     [File ''undo.jpeg'' ''image/jpeg'' ''U''] \<and>
   redoHistory (mount exampleDecoder exampleObjectUrl exampleStoredWithoutScene) =
     [File ''redo.jpeg'' ''image/jpeg'' ''R''] \<and>
   canUndo (mount exampleDecoder exampleObjectUrl exampleStoredWithoutScene) \<and>
   canRedo (mount exampleDecoder exampleObjectUrl exampleStoredWithoutScene)"
proof -
  have a: "sceneImage s = None \<longrightarrow> handleUndo s = s \<and> handleRedo s = s"
    by (simp add: handleUndo_def handleRedo_def)
  have b: "sceneImage s \<noteq> None \<and> undoHistory s \<noteq> [] \<longrightarrow> handleUndo s \<noteq> s"
  proof
    assume h: "sceneImage s \<noteq> None \<and> undoHistory s \<noteq> []"
    then obtain current where c: "sceneImage s = Some current" by auto
    have "redoHistory (handleUndo s) = redoHistory s @ [current]"
      using h c by (simp add: handleUndo_def)
    then have "redoHistory (handleUndo s) \<noteq> redoHistory s" by simp
    then show "handleUndo s \<noteq> s" by auto
  qed
  have c: "sceneImage s \<noteq> None \<and> redoHistory s \<noteq> [] \<longrightarrow> handleRedo s \<noteq> s"
  proof
    assume h: "sceneImage s \<noteq> None \<and> redoHistory s \<noteq> []"
    then obtain current where c: "sceneImage s = Some current" by auto
    have "undoHistory (handleRedo s) = undoHistory s @ [current]"
      using h c by (simp add: handleRedo_def)
    then have "undoHistory (handleRedo s) \<noteq> undoHistory s" by simp
    then show "handleRedo s \<noteq> s" by auto
  qed
  have m: "mount exampleDecoder exampleObjectUrl exampleStoredWithoutScene =
           initialApp\<lparr> undoHistory := [File ''undo.jpeg'' ''image/jpeg'' ''U''], canUndo := True,
                       redoHistory := [File ''redo.jpeg'' ''image/jpeg'' ''R''], canRedo := True \<rparr>"
    by (simp add: mount_def exampleStoredWithoutScene_def loadSavedState_def
        loadProductsPart_def loadScenePart_def loadUndoPart_def loadRedoPart_def
        exampleDecoder_def)
  have d: "sceneImage (mount exampleDecoder exampleObjectUrl exampleStoredWithoutScene) = None"
    "undoHistory (mount exampleDecoder exampleObjectUrl exampleStoredWithoutScene) =
       [File ''undo.jpeg'' ''image/jpeg'' ''U'']"
    "redoHistory (mount exampleDecoder exampleObjectUrl exampleStoredWithoutScene) =
       [File ''redo.jpeg'' ''image/jpeg'' ''R'']"
    "canUndo (mount exampleDecoder exampleObjectUrl exampleStoredWithoutScene)"
    "canRedo (mount exampleDecoder exampleObjectUrl exampleStoredWithoutScene)"
    by (simp_all add: m initialApp_def)
  show ?thesis using a b c d by (intro conjI)
qed

theorem undo_redo_require_scene_witness:
  "sceneImage (mount exampleDecoder exampleObjectUrl exampleStoredWithoutScene) = None \<and>
   undoHistory (mount exampleDecoder exampleObjectUrl exampleStoredWithoutScene) \<noteq> [] \<and>
   handleUndo (mount exampleDecoder exampleObjectUrl exampleStoredWithoutScene) =
     mount exampleDecoder exampleObjectUrl exampleStoredWithoutScene \<and>
   handleRedo (mount exampleDecoder exampleObjectUrl exampleStoredWithoutScene) =
     mount exampleDecoder exampleObjectUrl exampleStoredWithoutScene \<and>
   sceneImage exampleFull \<noteq> None \<and> undoHistory exampleFull \<noteq> [] \<and>
   handleUndo exampleFull \<noteq> exampleFull"
proof -
  have f: "sceneImage exampleFull \<noteq> None" "undoHistory exampleFull \<noteq> []"
    by (simp_all add: example_defs)
  show ?thesis
    using undo_redo_require_scene
        [of "mount exampleDecoder exampleObjectUrl exampleStoredWithoutScene"]
      undo_redo_require_scene [of exampleFull] f
    by simp
qed

subsection \<open>The availability flags\<close>

text \<open>
  Claim C10. After every operation on the history the flag \<^verbatim>\<open>canUndo\<close> tells
  whether the undo stack is non-empty and the flag \<^verbatim>\<open>canRedo\<close> whether the redo
  stack is non-empty. This holds after the mount, whatever was stored; it is kept by
  every event, hence it holds after every run; and a commit, an undo or redo that
  goes through, a reset and a change of scene establish it from any state.
\<close>

theorem availability_flags_match_stacks:
  "canUndo (run ar d2f evs (mount d2f objectUrl stored)) =
     (undoHistory (run ar d2f evs (mount d2f objectUrl stored)) \<noteq> []) \<and>
   canRedo (run ar d2f evs (mount d2f objectUrl stored)) =
     (redoHistory (run ar d2f evs (mount d2f objectUrl stored)) \<noteq> []) \<and>
   flagsMatchStacks (mount d2f objectUrl stored) \<and>
   (flagsMatchStacks s \<longrightarrow> flagsMatchStacks (step ar d2f e s)) \<and>
   (flagsMatchStacks s \<longrightarrow> flagsMatchStacks (run ar d2f evs s)) \<and>
   (succeeds d2f now sub s newScene \<longrightarrow> flagsMatchStacks (fst (submit d2f now sub s))) \<and>
   (undoHistory s \<noteq> [] \<and> sceneImage s \<noteq> None \<longrightarrow> flagsMatchStacks (handleUndo s)) \<and>
   (redoHistory s \<noteq> [] \<and> sceneImage s \<noteq> None \<longrightarrow> flagsMatchStacks (handleRedo s)) \<and>
   flagsMatchStacks (handleReset s) \<and>
   flagsMatchStacks (handleChangeScene s)"
proof -
  have m: "flagsMatchStacks (mount d2f objectUrl stored)"
    using mount_history by blast
  have r: "flagsMatchStacks (run ar d2f evs (mount d2f objectUrl stored))"
    using m by (rule run_flags)
  have a: "canUndo (run ar d2f evs (mount d2f objectUrl stored)) =
     (undoHistory (run ar d2f evs (mount d2f objectUrl stored)) \<noteq> [])"
    using r by (simp add: flagsMatchStacks_def)
  have b: "canRedo (run ar d2f evs (mount d2f objectUrl stored)) =
     (redoHistory (run ar d2f evs (mount d2f objectUrl stored)) \<noteq> [])"
    using r by (simp add: flagsMatchStacks_def)
  have c: "flagsMatchStacks s \<longrightarrow> flagsMatchStacks (step ar d2f e s)"
    using step_flags by blast
  have d: "flagsMatchStacks s \<longrightarrow> flagsMatchStacks (run ar d2f evs s)"
    using run_flags by blast
  have e: "succeeds d2f now sub s newScene \<longrightarrow> flagsMatchStacks (fst (submit d2f now sub s))"
  proof
    assume "succeeds d2f now sub s newScene"
    from submit_success_effect [OF this] obtain previousScene where
      u: "undoHistory (fst (submit d2f now sub s)) =
            (if length (undoHistory s) \<ge> 10 then tl (undoHistory s @ [previousScene])
             else undoHistory s @ [previousScene])"
      and o: "redoHistory (fst (submit d2f now sub s)) = []"
        "canUndo (fst (submit d2f now sub s))" "\<not> canRedo (fst (submit d2f now sub s))"
      by auto
    have "undoHistory (fst (submit d2f now sub s)) \<noteq> []"
      using u push_keeps_top [of "undoHistory s" previousScene] by auto
    then show "flagsMatchStacks (fst (submit d2f now sub s))"
      using o by (simp add: flagsMatchStacks_def)
  qed
  have f: "undoHistory s \<noteq> [] \<and> sceneImage s \<noteq> None \<longrightarrow> flagsMatchStacks (handleUndo s)"
    by (auto simp add: flagsMatchStacks_def handleUndo_def butlast_empty_conv)
  have g: "redoHistory s \<noteq> [] \<and> sceneImage s \<noteq> None \<longrightarrow> flagsMatchStacks (handleRedo s)"
    by (auto simp add: flagsMatchStacks_def handleRedo_def butlast_empty_conv)
  have h: "flagsMatchStacks (handleReset s)"
    by (simp add: flagsMatchStacks_def handleReset_def)
  have i: "flagsMatchStacks (handleChangeScene s)"
    by (simp add: flagsMatchStacks_def handleChangeScene_def)
  show ?thesis using a b m c d e f g h i by (intro conjI)
qed

theorem availability_flags_match_stacks_witness:
  "flagsMatchStacks exampleFull \<and>
   flagsMatchStacks (run ieee754 exampleDecoder [Undo, Undo, Redo, ChangeScene] exampleFull) \<and>
   succeeds exampleDecoder ''1'' (RedesignScene (Fulfilled ''S1'')) exampleFull
     (File ''redesigned-scene-1.jpeg'' ''image/jpeg'' ''S1'') \<and>
   flagsMatchStacks
     (fst (submit exampleDecoder ''1'' (RedesignScene (Fulfilled ''S1'')) exampleFull)) \<and>
   undoHistory exampleFull \<noteq> [] \<and> sceneImage exampleFull \<noteq> None \<and>
   flagsMatchStacks (handleUndo exampleFull) \<and>
   canUndo (run ieee754 exampleDecoder [Undo]
              (mount exampleDecoder exampleObjectUrl exampleStoredWithoutScene)) =
     (undoHistory (run ieee754 exampleDecoder [Undo]
              (mount exampleDecoder exampleObjectUrl exampleStoredWithoutScene)) \<noteq> [])"
proof -
  have fm: "flagsMatchStacks exampleFull"
    by (simp add: flagsMatchStacks_def example_defs)
  have su: "succeeds exampleDecoder ''1'' (RedesignScene (Fulfilled ''S1'')) exampleFull
     (File ''redesigned-scene-1.jpeg'' ''image/jpeg'' ''S1'')"
    by (simp add: succeeds_def handleSceneDesignGeneration_start_def exampleDecoder_def
        example_defs trimIsEmpty_def isWhitespace_def examplePrompt_def)
  have f: "sceneImage exampleFull \<noteq> None" "undoHistory exampleFull \<noteq> []"
    by (simp_all add: example_defs)
  show ?thesis
    using availability_flags_match_stacks [where ar = ieee754 and d2f = exampleDecoder
        and evs = "[Undo, Undo, Redo, ChangeScene]" and objectUrl = exampleObjectUrl
        and stored = exampleStoredWithoutScene and s = exampleFull and now = "''1''"
        and sub = "RedesignScene (Fulfilled ''S1'')"
        and newScene = "File ''redesigned-scene-1.jpeg'' ''image/jpeg'' ''S1''"]
      availability_flags_match_stacks [where ar = ieee754 and d2f = exampleDecoder
        and evs = "[Undo]" and objectUrl = exampleObjectUrl
        and stored = exampleStoredWithoutScene]
      fm su f
    by simp
qed


end
